theory Spec2Isabelle
  imports Main "HOL-Library.Word" "HOL-Library.Monad_Syntax"
begin

unbundle bit_operations_syntax

section \<open>JavaScript values\<close>

text \<open>
  The controllers compute with JavaScript numbers that are small integers (bytes, cylinder
  numbers, byte counts), so a number is an \<open>int\<close>.  A property that may not hold a number
  yet (\<open>new Array(9)\<close> has nine empty slots, a drive's \<open>bSector\<close> is \<open>undefined\<close> until the
  first command) is a \<open>jsnum\<close>: \<open>None\<close> stands for \<open>undefined\<close> and for the \<open>NaN\<close> that
  arithmetic on \<open>undefined\<close> yields.  Both behave alike in every operator used below:
  arithmetic gives \<open>NaN\<close>, a comparison is false, a bitwise operator reads 0, and both are
  falsy.  The bitwise operators \<open>&\<close> and \<open>|\<close> are those of \<open>int\<close>, which agree with
  JavaScript's on 32-bit operands; \<open><<\<close> wraps at 32 bits and is modelled by \<open>js_shl\<close>.
\<close>

type_synonym jsnum = "int option"

definition js_inc :: "jsnum \<Rightarrow> jsnum" where
  "js_inc v = map_option (\<lambda>n. n + 1) v"

definition js_add :: "jsnum \<Rightarrow> int \<Rightarrow> jsnum" where
  "js_add v n = map_option (\<lambda>x. x + n) v"

definition js_ge :: "jsnum \<Rightarrow> jsnum \<Rightarrow> bool" where
  "js_ge a b = (case (a, b) of (Some x, Some y) \<Rightarrow> y \<le> x | _ \<Rightarrow> False)"

definition js_int :: "jsnum \<Rightarrow> int" where
  "js_int v = (case v of None \<Rightarrow> 0 | Some n \<Rightarrow> n)"

definition js_truthy :: "jsnum \<Rightarrow> bool" where
  "js_truthy v = (case v of None \<Rightarrow> False | Some n \<Rightarrow> n \<noteq> 0)"

definition js_mul :: "jsnum \<Rightarrow> jsnum \<Rightarrow> jsnum" where
  "js_mul a b = (case (a, b) of (Some x, Some y) \<Rightarrow> Some (x * y) | _ \<Rightarrow> None)"

definition js_shl :: "int \<Rightarrow> int \<Rightarrow> int" where
  "js_shl a n = sint (push_bit (nat (n mod 32)) (word_of_int a :: 32 word))"

definition js_index :: "'a option list \<Rightarrow> int \<Rightarrow> 'a option" where
  "js_index xs i = (if 0 \<le> i \<and> i < int (length xs) then xs ! nat i else None)"

definition js_store :: "'a option list \<Rightarrow> int \<Rightarrow> 'a option \<Rightarrow> 'a option list" where
  "js_store xs i v =
     (if i < 0 then xs
      else if i < int (length xs) then xs[nat i := v]
      else xs @ replicate (nat i - length xs) None @ [v])"

section \<open>The disk image\<close>

text \<open>
  Modelled from the spec: the Disk component (disk.js) is not part of the sources; the
  controllers use its \<open>seek\<close>, \<open>read\<close> and \<open>write\<close> calls.  A disk is a finite table from
  cylinder, head and sector ID to the sector's bytes; the sector object \<open>seek\<close> returns is
  the table key.  \<open>read\<close> answers -1 beyond the end of the sector, \<open>write\<close> answers false
  there and on a write-protected disk.
\<close>

type_synonym sector = "int \<times> int \<times> int"

record disk =
  sectors :: "(sector \<times> int list) list"
  fWriteProtected :: bool

definition disk_seek :: "disk \<Rightarrow> jsnum \<Rightarrow> jsnum \<Rightarrow> jsnum \<Rightarrow> sector option" where
  "disk_seek dk c h s =
     (case (c, h, s) of
        (Some c', Some h', Some s') \<Rightarrow>
          (if (c', h', s') \<in> fst ` set (sectors dk) then Some (c', h', s') else None)
      | _ \<Rightarrow> None)"

definition disk_read :: "disk \<Rightarrow> sector \<Rightarrow> jsnum \<Rightarrow> int" where
  "disk_read dk sec ib =
     (case (map_of (sectors dk) sec, ib) of
        (Some bytes, Some i) \<Rightarrow> (if 0 \<le> i \<and> i < int (length bytes) then bytes ! nat i else - 1)
      | _ \<Rightarrow> - 1)"

definition disk_write :: "disk \<Rightarrow> sector \<Rightarrow> jsnum \<Rightarrow> int \<Rightarrow> disk \<times> bool" where
  "disk_write dk sec ib b =
     (case (map_of (sectors dk) sec, ib) of
        (Some bytes, Some i) \<Rightarrow>
          (if \<not> fWriteProtected dk \<and> 0 \<le> i \<and> i < int (length bytes)
           then (dk\<lparr>sectors := map (\<lambda>(k, v). if k = sec then (k, bytes[nat i := b]) else (k, v))
                                   (sectors dk)\<rparr>, True)
           else (dk, False))
      | _ \<Rightarrow> (dk, False))"

section \<open>The fixed disk controller (hdc.js)\<close>

subsection \<open>Drive objects\<close>

record hdrive =
  errorCode :: int
  senseCode :: int
  fRemovable :: bool
  abDriveParms :: "jsnum list"
  abSector :: "jsnum list option"
  bHead :: jsnum
  nHeads :: jsnum
  wCylinder :: jsnum
  bSector :: jsnum
  bSectorEnd :: jsnum
  nBytes :: jsnum
  bSectorBias :: int
  dtype :: int
  nSectors :: int
  cbSector :: int
  nCylinders :: jsnum
  hdisk :: "disk option"
  ibSector :: jsnum
  hsector :: "sector option"
  bControl :: jsnum

text \<open>
  \<open>HDC.prototype.advanceSector\<close>.  Its first statement, \<open>this.assert(wCylinder < nCylinders)\<close>,
  is a diagnostic of debug builds and changes nothing.
\<close>

definition advanceSector :: "hdrive \<Rightarrow> hdrive" where
  "advanceSector drive0 =
     (let drive = drive0\<lparr>bSector := js_inc (bSector drive0)\<rparr>;
          bSectorStart = 1 - bSectorBias drive
      in if js_ge (bSector drive) (Some (nSectors drive + bSectorStart)) then
           (let drive = drive\<lparr>bSector := Some bSectorStart, bHead := js_inc (bHead drive)\<rparr>
            in if js_ge (bHead drive) (nHeads drive)
               then drive\<lparr>bHead := Some 0, wCylinder := js_inc (wCylinder drive)\<rparr>
               else drive)
         else drive)"

subsection \<open>Registers and constants\<close>

definition XTC_STATUS_OK :: int where [simp]: "XTC_STATUS_OK = 0x00"
definition XTC_STATUS_ERROR :: int where [simp]: "XTC_STATUS_ERROR = 0x02"
definition XTC_STATUS_UNIT :: int where [simp]: "XTC_STATUS_UNIT = 0x20"

definition XTC_REQ :: int where [simp]: "XTC_REQ = 0x01"
definition XTC_IOMODE :: int where [simp]: "XTC_IOMODE = 0x02"
definition XTC_BUS :: int where [simp]: "XTC_BUS = 0x04"
definition XTC_BUSY :: int where [simp]: "XTC_BUSY = 0x08"
definition XTC_INTERRUPT :: int where [simp]: "XTC_INTERRUPT = 0x20"

definition XTC_ERR_NONE :: int where [simp]: "XTC_ERR_NONE = 0x00"
definition XTC_ERR_NOT_READY :: int where [simp]: "XTC_ERR_NOT_READY = 0x04"
definition XTC_ERR_NO_SECTOR :: int where [simp]: "XTC_ERR_NO_SECTOR = 0x14"

definition ATC_STATUS_BUSY :: int where [simp]: "ATC_STATUS_BUSY = 0x80"
definition ATC_STATUS_READY :: int where [simp]: "ATC_STATUS_READY = 0x40"
definition ATC_STATUS_SEEK_OK :: int where [simp]: "ATC_STATUS_SEEK_OK = 0x10"
definition ATC_STATUS_DATA_REQ :: int where [simp]: "ATC_STATUS_DATA_REQ = 0x08"
definition ATC_STATUS_ERROR :: int where [simp]: "ATC_STATUS_ERROR = 0x01"
definition ATC_ERROR_NONE :: int where [simp]: "ATC_ERROR_NONE = 0x00"
definition ATC_ERROR_NO_CHS :: int where [simp]: "ATC_ERROR_NO_CHS = 0x10"
definition ATC_DIAG_NO_ERROR :: int where [simp]: "ATC_DIAG_NO_ERROR = 0x01"
definition ATC_FDR_INT_DISABLE :: int where [simp]: "ATC_FDR_INT_DISABLE = 0x02"

text \<open>
  The chip set is another component; the controller only sets and clears its own
  interrupt request there, which is all the model keeps of it.
\<close>

record chipset =
  irr :: bool

text \<open>
  The closure a DMA command hands to \<open>requestDMA\<close>: which worker opened the session, for
  which drive, and the drive bit of the command for the result byte.
\<close>

datatype dma_kind = DMA_Read | DMA_Write | DMA_WriteBuffer

record hdc =
  fATC :: bool
  aDriveConfigs :: "int option list"
  regError :: int
  regWPreC :: int
  regSecCnt :: int
  regSecNum :: int
  regCylLo :: int
  regCylHi :: int
  regDrvHd :: int
  regStatus :: int
  regCommand :: int
  regFDR :: int
  regConfig :: jsnum
  regDataArray :: "jsnum list"
  regDataIndex :: int
  regDataTotal :: int
  regReset :: jsnum
  regPulse :: jsnum
  regPattern :: jsnum
  iDriveAllowFail :: jsnum
  aDrives :: "hdrive list"
  this_drive :: "nat option"
  chipset :: "chipset option"
  dmaSession :: "(dma_kind \<times> nat \<times> int) option"

definition nth_opt :: "'a list \<Rightarrow> int \<Rightarrow> 'a option" where
  "nth_opt xs i = (if 0 \<le> i \<and> i < int (length xs) then Some (xs ! nat i) else None)"

definition setIRR :: "chipset option \<Rightarrow> chipset option" where
  "setIRR cs = map_option (\<lambda>c. c\<lparr>irr := True\<rparr>) cs"

definition clearIRR :: "chipset option \<Rightarrow> chipset option" where
  "clearIRR cs = map_option (\<lambda>c. c\<lparr>irr := False\<rparr>) cs"

text \<open>\<open>HDC.aDriveTypes\<close>: cylinders and heads by controller and drive type.\<close>

definition aDriveTypes :: "bool \<Rightarrow> int \<Rightarrow> (int \<times> int) option" where
  "aDriveTypes atc t =
     (if atc then
        map_of [(0x01, (306, 4)), (0x02, (615, 4)), (0x03, (615, 6)), (0x04, (940, 8)),
                (0x05, (940, 6)), (0x06, (615, 4)), (0x07, (462, 8)), (0x08, (733, 5)),
                (0x09, (900, 15)), (0x0A, (820, 3)), (0x0B, (855, 5)), (0x0C, (855, 7)),
                (0x0D, (306, 8)), (0x0E, (733, 7))] t
      else map_of [(0x00, (306, 2)), (0x01, (375, 8)), (0x02, (306, 6)), (0x03, (306, 4))] t)"

text \<open>
  Modelled from the spec: \<open>new Disk(this, drive, drive.mode)\<close> makes the empty image of a
  drive (\<open>verifyDrive\<close>: "create an empty disk with the specified drive characteristics"):
  every sector of the geometry, filled with zeros.
\<close>

definition new_Disk :: "hdrive \<Rightarrow> disk" where
  "new_Disk drive =
     \<lparr>sectors = concat (map (\<lambda>c. concat (map (\<lambda>h. map (\<lambda>s. ((c, h, s), replicate (nat (cbSector drive)) 0))
                                                    [1 .. nSectors drive])
                                          [0 .. js_int (nHeads drive) - 1]))
                         [0 .. js_int (nCylinders drive) - 1]),
      fWriteProtected = False\<rparr>"

text \<open>
  \<open>HDC.prototype.verifyDrive\<close>.  The result is \<open>None\<close> where the source throws a
  TypeError (a drive type with no row in \<open>HDC.aDriveTypes\<close>).
\<close>

definition verifyDrive :: "bool \<Rightarrow> hdrive \<Rightarrow> int option \<Rightarrow> hdrive option" where
  "verifyDrive atc drive type0 =
     (let parmHeads = (if type0 = None then js_index (abDriveParms drive) 2 else Some 0);
          parmCylinders =
            (if type0 = None \<and> js_truthy parmHeads
             then Some (push_bit 8 (js_int (js_index (abDriveParms drive) 0))
                        OR js_int (js_index (abDriveParms drive) 1))
             else Some 0);
          type1 = (if type0 = None \<and> \<not> js_truthy parmHeads then Some (dtype drive) else type0);
          geometry =
            (case type1 of
               Some t \<Rightarrow>
                 (if \<not> js_truthy parmHeads
                  then map_option (\<lambda>(cyls, heads). (Some heads, Some cyls)) (aDriveTypes atc t)
                  else Some (parmHeads, parmCylinders))
             | None \<Rightarrow> Some (parmHeads, parmCylinders))
      in case geometry of
           None \<Rightarrow> None
         | Some (nHeads1, nCylinders1) \<Rightarrow>
             Some (if js_truthy nHeads1 then
                     (let drive1 = drive\<lparr>nCylinders := nCylinders1, nHeads := nHeads1\<rparr>
                      in if hdisk drive1 = None then drive1\<lparr>hdisk := Some (new_Disk drive1)\<rparr>
                         else drive1)
                   else drive))"

text \<open>
  \<open>HDC.prototype.readByte\<close>.  \<open>hasDone\<close> says whether a \<open>done\<close> callback was passed; the
  disk answers \<open>seek\<close> at once.  The pair is the drive and the byte handed to \<open>done\<close> (the
  byte returned, when there is no \<open>done\<close>); \<open>None\<close> is the TypeError of reading a sector
  of a drive with no disk.
\<close>

definition readByte_seek :: "hdrive \<Rightarrow> bool \<Rightarrow> int \<Rightarrow> int \<Rightarrow> hdrive \<times> int" where
  "readByte_seek drive hasDone inc b =
     (if hasDone then
        (case hdisk drive of
           Some dk \<Rightarrow>
             (case disk_seek dk (wCylinder drive) (bHead drive)
                               (js_add (bSector drive) (bSectorBias drive)) of
                Some sec \<Rightarrow>
                  (let drive1 = advanceSector (drive\<lparr>hsector := Some sec, ibSector := Some 0\<rparr>);
                       b1 = disk_read dk sec (ibSector drive1)
                   in (drive1\<lparr>ibSector := js_add (ibSector drive1) inc\<rparr>, b1))
              | None \<Rightarrow> (drive\<lparr>hsector := None, errorCode := XTC_ERR_NO_SECTOR\<rparr>, b))
         | None \<Rightarrow> (drive\<lparr>errorCode := XTC_ERR_NO_SECTOR\<rparr>, b))
      else (drive, b))"

definition readByte_HDC :: "hdrive \<Rightarrow> bool \<Rightarrow> bool \<Rightarrow> (hdrive \<times> int) option" where
  "readByte_HDC drive hasDone fAutoInc =
     (if errorCode drive \<noteq> 0 then Some (drive, - 1)
      else
        (let inc = (if fAutoInc then 1 else 0) in
         case hsector drive of
           Some sec \<Rightarrow>
             (case hdisk drive of
                None \<Rightarrow> None
              | Some dk \<Rightarrow>
                  (let b = disk_read dk sec (ibSector drive);
                       drive1 = drive\<lparr>ibSector := js_add (ibSector drive) inc\<rparr>
                   in if 0 \<le> b then Some (drive1, b)
                      else Some (readByte_seek drive1 hasDone inc b)))
         | None \<Rightarrow> Some (readByte_seek drive hasDone inc (- 1))))"

subsection \<open>The AT controller\<close>

definition setATCIRR :: "hdc \<Rightarrow> hdc" where
  "setATCIRR c =
     (if regFDR c AND ATC_FDR_INT_DISABLE = 0 then c\<lparr>chipset := setIRR (chipset c)\<rparr> else c)"

text \<open>
  \<open>HDC.prototype.doATC\<close>.  The \<open>switch\<close> is on \<open>bCmd & 0xF0\<close>, so its \<open>SETPARMS\<close> case
  (0x91) stands after \<open>DIAGNOSE\<close> (0x90) as in the source.
\<close>

definition doATC :: "hdc \<Rightarrow> hdc option" where
  "doATC c0 =
     (let bCmd0 = regCommand c0;
          iDrive = (if regDrvHd c0 AND 0x10 \<noteq> 0 then 1 else 0 :: nat);
          nHead = regDrvHd c0 AND 0x0F;
          nCylinder = regCylLo c0 OR push_bit 8 (regCylHi c0 AND 0x03);
          nSector = regSecNum c0;
          nSectors = (if regSecCnt c0 \<noteq> 0 then regSecCnt c0 else 256);
          c1 = c0\<lparr>this_drive := None, regError := ATC_ERROR_NONE,
                   regStatus := ATC_STATUS_READY OR ATC_STATUS_SEEK_OK\<rparr>
      in case nth_opt (aDrives c1) (int iDrive) of
           None \<Rightarrow> Some c1
         | Some drive0 \<Rightarrow>
            (let drive = drive0\<lparr>wCylinder := Some nCylinder, bHead := Some nHead,
                                 bSector := Some nSector,
                                 nBytes := Some (nSectors * cbSector drive0),
                                 hsector := None, ibSector := Some 0, errorCode := 0\<rparr>;
                 bCmd = (if 0x90 \<le> bCmd0 then bCmd0 else bCmd0 AND 0xF0);
                 c2 = c1\<lparr>aDrives := (aDrives c1)[iDrive := drive], this_drive := Some iDrive\<rparr>;
                 op = bCmd AND 0xF0
             in if op = 0x20 then
                  (case readByte_HDC drive True False of
                     None \<Rightarrow> None
                   | Some (drive1, b) \<Rightarrow>
                       (let c3 = c2\<lparr>regStatus := ATC_STATUS_BUSY OR ATC_STATUS_DATA_REQ,
                                     aDrives := (aDrives c2)[iDrive := drive1]\<rparr>
                        in if 0 \<le> b \<and> chipset c3 \<noteq> None
                           then Some ((setATCIRR c3)\<lparr>regStatus := ATC_STATUS_READY OR ATC_STATUS_SEEK_OK\<rparr>)
                           else Some (c3\<lparr>regStatus := ATC_STATUS_ERROR,
                                          regError := ATC_ERROR_NO_CHS\<rparr>)))
                else if op = 0x30 then Some (c2\<lparr>regStatus := ATC_STATUS_DATA_REQ\<rparr>)
                else if op = 0x10 then Some (setATCIRR c2)
                else if op = 0x40 then Some (setATCIRR c2)
                else if op = 0x90 then Some (setATCIRR (c2\<lparr>regError := ATC_DIAG_NO_ERROR\<rparr>))
                else if op = 0x91 then
                  Some (setATCIRR (c2\<lparr>aDrives := (aDrives c2)
                          [iDrive := drive\<lparr>nHeads := Some (nHead + 1), nSectors := nSectors\<rparr>]\<rparr>))
                else Some c2))"

text \<open>\<open>HDC.prototype.outATCCommand\<close> (port 0x1F7).\<close>

definition outATCCommand :: "hdc \<Rightarrow> int \<Rightarrow> hdc option" where
  "outATCCommand c bOut = doATC (c\<lparr>regCommand := bOut, chipset := clearIRR (chipset c)\<rparr>)"

subsection \<open>The XT controller\<close>

text \<open>\<open>HDC.prototype.popCmd\<close>: the next command byte, or -1 when none is left.\<close>

definition popCmd_HDC :: "hdc \<Rightarrow> hdc \<times> jsnum" where
  "popCmd_HDC c =
     (if regDataIndex c < regDataTotal c
      then (c\<lparr>regDataIndex := regDataIndex c + 1\<rparr>, js_index (regDataArray c) (regDataIndex c))
      else (c, Some (- 1)))"

definition pushResult_HDC :: "hdc \<Rightarrow> jsnum \<Rightarrow> hdc" where
  "pushResult_HDC c bResult =
     c\<lparr>regDataArray := js_store (regDataArray c) (regDataTotal c) bResult,
       regDataTotal := regDataTotal c + 1\<rparr>"

text \<open>\<open>HDC.prototype.beginResult\<close>; every call in the source passes a result byte.\<close>

definition beginResult_HDC :: "hdc \<Rightarrow> int \<Rightarrow> hdc" where
  "beginResult_HDC c bResult =
     (let c1 = pushResult_HDC (c\<lparr>regDataIndex := 0, regDataTotal := 0\<rparr>) (Some bResult)
      in c1\<lparr>chipset := setIRR (chipset c1), regStatus := regStatus c1 OR XTC_INTERRUPT\<rparr>)"

text \<open>
  The DMA workers.  Each sets the drive up and either reports at once through \<open>done\<close>
  (the first component is then the status byte) or leaves the report to the callback it
  hands to \<open>requestDMA\<close> (\<open>None\<close>); the callbacks are the \<open>_done\<close> functions, which take
  the drive as the transfer left it and the chip set's \<open>fComplete\<close>.
\<close>

definition dataStatus :: "hdrive \<Rightarrow> int" where
  "dataStatus drive = (if errorCode drive \<noteq> 0 then XTC_STATUS_ERROR else XTC_STATUS_OK)"

definition doDMARead :: "bool \<Rightarrow> hdrive \<Rightarrow> int option \<times> hdrive" where
  "doDMARead hasChipset drive0 =
     (let drive = drive0\<lparr>errorCode := XTC_ERR_NOT_READY\<rparr> in
      if hdisk drive \<noteq> None then
        (let drive1 = drive\<lparr>hsector := None\<rparr> in
         if hasChipset then (None, drive1\<lparr>errorCode := XTC_ERR_NONE\<rparr>)
         else (Some (dataStatus drive1), drive1))
      else (Some (dataStatus drive), drive))"


definition doDMAWrite :: "bool \<Rightarrow> hdrive \<Rightarrow> int option \<times> hdrive" where
  "doDMAWrite hasChipset drive0 =
     (let drive = drive0\<lparr>errorCode := XTC_ERR_NOT_READY\<rparr> in
      if hdisk drive \<noteq> None then
        (let drive1 = drive\<lparr>hsector := None\<rparr> in
         if hasChipset then (None, drive1\<lparr>errorCode := XTC_ERR_NONE\<rparr>)
         else (Some (dataStatus drive1), drive1))
      else (Some (dataStatus drive), drive))"


definition doDMAWriteBuffer :: "bool \<Rightarrow> hdrive \<Rightarrow> int option \<times> hdrive" where
  "doDMAWriteBuffer hasChipset drive0 =
     (let drive1 = drive0\<lparr>errorCode := XTC_ERR_NOT_READY\<rparr>;
          resize = (case abSector drive1 of
                      None \<Rightarrow> True
                    | Some buf \<Rightarrow> Some (int (length buf)) \<noteq> nBytes drive1);
          drive2 = (if resize
                    then drive1\<lparr>abSector := Some (replicate (nat (js_int (nBytes drive1))) None)\<rparr>
                    else drive1);
          drive = drive2\<lparr>ibSector := Some 0\<rparr>
      in if hasChipset then (None, drive\<lparr>errorCode := XTC_ERR_NONE\<rparr>)
         else (Some (dataStatus drive), drive))"


text \<open>
  A DMA command of \<open>doXTC\<close>: the worker runs on the drive; its \<open>done\<close> is
  \<open>hdc.beginResult(bStatus | bDrive)\<close>, called at once or by \<open>dmaComplete\<close>, which stands
  for the chip set calling the callback of the open session.
\<close>

definition doDMA :: "hdc \<Rightarrow> dma_kind \<Rightarrow> nat \<Rightarrow> hdrive \<Rightarrow> int \<Rightarrow> hdc" where
  "doDMA c kind iDrive drive bDrive =
     (let (status, drive1) =
            (case kind of
               DMA_Read \<Rightarrow> doDMARead (chipset c \<noteq> None) drive
             | DMA_Write \<Rightarrow> doDMAWrite (chipset c \<noteq> None) drive
             | DMA_WriteBuffer \<Rightarrow> doDMAWriteBuffer (chipset c \<noteq> None) drive);
          c1 = c\<lparr>aDrives := (aDrives c)[iDrive := drive1]\<rparr>
      in case status of
           Some bStatus \<Rightarrow> beginResult_HDC c1 (bStatus OR bDrive)
         | None \<Rightarrow> c1\<lparr>dmaSession := Some (kind, iDrive, bDrive)\<rparr>)"


text \<open>
  The loop of the \<open>INIT_DRIVE\<close> case of \<open>doXTC\<close>: the bytes left in the command go to
  \<open>drive.abDriveParms\<close>, when there is a drive (\<open>parms\<close> is \<open>None\<close> when there is none).
\<close>

function initParms :: "hdc \<Rightarrow> jsnum list option \<Rightarrow> nat \<Rightarrow> hdc \<times> jsnum list option" where
  "initParms c parms i =
     (let (c1, bParm) = popCmd_HDC c in
      if js_ge bParm (Some 0) then
        (case parms of
           Some ps \<Rightarrow> (if i < length ps then initParms c1 (Some (ps[i := bParm])) (i + 1)
                        else initParms c1 parms i)
         | None \<Rightarrow> initParms c1 parms i)
      else (c1, parms))"
  by pat_completeness auto
termination
  by (relation "measure (\<lambda>(c, parms, i). nat (regDataTotal c - regDataIndex c))")
     (auto simp: popCmd_HDC_def js_ge_def split: if_splits)

declare initParms.simps [simp del]

text \<open>\<open>HDC.prototype.doXTC\<close>; \<open>None\<close> is the TypeError \<open>verifyDrive\<close> may throw.\<close>

definition doXTC :: "hdc \<Rightarrow> hdc option" where
  "doXTC c0 =
     (let (c1, bCmd) = popCmd_HDC (c0\<lparr>regDataIndex := 0\<rparr>);
          (c2, b1) = popCmd_HDC c1;
          bDrive = js_int b1 AND 0x20;
          iDrive = nat (drop_bit 5 bDrive);
          bHead0 = js_int b1 AND 0x1f;
          (c3, b2) = popCmd_HDC c2;
          (c4, b3) = popCmd_HDC c3;
          wCylinder0 = (push_bit 2 (js_int b2) AND 0x300) OR js_int b3;
          bSector0 = js_int b2 AND 0x3f;
          (c5, bCount) = popCmd_HDC c4;
          (c6, bControl0) = popCmd_HDC c5;
          c = (case nth_opt (aDrives c6) (int iDrive) of
                 Some drive \<Rightarrow>
                   c6\<lparr>aDrives := (aDrives c6)
                         [iDrive := drive\<lparr>wCylinder := Some wCylinder0, bHead := Some bHead0,
                                           bSector := Some bSector0,
                                           nBytes := js_mul bCount (Some (cbSector drive))\<rparr>]\<rparr>
               | None \<Rightarrow> c6);
          drive = nth_opt (aDrives c) (int iDrive)
      in if bCmd = Some 0x03 then
           (let r0 = beginResult_HDC c (case drive of Some d \<Rightarrow> errorCode d
                                                    | None \<Rightarrow> XTC_ERR_NOT_READY);
                r1 = pushResult_HDC r0 b1;
                r2 = pushResult_HDC r1 b2;
                r3 = pushResult_HDC r2 b3
            in Some (pushResult_HDC r3 (Some (XTC_STATUS_OK OR bDrive))))
         else if bCmd = Some 0x0C then
           (let (p, parms) = initParms c (map_option abDriveParms drive) 0 in
            case drive of
              Some d \<Rightarrow>
                (case verifyDrive (fATC p) (d\<lparr>abDriveParms := (case parms of Some ps \<Rightarrow> ps
                                                                       | None \<Rightarrow> abDriveParms d)\<rparr>)
                        None of
                   None \<Rightarrow> None
                 | Some d1 \<Rightarrow>
                     Some (beginResult_HDC (p\<lparr>aDrives := (aDrives p)[iDrive := d1]\<rparr>)
                             (XTC_STATUS_OK OR bDrive)))
            | None \<Rightarrow>
                (if iDriveAllowFail p = Some (int iDrive)
                 then Some (beginResult_HDC (p\<lparr>iDriveAllowFail := Some (- 1)\<rparr>)
                              (XTC_STATUS_ERROR OR bDrive))
                 else Some (beginResult_HDC p (XTC_STATUS_OK OR bDrive))))
         else if bCmd = Some 0xE0 \<or> bCmd = Some 0xE4 then
           Some (beginResult_HDC c (XTC_STATUS_OK OR bDrive))
         else if js_ge bCmd (Some 0) then
           (case drive of
              None \<Rightarrow> Some (beginResult_HDC c (XTC_STATUS_ERROR OR bDrive))
            | Some d0 \<Rightarrow>
                (let d = d0\<lparr>errorCode := XTC_ERR_NONE, senseCode := 0\<rparr>;
                     q = c\<lparr>aDrives := (aDrives c)[iDrive := d]\<rparr>
                 in if bCmd = Some 0x00 then Some (beginResult_HDC q (XTC_STATUS_OK OR bDrive))
                    else if bCmd = Some 0x01 then
                      Some (beginResult_HDC
                              (q\<lparr>aDrives := (aDrives q)[iDrive := d\<lparr>bControl := bControl0\<rparr>]\<rparr>)
                              (XTC_STATUS_OK OR bDrive))
                    else if bCmd = Some 0x05 then Some (beginResult_HDC q (XTC_STATUS_OK OR bDrive))
                    else if bCmd = Some 0x08 then Some (doDMA q DMA_Read iDrive d bDrive)
                    else if bCmd = Some 0x0A then Some (doDMA q DMA_Write iDrive d bDrive)
                    else if bCmd = Some 0x0F then Some (doDMA q DMA_WriteBuffer iDrive d bDrive)
                    else Some (beginResult_HDC q (XTC_STATUS_ERROR OR bDrive))))
         else Some c)"

text \<open>\<open>HDC.prototype.outXTCData\<close> (port 0x320, write).\<close>

definition outXTCData :: "hdc \<Rightarrow> int \<Rightarrow> hdc option" where
  "outXTCData c0 bOut =
     (let c1 = (if regDataTotal c0 < int (length (regDataArray c0))
                then c0\<lparr>regDataArray := js_store (regDataArray c0) (regDataTotal c0) (Some bOut),
                         regDataTotal := regDataTotal c0 + 1\<rparr>
                else c0);
          bCmd = js_index (regDataArray c1) 0;
          cbCmd = (if bCmd \<noteq> Some 0x0C then 6 else int (length (regDataArray c1)));
          c2 = (if regDataTotal c1 = 6 then c1\<lparr>regStatus := regStatus c1 AND NOT XTC_REQ\<rparr> else c1)
      in if cbCmd \<le> regDataTotal c2
         then doXTC (c2\<lparr>regStatus := (regStatus c2 OR XTC_IOMODE) AND NOT XTC_REQ\<rparr>)
         else Some c2)"

text \<open>\<open>HDC.prototype.inXTCData\<close> (port 0x320, read): the state and the byte read.\<close>

definition inXTCData :: "hdc \<Rightarrow> hdc \<times> jsnum" where
  "inXTCData c0 =
     (let bIn = (if regDataIndex c0 < regDataTotal c0
                 then js_index (regDataArray c0) (regDataIndex c0) else Some 0);
          c1 = c0\<lparr>chipset := clearIRR (chipset c0),
                   regStatus := regStatus c0 AND NOT XTC_INTERRUPT,
                   regDataIndex := regDataIndex c0 + 1\<rparr>
      in if regDataTotal c1 \<le> regDataIndex c1
         then (c1\<lparr>regDataIndex := 0, regDataTotal := 0,
                   regStatus := regStatus c1 AND NOT (XTC_IOMODE OR XTC_BUS OR XTC_BUSY)\<rparr>, bIn)
         else (c1, bIn))"

text \<open>
  \<open>HDC.prototype.intBIOSDisk\<close>: the hook on INT 0x13, with the CPU's AX and DX.
\<close>

definition intBIOSDisk :: "hdc \<Rightarrow> int \<Rightarrow> int \<Rightarrow> hdc" where
  "intBIOSDisk c regAX regDX =
     (let AH = drop_bit 8 regAX; DL = regDX AND 0xff
      in if AH = 0 \<and> 0x80 < DL then c\<lparr>iDriveAllowFail := Some (DL - 0x80)\<rparr> else c)"


section \<open>The diskette controller (the FDC source file)\<close>

subsection \<open>Error codes\<close>

definition FDC_ERR_NONE :: int where [simp]: "FDC_ERR_NONE = 0x000000"
definition FDC_ERR_NOT_READY :: int where [simp]: "FDC_ERR_NOT_READY = 0x000008"
definition FDC_ERR_SEEK_END :: int where [simp]: "FDC_ERR_SEEK_END = 0x000020"
definition FDC_ERR_INCOMPLETE :: int where [simp]: "FDC_ERR_INCOMPLETE = 0x000040"
definition FDC_ERR_RESET :: int where [simp]: "FDC_ERR_RESET = 0x0000C0"
definition FDC_ERR_ST0 :: int where [simp]: "FDC_ERR_ST0 = 0x0000FF"
definition FDC_ERR_NOT_WRITABLE :: int where [simp]: "FDC_ERR_NOT_WRITABLE = 0x000200"
definition FDC_ERR_NO_DATA :: int where [simp]: "FDC_ERR_NO_DATA = 0x000400"
definition FDC_ERR_CRC_ERROR :: int where [simp]: "FDC_ERR_CRC_ERROR = 0x002000"
definition FDC_ERR_ST1 :: int where [simp]: "FDC_ERR_ST1 = 0x00FF00"
definition FDC_ERR_ST2 :: int where [simp]: "FDC_ERR_ST2 = 0xFF0000"

subsection \<open>Drive objects\<close>

text \<open>
  The properties of an FDC drive object.  Those whose names the HDC drive object also uses
  carry the suffix \<open>_fd\<close>.
\<close>

record fdrive =
  errorCode_fd :: int
  name_fd :: string
  nCylinders_fd :: int
  nHeads_fd :: int
  nSectors_fd :: int
  cbSector_fd :: int
  fRemovable_fd :: bool
  bHead_fd :: int
  bCylinder :: jsnum
  bSector_fd :: jsnum
  bSectorEnd_fd :: jsnum
  nBytes_fd :: jsnum
  ibSector_fd :: jsnum
  sector_fd :: "sector option"
  disk_fd :: "disk option"
  sDisketteName :: "string option"
  sDiskettePath :: "string option"
  bFiller :: jsnum
  cbFormat :: int
  abFormat :: "jsnum list"
  bFormatting :: bool
  cSectorsFormatted :: int

subsection \<open>Moving bytes\<close>

text \<open>
  The number of sectors of the disk on the drive's track whose ID is at least the drive's
  sector register: every turn of the loops of \<open>readByte\<close> and \<open>writeByte\<close> that goes on
  has found the sector at the register and then steps past it.
\<close>

definition sectors_ahead :: "fdrive \<Rightarrow> disk \<Rightarrow> nat" where
  "sectors_ahead drive dk =
     length (filter (\<lambda>(k, v). case (bCylinder drive, bSector_fd drive) of
                                (Some c, Some s) \<Rightarrow>
                                   fst k = c \<and> fst (snd k) = bHead_fd drive \<and> s \<le> snd (snd k)
                              | _ \<Rightarrow> False)
             (sectors dk))"

lemma filter_shrinks:
  assumes "x \<in> set xs" "Q x" "\<not> P x" "\<And>y. P y \<Longrightarrow> Q y"
  shows "length (filter P xs) < length (filter Q xs)"
proof -
  have "filter P xs = filter P (filter Q xs)"
    using assms(4) by (induction xs) auto
  moreover have "x \<in> set (filter Q xs)"
    using assms(1,2) by simp
  ultimately show ?thesis
    using assms(3) by (metis length_filter_less)
qed

lemma sectors_ahead_step:
  assumes "disk_seek dk (bCylinder drive) (Some (bHead_fd drive)) (bSector_fd drive) = Some sec"
    and "bCylinder drive' = bCylinder drive" "bHead_fd drive' = bHead_fd drive"
    and "bSector_fd drive' = js_inc (bSector_fd drive)"
  shows "sectors_ahead drive' dk < sectors_ahead drive dk"
proof -
  from assms(1) obtain c s where cs: "bCylinder drive = Some c" "bSector_fd drive = Some s"
    and mem: "(c, bHead_fd drive, s) \<in> fst ` set (sectors dk)"
    by (auto simp: disk_seek_def split: option.splits if_splits)
  then obtain v where v: "((c, bHead_fd drive, s), v) \<in> set (sectors dk)"
    by auto
  show ?thesis
    unfolding sectors_ahead_def
    by (rule filter_shrinks [OF v]) (auto simp: cs assms(2-4) js_inc_def)
qed

text \<open>
  The \<open>do ... while (true)\<close> loop of \<open>FDC.prototype.readByte\<close>; \<open>b\<close> is the byte read last,
  -1 at the start.
\<close>

function readLoop_FDC :: "fdrive \<Rightarrow> disk \<Rightarrow> int \<Rightarrow> fdrive \<times> int" where
  "readLoop_FDC drive dk b =
     (let (drive1, b1) =
            (case sector_fd drive of
               Some sec \<Rightarrow> (drive\<lparr>ibSector_fd := js_inc (ibSector_fd drive)\<rparr>,
                             disk_read dk sec (ibSector_fd drive))
             | None \<Rightarrow> (drive, b))
      in if sector_fd drive \<noteq> None \<and> 0 \<le> b1 then (drive1, b1)
         else (case disk_seek dk (bCylinder drive1) (Some (bHead_fd drive1)) (bSector_fd drive1) of
                 None \<Rightarrow> (drive1\<lparr>sector_fd := None,
                                   errorCode_fd := FDC_ERR_NO_DATA OR FDC_ERR_INCOMPLETE\<rparr>, b1)
               | Some sec \<Rightarrow>
                   readLoop_FDC (drive1\<lparr>ibSector_fd := Some 0, sector_fd := Some sec,
                                         bSector_fd := js_inc (bSector_fd drive1)\<rparr>) dk b1))"
  by pat_completeness auto
termination
proof (relation "measure (\<lambda>(drive, dk, b). sectors_ahead drive dk)", goal_cases)
  case 1
  show ?case by simp
next
  case (2 drive dk b x drive1 b1 sec)
  then have same: "bCylinder drive1 = bCylinder drive" "bHead_fd drive1 = bHead_fd drive"
    "bSector_fd drive1 = bSector_fd drive"
    by (auto split: option.splits)
  have "sectors_ahead (drive1\<lparr>ibSector_fd := Some 0, sector_fd := Some sec,
                               bSector_fd := js_inc (bSector_fd drive1)\<rparr>) dk
        < sectors_ahead drive dk"
  proof (rule sectors_ahead_step [where sec = sec])
    show "disk_seek dk (bCylinder drive) (Some (bHead_fd drive)) (bSector_fd drive) = Some sec"
      using 2 same by simp
  qed (simp_all add: same)
  then show ?case by simp
qed

declare readLoop_FDC.simps [simp del]

text \<open>\<open>FDC.prototype.readByte\<close>; the pair is the drive and the byte handed to \<open>done\<close>.\<close>

definition readByte_FDC :: "fdrive \<Rightarrow> fdrive \<times> int" where
  "readByte_FDC drive =
     (case disk_fd drive of
        Some dk \<Rightarrow> (if errorCode_fd drive = 0 then readLoop_FDC drive dk (- 1) else (drive, - 1))
      | None \<Rightarrow> (drive, - 1))"

text \<open>The \<open>do ... while (true)\<close> loop of \<open>FDC.prototype.writeByte\<close>.\<close>

function writeLoop_FDC :: "fdrive \<Rightarrow> disk \<Rightarrow> int \<Rightarrow> fdrive \<times> int" where
  "writeLoop_FDC drive dk b =
     (let (drive1, dk1, written) =
            (case sector_fd drive of
               Some sec \<Rightarrow> (drive\<lparr>ibSector_fd := js_inc (ibSector_fd drive)\<rparr>,
                             disk_write dk sec (ibSector_fd drive) b)
             | None \<Rightarrow> (drive, dk, False))
      in if written then (drive1\<lparr>disk_fd := Some dk1\<rparr>, b)
         else (case disk_seek dk (bCylinder drive1) (Some (bHead_fd drive1)) (bSector_fd drive1) of
                 None \<Rightarrow> (drive1\<lparr>sector_fd := None,
                                   errorCode_fd := FDC_ERR_CRC_ERROR OR FDC_ERR_INCOMPLETE\<rparr>, - 1)
               | Some sec \<Rightarrow>
                   writeLoop_FDC (drive1\<lparr>ibSector_fd := Some 0, sector_fd := Some sec,
                                          bSector_fd := js_inc (bSector_fd drive1)\<rparr>) dk b))"
  by pat_completeness auto
termination
proof (relation "measure (\<lambda>(drive, dk, b). sectors_ahead drive dk)", goal_cases)
  case 1
  show ?case by simp
next
  case (2 drive dk b x drive1 y dk1 written sec)
  then have same: "bCylinder drive1 = bCylinder drive" "bHead_fd drive1 = bHead_fd drive"
    "bSector_fd drive1 = bSector_fd drive"
    by (auto split: option.splits)
  have "sectors_ahead (drive1\<lparr>ibSector_fd := Some 0, sector_fd := Some sec,
                               bSector_fd := js_inc (bSector_fd drive1)\<rparr>) dk
        < sectors_ahead drive dk"
  proof (rule sectors_ahead_step [where sec = sec])
    show "disk_seek dk (bCylinder drive) (Some (bHead_fd drive)) (bSector_fd drive) = Some sec"
      using 2 same by simp
  qed (simp_all add: same)
  then show ?case by simp
qed

declare writeLoop_FDC.simps [simp del]

text \<open>\<open>FDC.prototype.writeByte\<close>; the pair is the drive and the value returned.\<close>

definition writeByte_FDC :: "fdrive \<Rightarrow> int \<Rightarrow> fdrive \<times> int" where
  "writeByte_FDC drive b =
     (case disk_fd drive of
        Some dk \<Rightarrow> (if errorCode_fd drive \<noteq> 0 then (drive, - 1) else writeLoop_FDC drive dk b)
      | None \<Rightarrow> (drive, - 1))"

subsection \<open>The controller\<close>

definition FDC_OUTPUT_INT_ENABLE :: int where [simp]: "FDC_OUTPUT_INT_ENABLE = 0x08"
definition FDC_STATUS_BUSY :: int where [simp]: "FDC_STATUS_BUSY = 0x10"
definition FDC_STATUS_READ_DATA :: int where [simp]: "FDC_STATUS_READ_DATA = 0x40"
definition FDC_STATUS_RQM :: int where [simp]: "FDC_STATUS_RQM = 0x80"
definition FDC_INPUT_DISK_CHANGE :: int where [simp]: "FDC_INPUT_DISK_CHANGE = 0x80"

definition FDC_CMD_SPECIFY :: int where [simp]: "FDC_CMD_SPECIFY = 0x03"
definition FDC_CMD_DRIVE_STATUS :: int where [simp]: "FDC_CMD_DRIVE_STATUS = 0x04"
definition FDC_CMD_WRITE_DATA :: int where [simp]: "FDC_CMD_WRITE_DATA = 0x05"
definition FDC_CMD_READ_DATA :: int where [simp]: "FDC_CMD_READ_DATA = 0x06"
definition FDC_CMD_RECALIBRATE :: int where [simp]: "FDC_CMD_RECALIBRATE = 0x07"
definition FDC_CMD_INT_STATUS :: int where [simp]: "FDC_CMD_INT_STATUS = 0x08"
definition FDC_CMD_FORMAT_TRACK :: int where [simp]: "FDC_CMD_FORMAT_TRACK = 0x0D"
definition FDC_CMD_SEEK :: int where [simp]: "FDC_CMD_SEEK = 0x0F"
definition FDC_CMD_MASK :: int where [simp]: "FDC_CMD_MASK = 0x1F"

text \<open>
  The registers of the FDC.  Those whose names the HDC also uses carry the suffix \<open>_fdc\<close>.
\<close>

record fdc =
  iDrive :: int
  iUnit :: int
  regStatus_fdc :: int
  regDataArray_fdc :: "jsnum list"
  regDataIndex_fdc :: int
  regDataTotal_fdc :: int
  regOutput :: int
  regInput :: int
  regControl :: int
  aDrives_fdc :: "fdrive list"
  chipset_fdc :: "chipset option"

text \<open>\<open>FDC.aCmdSeqs\<close>: \<open>cbWrite\<close> and \<open>cbRead\<close> by masked command.\<close>

definition aCmdSeqs :: "int \<Rightarrow> (int \<times> int) option" where
  "aCmdSeqs = map_of [(0x03, (3, 0)), (0x04, (2, 1)), (0x05, (9, 7)), (0x06, (9, 7)),
                      (0x07, (2, 0)), (0x08, (1, 2)), (0x0D, (6, 7)), (0x0F, (3, 0))]"


text \<open>\<open>FDC.prototype.inFDCData\<close> (port 0x3F5, read).\<close>

definition inFDCData :: "fdc \<Rightarrow> fdc \<times> jsnum" where
  "inFDCData c0 =
     (let bIn = (if regDataIndex_fdc c0 < regDataTotal_fdc c0
                 then js_index (regDataArray_fdc c0) (regDataIndex_fdc c0) else Some 0);
          c1 = (if regOutput c0 AND FDC_OUTPUT_INT_ENABLE \<noteq> 0
                then c0\<lparr>chipset_fdc := clearIRR (chipset_fdc c0)\<rparr> else c0);
          c2 = c1\<lparr>regDataIndex_fdc := regDataIndex_fdc c1 + 1\<rparr>
      in if regDataTotal_fdc c2 \<le> regDataIndex_fdc c2
         then (c2\<lparr>regStatus_fdc := regStatus_fdc c2 AND NOT (FDC_STATUS_READ_DATA OR FDC_STATUS_BUSY),
                   regDataIndex_fdc := 0, regDataTotal_fdc := 0\<rparr>, bIn)
         else (c2, bIn))"



text \<open>
  \<open>popCmd\<close>, \<open>beginResult\<close>, \<open>pushResult\<close> and the status bytes.  \<open>pushST0\<close> reads the head
  of drive \<open>iUnit\<close>: \<open>None\<close> is the TypeError when there is no such drive.
\<close>

definition popCmd_FDC :: "fdc \<Rightarrow> fdc \<times> jsnum" where
  "popCmd_FDC c = (c\<lparr>regDataIndex_fdc := regDataIndex_fdc c + 1\<rparr>,
                   js_index (regDataArray_fdc c) (regDataIndex_fdc c))"

definition beginResult_FDC :: "fdc \<Rightarrow> fdc" where
  "beginResult_FDC c = c\<lparr>regDataIndex_fdc := 0, regDataTotal_fdc := 0\<rparr>"

definition pushResult_FDC :: "fdc \<Rightarrow> jsnum \<Rightarrow> fdc" where
  "pushResult_FDC c bResult =
     c\<lparr>regDataArray_fdc := js_store (regDataArray_fdc c) (regDataTotal_fdc c) bResult,
       regDataTotal_fdc := regDataTotal_fdc c + 1\<rparr>"

definition pushST0 :: "fdc \<Rightarrow> int \<Rightarrow> fdc option" where
  "pushST0 c err =
     (case nth_opt (aDrives_fdc c) (iUnit c) of
        None \<Rightarrow> None
      | Some d \<Rightarrow> Some (pushResult_FDC c (Some (iUnit c OR bHead_fd d OR (err AND FDC_ERR_ST0)))))"

definition pushST1 :: "fdc \<Rightarrow> int \<Rightarrow> fdc" where
  "pushST1 c err = pushResult_FDC c (Some (drop_bit 8 (err AND FDC_ERR_ST1)))"

definition pushST2 :: "fdc \<Rightarrow> int \<Rightarrow> fdc" where
  "pushST2 c err = pushResult_FDC c (Some (drop_bit 16 (err AND FDC_ERR_ST2)))"

definition pushST3 :: "fdc \<Rightarrow> fdc" where
  "pushST3 c = pushResult_FDC c (Some 0x00)"

text \<open>
  The DMA workers.  \<open>requestDMA\<close> belongs to the chip set, which is not part of the
  sources: \<open>dma\<close> stands for what the transfer it runs does to the drive through the
  connected callback (\<open>dmaRead\<close>, \<open>dmaWrite\<close> or \<open>dmaFormat\<close>) before \<open>requestDMA\<close> returns.
\<close>

datatype fdc_dma = FDC_dmaRead | FDC_dmaWrite | FDC_dmaFormat

definition doRead :: "(fdc_dma \<Rightarrow> fdrive \<Rightarrow> fdrive) \<Rightarrow> bool \<Rightarrow> fdrive \<Rightarrow> fdrive" where
  "doRead dma hasChipset drive0 =
     (let drive = drive0\<lparr>errorCode_fd := FDC_ERR_NOT_READY OR FDC_ERR_INCOMPLETE\<rparr> in
      if disk_fd drive \<noteq> None then
        (let drive1 = drive\<lparr>sector_fd := None, errorCode_fd := FDC_ERR_NONE\<rparr>
         in if hasChipset then dma FDC_dmaRead drive1 else drive1)
      else drive)"

definition doWrite :: "(fdc_dma \<Rightarrow> fdrive \<Rightarrow> fdrive) \<Rightarrow> bool \<Rightarrow> fdrive \<Rightarrow> fdrive" where
  "doWrite dma hasChipset drive0 =
     (let drive = drive0\<lparr>errorCode_fd := FDC_ERR_NOT_READY OR FDC_ERR_INCOMPLETE\<rparr> in
      case disk_fd drive of
        Some dk \<Rightarrow>
          (if fWriteProtected dk
           then drive\<lparr>errorCode_fd := FDC_ERR_NOT_WRITABLE OR FDC_ERR_INCOMPLETE\<rparr>
           else (let drive1 = drive\<lparr>sector_fd := None, errorCode_fd := FDC_ERR_NONE\<rparr>
                 in if hasChipset then dma FDC_dmaWrite drive1 else drive1))
      | None \<Rightarrow> drive)"

definition doFormat :: "(fdc_dma \<Rightarrow> fdrive \<Rightarrow> fdrive) \<Rightarrow> bool \<Rightarrow> fdrive \<Rightarrow> fdrive" where
  "doFormat dma hasChipset drive0 =
     (let drive = drive0\<lparr>errorCode_fd := FDC_ERR_NOT_READY OR FDC_ERR_INCOMPLETE\<rparr> in
      if disk_fd drive \<noteq> None then
        (let drive1 = drive\<lparr>sector_fd := None, errorCode_fd := FDC_ERR_NONE\<rparr>
         in if hasChipset
            then (dma FDC_dmaFormat
                    (drive1\<lparr>cbFormat := 0, abFormat := replicate 4 None, bFormatting := True,
                            cSectorsFormatted := 0\<rparr>))\<lparr>bFormatting := False\<rparr>
            else drive1)
      else drive)"

text \<open>
  \<open>FDC.prototype.doCmd\<close>, in parts.  \<open>popUnit\<close> is the start of the cases that take a
  unit/head select byte: it pops the byte, sets \<open>iUnit\<close> and gives the unit and the head
  select bit.  \<open>pushResultsCHRN\<close> is the end of the \<open>READ_DATA\<close>, \<open>WRITE_DATA\<close> and
  \<open>FORMAT_TRACK\<close> cases: \<open>beginResult\<close>, then ST0, ST1, ST2 and the drive's C, H, R and
  the command's N.  A case gives the controller, the drive the command addressed (the index
  of \<open>drive\<close>, when the case set it) and \<open>fIRQ\<close>; \<open>None\<close> is the TypeError of a case
  that uses a drive that does not exist.
\<close>

definition popUnit :: "fdc \<Rightarrow> fdc \<times> int \<times> int" where
  "popUnit c =
     (let (c1, iUnitSelect0) = popCmd_FDC c;
          bHeadSelect = drop_bit 2 (js_int iUnitSelect0) AND 0x1;
          iUnitSelect = js_int iUnitSelect0 AND 0x3
      in (c1\<lparr>iUnit := iUnitSelect\<rparr>, iUnitSelect, bHeadSelect))"

definition pushResultsCHRN :: "fdc \<Rightarrow> fdrive \<Rightarrow> jsnum \<Rightarrow> fdc option" where
  "pushResultsCHRN c drive n =
     (case pushST0 (beginResult_FDC c) (errorCode_fd drive) of
        None \<Rightarrow> None
      | Some r1 \<Rightarrow>
          Some (pushResult_FDC
                 (pushResult_FDC
                   (pushResult_FDC
                     (pushResult_FDC (pushST2 (pushST1 r1 (errorCode_fd drive)) (errorCode_fd drive))
                        (bCylinder drive))
                     (Some (bHead_fd drive)))
                   (bSector_fd drive))
                 n))"

definition doCmd_xfer ::
  "(fdc_dma \<Rightarrow> fdrive \<Rightarrow> fdrive) \<Rightarrow> fdc \<Rightarrow> int \<Rightarrow> (fdc \<times> int option \<times> bool) option" where
  "doCmd_xfer dma c0 bCmdMasked =
     (let (c2, iUnitSelect, bHeadSelect) = popUnit c0
      in case nth_opt (aDrives_fdc c2) iUnitSelect of
           None \<Rightarrow> None
         | Some drive0 \<Rightarrow>
            (let (c3, bC) = popCmd_FDC c2;
                 (c4, bH) = popCmd_FDC c3;
                 (c5, bR) = popCmd_FDC c4;
                 (c6, n) = popCmd_FDC c5;
                 (c7, bEOT) = popCmd_FDC c6;
                 (c8, bGPL) = popCmd_FDC c7;
                 (c9, bDTL) = popCmd_FDC c8;
                 drive1 = drive0\<lparr>bHead_fd := bHeadSelect, bCylinder := bC, bSector_fd := bR,
                                  nBytes_fd := Some (js_shl 128 (js_int n)), bSectorEnd_fd := bEOT\<rparr>;
                 drive = (if bCmdMasked = FDC_CMD_READ_DATA
                          then doRead dma (chipset_fdc c9 \<noteq> None) drive1
                          else doWrite dma (chipset_fdc c9 \<noteq> None) drive1)
             in map_option (\<lambda>r. (r, Some iUnitSelect, True))
                  (pushResultsCHRN (c9\<lparr>aDrives_fdc := (aDrives_fdc c9)[nat iUnitSelect := drive]\<rparr>)
                     drive n)))"

definition doCmd_format ::
  "(fdc_dma \<Rightarrow> fdrive \<Rightarrow> fdrive) \<Rightarrow> fdc \<Rightarrow> (fdc \<times> int option \<times> bool) option" where
  "doCmd_format dma c0 =
     (let (c2, iUnitSelect, bHeadSelect) = popUnit c0
      in case nth_opt (aDrives_fdc c2) iUnitSelect of
           None \<Rightarrow> None
         | Some drive0 \<Rightarrow>
            (let (c3, n) = popCmd_FDC c2;
                 (c4, bSC) = popCmd_FDC c3;
                 (c5, bGPL) = popCmd_FDC c4;
                 (c6, bD) = popCmd_FDC c5;
                 drive1 = drive0\<lparr>bHead_fd := bHeadSelect, nBytes_fd := Some (js_shl 128 (js_int n)),
                                  bSectorEnd_fd := bSC, bFiller := bD\<rparr>;
                 drive = doFormat dma (chipset_fdc c6 \<noteq> None) drive1
             in map_option (\<lambda>r. (r, Some iUnitSelect, True))
                  (pushResultsCHRN (c6\<lparr>aDrives_fdc := (aDrives_fdc c6)[nat iUnitSelect := drive]\<rparr>)
                     drive n)))"

definition doCmd_switch ::
  "(fdc_dma \<Rightarrow> fdrive \<Rightarrow> fdrive) \<Rightarrow> fdc \<Rightarrow> int \<Rightarrow> (fdc \<times> int option \<times> bool) option" where
  "doCmd_switch dma c bCmdMasked =
     (if bCmdMasked = FDC_CMD_SPECIFY then
        (let (c1, bSRT) = popCmd_FDC c; (c2, bHLT) = popCmd_FDC c1
         in Some (beginResult_FDC c2, None, False))
      else if bCmdMasked = FDC_CMD_DRIVE_STATUS then
        (let (c1, iUnitSelect0) = popCmd_FDC c;
             iUnitSelect = js_int iUnitSelect0 AND 0x3;
             c2 = c1\<lparr>iUnit := iUnitSelect\<rparr>
         in Some (pushST3 (beginResult_FDC c2),
                  (if nth_opt (aDrives_fdc c2) iUnitSelect = None then None else Some iUnitSelect),
                  False))
      else if bCmdMasked = FDC_CMD_WRITE_DATA \<or> bCmdMasked = FDC_CMD_READ_DATA then
        doCmd_xfer dma c bCmdMasked
      else if bCmdMasked = FDC_CMD_RECALIBRATE then
        (let (c1, iUnitSelect0) = popCmd_FDC c;
             iUnitSelect = js_int iUnitSelect0 AND 0x3;
             c2 = c1\<lparr>iUnit := iUnitSelect\<rparr>
         in case nth_opt (aDrives_fdc c2) iUnitSelect of
              None \<Rightarrow> None
            | Some drive \<Rightarrow>
                Some (beginResult_FDC
                        (c2\<lparr>aDrives_fdc := (aDrives_fdc c2)
                              [nat iUnitSelect := drive\<lparr>bCylinder := Some 0,
                                                        errorCode_fd := FDC_ERR_SEEK_END\<rparr>]\<rparr>),
                      Some iUnitSelect, True))
      else if bCmdMasked = FDC_CMD_INT_STATUS then
        (let c1 = c\<lparr>iUnit := iDrive c\<rparr> in
         case nth_opt (aDrives_fdc c1) (iUnit c1) of
           None \<Rightarrow> None
         | Some drive \<Rightarrow>
             (case pushST0 (beginResult_FDC c1) (errorCode_fd drive) of
                None \<Rightarrow> None
              | Some r1 \<Rightarrow> Some (pushResult_FDC r1 (bCylinder drive), Some (iUnit c1), False)))
      else if bCmdMasked = FDC_CMD_FORMAT_TRACK then doCmd_format dma c
      else if bCmdMasked = FDC_CMD_SEEK then
        (let (c2, iUnitSelect, bHeadSelect) = popUnit c
         in case nth_opt (aDrives_fdc c2) iUnitSelect of
              None \<Rightarrow> None
            | Some drive \<Rightarrow>
                (let (c3, bNCN) = popCmd_FDC c2
                 in Some (beginResult_FDC
                            (c3\<lparr>aDrives_fdc := (aDrives_fdc c3)
                                  [nat iUnitSelect := drive\<lparr>bHead_fd := bHeadSelect, bCylinder := bNCN,
                                                            errorCode_fd := FDC_ERR_SEEK_END\<rparr>]\<rparr>),
                          Some iUnitSelect, True)))
      else Some (c, None, False))"

definition doCmd :: "(fdc_dma \<Rightarrow> fdrive \<Rightarrow> fdrive) \<Rightarrow> fdc \<Rightarrow> fdc option" where
  "doCmd dma c0 =
     (let (c1, bCmd) = popCmd_FDC (c0\<lparr>regDataIndex_fdc := 0\<rparr>);
          bCmdMasked = js_int bCmd AND FDC_CMD_MASK
      in case doCmd_switch dma c1 bCmdMasked of
           None \<Rightarrow> None
         | Some (c2, drive, fIRQ) \<Rightarrow>
            (let c3 = (if 0 < regDataTotal_fdc c2
                       then c2\<lparr>regStatus_fdc := regStatus_fdc c2
                                                   OR (FDC_STATUS_READ_DATA OR FDC_STATUS_BUSY)\<rparr>
                       else c2)
             in if regOutput c3 AND FDC_OUTPUT_INT_ENABLE \<noteq> 0 then
                  (case drive of
                     Some i \<Rightarrow>
                       (case nth_opt (aDrives_fdc c3) i of
                          Some d \<Rightarrow>
                            (if errorCode_fd d AND FDC_ERR_NOT_READY = 0 \<and> fIRQ
                             then Some (c3\<lparr>chipset_fdc := setIRR (chipset_fdc c3)\<rparr>)
                             else Some c3)
                        | None \<Rightarrow> Some c3)
                   | None \<Rightarrow> Some c3)
                else Some c3))"

text \<open>\<open>FDC.prototype.outFDCData\<close> (port 0x3F5, write).\<close>

definition outFDCData :: "(fdc_dma \<Rightarrow> fdrive \<Rightarrow> fdrive) \<Rightarrow> fdc \<Rightarrow> int \<Rightarrow> fdc option" where
  "outFDCData dma c0 bOut =
     (let c1 = (if regDataTotal_fdc c0 < int (length (regDataArray_fdc c0))
                then c0\<lparr>regDataArray_fdc :=
                           js_store (regDataArray_fdc c0) (regDataTotal_fdc c0) (Some bOut),
                         regDataTotal_fdc := regDataTotal_fdc c0 + 1\<rparr>
                else c0);
          bCmd = js_index (regDataArray_fdc c1) 0;
          bCmdMasked = js_int bCmd AND FDC_CMD_MASK
      in case aCmdSeqs bCmdMasked of
           Some (cbWrite, cbRead) \<Rightarrow>
             (if cbWrite \<le> regDataTotal_fdc c1 then doCmd dma c1 else Some c1)
         | None \<Rightarrow> Some c1)"

section \<open>Saved state\<close>

text \<open>
  \<open>saveController\<close> flattens a controller into a positional array, \<open>initController\<close>
  reads one back.  The values such an array holds: \<open>undefined\<close>, \<open>null\<close>, numbers,
  booleans, strings, nested arrays, and \<open>Computer.VERSION_102\<close>, the one number in them
  that is not an integer.
\<close>

datatype jsval =
  JUndefined | JNull | JNum int | JBool bool | JStr string | JArr "jsval list" | JVersion102

text \<open>\<open>data[i]\<close> of an array: \<open>undefined\<close> beyond its length.\<close>

definition js_at :: "jsval list \<Rightarrow> nat \<Rightarrow> jsval" where
  "js_at data i = (if i < length data then data ! i else JUndefined)"

text \<open>
  The properties of the model are typed, the slots of an array are not.  \<open>of_num\<close>,
  \<open>of_nums\<close>, \<open>of_buffer\<close> and \<open>of_str\<close> say how a property sits in a slot; \<open>to_int\<close>,
  \<open>to_num\<close>, \<open>to_bool\<close>, \<open>to_nums\<close>, \<open>to_buffer\<close>, \<open>to_str\<close> and \<open>to_name\<close> read a slot into
  a property, and answer \<open>None\<close> for a value the property cannot hold in the model.
\<close>

definition of_num :: "jsnum \<Rightarrow> jsval" where
  "of_num v = (case v of None \<Rightarrow> JUndefined | Some n \<Rightarrow> JNum n)"

definition to_num :: "jsval \<Rightarrow> jsnum option" where
  "to_num v = (case v of JUndefined \<Rightarrow> Some None | JNum n \<Rightarrow> Some (Some n) | _ \<Rightarrow> None)"

definition to_int :: "jsval \<Rightarrow> int option" where
  "to_int v = (case v of JNum n \<Rightarrow> Some n | _ \<Rightarrow> None)"

definition to_bool :: "jsval \<Rightarrow> bool option" where
  "to_bool v = (case v of JBool b \<Rightarrow> Some b | _ \<Rightarrow> None)"

definition of_nums :: "jsnum list \<Rightarrow> jsval" where
  "of_nums xs = JArr (map of_num xs)"

definition to_nums :: "jsval \<Rightarrow> jsnum list option" where
  "to_nums v = (case v of JArr vs \<Rightarrow> those (map to_num vs) | _ \<Rightarrow> None)"

definition of_buffer :: "jsnum list option \<Rightarrow> jsval" where
  "of_buffer b = (case b of None \<Rightarrow> JUndefined | Some xs \<Rightarrow> of_nums xs)"

definition to_buffer :: "jsval \<Rightarrow> jsnum list option option" where
  "to_buffer v = (case v of JUndefined \<Rightarrow> Some None | _ \<Rightarrow> map_option Some (to_nums v))"

definition of_str :: "string option \<Rightarrow> jsval" where
  "of_str s = (case s of None \<Rightarrow> JUndefined | Some x \<Rightarrow> JStr x)"

definition to_str :: "jsval \<Rightarrow> string option option" where
  "to_str v = (case v of JUndefined \<Rightarrow> Some None | JStr x \<Rightarrow> Some (Some x) | _ \<Rightarrow> None)"

definition to_name :: "jsval \<Rightarrow> string option" where
  "to_name v = (case v of JStr x \<Rightarrow> Some x | _ \<Rightarrow> None)"

text \<open>
  The \<open>data\<close> argument, which must be an array to be indexed; \<open>undefined\<close> (and \<open>null\<close>,
  where the source tests \<open>data == null\<close>) selects the defaults.
\<close>

definition data_or :: "bool \<Rightarrow> jsval list \<Rightarrow> jsval \<Rightarrow> jsval list option" where
  "data_or nullToo dflt data0 =
     (case data0 of
        JUndefined \<Rightarrow> Some dflt
      | JNull \<Rightarrow> (if nullToo then Some dflt else None)
      | JArr xs \<Rightarrow> Some xs
      | _ \<Rightarrow> None)"

subsection \<open>The fixed disk controller\<close>

text \<open>
  \<open>HDC.prototype.saveDrive\<close> and \<open>saveDrives\<close>.  \<open>disk.save()\<close> belongs to the Disk
  component: the deltas it returns are the parameter \<open>disk_save\<close>.
\<close>

definition saveDrive :: "(disk \<Rightarrow> jsval) \<Rightarrow> hdrive \<Rightarrow> jsval" where
  "saveDrive disk_save drive =
     JArr [JNum (errorCode drive), JNum (senseCode drive), JBool (fRemovable drive),
           of_nums (abDriveParms drive), of_buffer (abSector drive), of_num (bHead drive),
           of_num (nHeads drive), of_num (wCylinder drive), of_num (bSector drive),
           of_num (bSectorEnd drive), of_num (nBytes drive), of_num (ibSector drive),
           (case hdisk drive of Some dk \<Rightarrow> disk_save dk | None \<Rightarrow> JNull)]"

definition saveDrives :: "(disk \<Rightarrow> jsval) \<Rightarrow> hdc \<Rightarrow> jsval" where
  "saveDrives disk_save c = JArr (map (saveDrive disk_save) (aDrives c))"

text \<open>\<open>HDC.prototype.saveController\<close>.\<close>

definition saveController :: "(disk \<Rightarrow> jsval) \<Rightarrow> hdc \<Rightarrow> jsval" where
  "saveController disk_save c =
     JArr ((if fATC c then
              [JNum (regError c), JNum (regWPreC c), JNum (regSecCnt c), JNum (regSecNum c),
               JNum (regCylLo c), JNum (regCylHi c), JNum (regDrvHd c), JNum (regStatus c),
               JNum (regCommand c), JNum (regFDR c)]
            else
              [of_num (regConfig c), JNum (regStatus c), of_nums (regDataArray c),
               JNum (regDataIndex c), JNum (regDataTotal c), of_num (regReset c),
               of_num (regPulse c), of_num (regPattern c), of_num (iDriveAllowFail c)])
           @ [saveDrives disk_save c])"

text \<open>
  \<open>HDC.prototype.initDrive\<close>: the drive object, the \<open>type\<close> of its configuration and its
  saved array give the drive and \<open>fSuccess\<close>.  \<open>disk.restore(deltas)\<close> belongs to the Disk
  component: the parameter \<open>disk_restore\<close> gives the disk it leaves and the number it
  returns.  The name, path and mode of the drive and the CMOS drive type of a machine
  reset are not part of the model.  \<open>None\<close> is a TypeError of the source, or a slot whose
  value the property cannot hold in the model.
\<close>

definition iDriveTypeDefault :: "bool \<Rightarrow> int" where
  "iDriveTypeDefault atc = (if atc then 2 else 3)"

definition driveType :: "bool \<Rightarrow> int option \<Rightarrow> int" where
  "driveType atc config =
     (case config of
        None \<Rightarrow> iDriveTypeDefault atc
      | Some t \<Rightarrow> (if aDriveTypes atc t = None then iDriveTypeDefault atc else t))"

definition initDrive_disk :: "(disk \<Rightarrow> jsval \<Rightarrow> disk \<times> int) \<Rightarrow> hdrive \<Rightarrow> jsval \<Rightarrow> hdrive \<times> bool" where
  "initDrive_disk disk_restore drive deltas =
     (case hdisk drive of
        None \<Rightarrow> (drive, True)
      | Some dk \<Rightarrow>
          (let (dk1, fSuccess) =
                 (if deltas \<noteq> JUndefined
                  then (let (d, rc) = disk_restore dk deltas in (d, \<not> rc < 0))
                  else (dk, True));
               drive1 = drive\<lparr>hdisk := Some dk1\<rparr>
           in if fSuccess \<and> ibSector drive1 \<noteq> None
              then (drive1\<lparr>hsector := disk_seek dk1 (wCylinder drive1) (bHead drive1)
                                          (js_add (bSector drive1) (bSectorBias drive1))\<rparr>, fSuccess)
              else (drive1, fSuccess)))"

definition initDrive ::
  "(disk \<Rightarrow> jsval \<Rightarrow> disk \<times> int) \<Rightarrow> bool \<Rightarrow> hdrive \<Rightarrow> int option \<Rightarrow> jsval \<Rightarrow> (hdrive \<times> bool) option" where
  "initDrive disk_restore atc drive0 driveConfig data0 =
     do {
       data \<leftarrow> data_or False [JNum XTC_ERR_NONE, JNum 0, JBool False, JArr (replicate 8 JUndefined)] data0;
       e \<leftarrow> to_int (js_at data 0);
       sense \<leftarrow> to_int (js_at data 1);
       removable \<leftarrow> to_bool (js_at data 2);
       parms \<leftarrow> to_nums (js_at data 3);
       buffer \<leftarrow> to_buffer (js_at data 4);
       head \<leftarrow> to_num (js_at data 5);
       heads \<leftarrow> to_num (js_at data 6);
       cylinder \<leftarrow> to_num (js_at data 7);
       sector \<leftarrow> to_num (js_at data 8);
       sectorEnd \<leftarrow> to_num (js_at data 9);
       bytes \<leftarrow> to_num (js_at data 10);
       drive1 \<leftarrow> verifyDrive atc
                  (drive0\<lparr>errorCode := e, senseCode := sense, fRemovable := removable,
                          abDriveParms := parms, abSector := buffer, bHead := head, nHeads := heads,
                          wCylinder := cylinder, bSector := sector, bSectorEnd := sectorEnd,
                          nBytes := bytes, bSectorBias := (if atc then 0 else 1),
                          dtype := driveType atc driveConfig, nSectors := 17, cbSector := 512\<rparr>)
                  None;
       ib \<leftarrow> to_num (js_at data 11);
       Some (initDrive_disk disk_restore (drive1\<lparr>ibSector := ib, hsector := None\<rparr>) (js_at data 12))
     }"

text \<open>
  The loop of \<open>HDC.prototype.initController\<close> over the drives, from drive \<open>i\<close> on;
  \<open>config\<close> is \<open>regConfig\<close>, which takes the switch settings of drives 0 and 1.  A drive
  with no configuration is a TypeError.
\<close>

fun initDrives ::
  "(disk \<Rightarrow> jsval \<Rightarrow> disk \<times> int) \<Rightarrow> bool \<Rightarrow> int option list \<Rightarrow> jsval list \<Rightarrow> nat \<Rightarrow> hdrive list
     \<Rightarrow> jsnum \<Rightarrow> (hdrive list \<times> jsnum \<times> bool) option" where
  "initDrives disk_restore atc configs dataDrives i [] config = Some ([], config, True)"
| "initDrives disk_restore atc configs dataDrives i (drive0 # rest) config =
     do {
       driveConfig \<leftarrow> nth_opt configs (int i);
       (drive, ok) \<leftarrow> initDrive disk_restore atc drive0 driveConfig (js_at dataDrives i);
       (drives, config2, ok2) \<leftarrow>
         initDrives disk_restore atc configs dataDrives (Suc i) rest
           (case config of
              Some v \<Rightarrow> (if i \<le> 1
                          then Some (v OR js_shl (dtype drive AND 0x3) (js_shl (1 - int i) 1))
                          else config)
            | None \<Rightarrow> None);
       Some (drive # drives, config2, ok \<and> ok2)
     }"

text \<open>
  \<open>HDC.prototype.initController\<close>, on a controller whose \<open>aDrives\<close> exists (the function
  makes an array of empty drive objects, one for each configuration, if it does not).
  The result is the controller and \<open>fSuccess\<close>.
\<close>

definition initController_ATC :: "hdc \<Rightarrow> jsval \<Rightarrow> (hdc \<times> jsval) option" where
  "initController_ATC c data0 =
     do {
       data \<leftarrow> data_or True [JNum 0, JNum 0, JNum 0, JNum 0, JNum 0, JNum 0, JNum 0, JNum 0,
                               JNum ATC_STATUS_READY, JNum 0] data0;
       e \<leftarrow> to_int (js_at data 0);
       wPreC \<leftarrow> to_int (js_at data 1);
       secCnt \<leftarrow> to_int (js_at data 2);
       secNum \<leftarrow> to_int (js_at data 3);
       cylLo \<leftarrow> to_int (js_at data 4);
       cylHi \<leftarrow> to_int (js_at data 5);
       drvHd \<leftarrow> to_int (js_at data 6);
       status \<leftarrow> to_int (js_at data 7);
       command \<leftarrow> to_int (js_at data 8);
       fdr \<leftarrow> to_int (js_at data 9);
       Some (c\<lparr>regError := e, regWPreC := wPreC, regSecCnt := secCnt, regSecNum := secNum,
                regCylLo := cylLo, regCylHi := cylHi, regDrvHd := drvHd, regStatus := status,
                regCommand := command, regFDR := fdr\<rparr>, js_at data 10)
     }"

definition initController_XTC :: "hdc \<Rightarrow> jsval \<Rightarrow> (hdc \<times> jsval) option" where
  "initController_XTC c data0 =
     do {
       data \<leftarrow> data_or True [JNum 0, JNum XTC_STATUS_OK, JArr (replicate 14 JUndefined), JNum 0, JNum 0]
                 data0;
       config \<leftarrow> to_num (js_at data 0);
       status \<leftarrow> to_int (js_at data 1);
       dataArray \<leftarrow> to_nums (js_at data 2);
       dataIndex \<leftarrow> to_int (js_at data 3);
       dataTotal \<leftarrow> to_int (js_at data 4);
       reset \<leftarrow> to_num (js_at data 5);
       pulse \<leftarrow> to_num (js_at data 6);
       pattern \<leftarrow> to_num (js_at data 7);
       allowFail \<leftarrow> to_num (js_at data 8);
       Some (c\<lparr>regStatus := status, regConfig := config, regDataArray := dataArray,
                regDataIndex := dataIndex, regDataTotal := dataTotal, regReset := reset,
                regPulse := pulse, regPattern := pattern,
                iDriveAllowFail := (if allowFail \<noteq> None then allowFail
                                    else if iDriveAllowFail c = None then Some (- 1)
                                    else iDriveAllowFail c)\<rparr>, js_at data 9)
     }"

definition initController :: "(disk \<Rightarrow> jsval \<Rightarrow> disk \<times> int) \<Rightarrow> hdc \<Rightarrow> jsval \<Rightarrow> (hdc \<times> bool) option" where
  "initController disk_restore c data0 =
     do {
       (c1, dataDrives0) \<leftarrow> (if fATC c then initController_ATC c data0 else initController_XTC c data0);
       dataDrives \<leftarrow> data_or False [] dataDrives0;
       (drives, config, ok) \<leftarrow>
         initDrives disk_restore (fATC c1) (aDriveConfigs c1) dataDrives 0 (aDrives c1) (regConfig c1);
       Some (c1\<lparr>regConfig := config, aDrives := drives\<rparr>, ok)
     }"

subsection \<open>The diskette controller\<close>

text \<open>\<open>FDC.prototype.saveDrive\<close> and \<open>saveDrives\<close>.\<close>

definition saveDrive_FDC :: "fdrive \<Rightarrow> jsval" where
  "saveDrive_FDC drive =
     JArr [JNum (errorCode_fd drive),
           JArr [JStr (name_fd drive), JNum (nCylinders_fd drive), JNum (nHeads_fd drive),
                 JNum (nSectors_fd drive), JNum (cbSector_fd drive), JBool (fRemovable_fd drive)],
           JNum (bHead_fd drive), JNum (- 1), of_num (bCylinder drive), of_num (bSector_fd drive),
           of_num (bSectorEnd_fd drive), of_num (nBytes_fd drive), of_num (ibSector_fd drive),
           JVersion102, of_str (sDisketteName drive), of_str (sDiskettePath drive)]"

definition saveDrives_FDC :: "fdc \<Rightarrow> jsval" where
  "saveDrives_FDC c = JArr (map saveDrive_FDC (aDrives_fdc c))"

text \<open>
  \<open>FDC.prototype.saveController\<close>.  The disk history that \<open>saveDeltas()\<close> returns is kept
  with the Disk component's images and is the parameter \<open>deltas\<close>.
\<close>

definition saveController_FDC :: "jsval \<Rightarrow> fdc \<Rightarrow> jsval" where
  "saveController_FDC deltas c =
     JArr [JNum (iDrive c), JNum (iUnit c), JNum (regStatus_fdc c), of_nums (regDataArray_fdc c),
           JNum (regDataIndex_fdc c), JNum (regDataTotal_fdc c), JNum (regOutput c),
           saveDrives_FDC c, deltas, JNum (regInput c), JNum (regControl c)]"

text \<open>
  \<open>FDC.prototype.unloadDrive\<close> and \<open>loadDiskette\<close>, on the drive and \<open>regInput\<close>.  Of
  \<open>loadDiskette\<close> the model keeps the unloading of a diskette with another path; the image
  it asks the Disk component to load arrives later, through \<open>mountDiskette\<close>.  The disk
  history, \<open>fBusy\<close> and the count of mounts in progress are not part of the model.
\<close>

definition unloadDrive :: "fdrive \<Rightarrow> int \<Rightarrow> fdrive \<times> int" where
  "unloadDrive drive input =
     (if disk_fd drive \<noteq> None
      then (drive\<lparr>disk_fd := None, sDisketteName := Some [], sDiskettePath := Some []\<rparr>,
            input OR FDC_INPUT_DISK_CHANGE)
      else (drive, input))"

definition loadDiskette :: "fdrive \<Rightarrow> int \<Rightarrow> string option \<Rightarrow> fdrive \<times> int" where
  "loadDiskette drive input path =
     (case path of
        Some p \<Rightarrow> (if p \<noteq> [] \<and> sDiskettePath drive \<noteq> Some p then unloadDrive drive input
                    else (drive, input))
      | None \<Rightarrow> (drive, input))"

text \<open>
  \<open>FDC.prototype.initDrive\<close>: the drive object, \<open>regInput\<close> and the saved array of the
  drive give the drive, \<open>regInput\<close> and \<open>fSuccess\<close>.
\<close>

definition initDrive_disk_FDC ::
  "(disk \<Rightarrow> jsval \<Rightarrow> disk \<times> int) \<Rightarrow> fdrive \<Rightarrow> int \<Rightarrow> jsval list \<Rightarrow> (fdrive \<times> int \<times> bool) option" where
  "initDrive_disk_FDC disk_restore drive input data =
     (case js_at data 9 of
        JVersion102 \<Rightarrow>
          do {
            path \<leftarrow> to_str (js_at data 11);
            Some (let (d, inp) = loadDiskette drive input path in (d, inp, True))
          }
      | JUndefined \<Rightarrow> Some (drive, input, True)
      | deltas \<Rightarrow>
          Some (case disk_fd drive of
                  Some dk \<Rightarrow> (let (dk1, rc) = disk_restore dk deltas
                               in (drive\<lparr>disk_fd := Some dk1\<rparr>, input, \<not> rc < 0))
                | None \<Rightarrow> (drive, input, True)))"

definition initDrive_FDC ::
  "(disk \<Rightarrow> jsval \<Rightarrow> disk \<times> int) \<Rightarrow> fdrive \<Rightarrow> int \<Rightarrow> jsval \<Rightarrow> (fdrive \<times> int \<times> bool) option" where
  "initDrive_FDC disk_restore drive0 input data0 =
     do {
       data1 \<leftarrow> data_or False [JNum FDC_ERR_RESET, JBool True, JNum 0, JNum 2, JNum 0] data0;
       let data = (case js_at data1 1 of
                     JBool b \<Rightarrow> data1[1 := JArr [JStr ''Floppy Drive'', JNum 40, js_at data1 3,
                                                   JNum 9, JNum 512, JBool b]]
                   | _ \<Rightarrow> data1);
       e \<leftarrow> to_int (js_at data 0);
       geometry \<leftarrow> (case js_at data 1 of JArr g \<Rightarrow> Some g | _ \<Rightarrow> None);
       name \<leftarrow> to_name (js_at geometry 0);
       cylinders \<leftarrow> to_int (js_at geometry 1);
       heads \<leftarrow> to_int (js_at geometry 2);
       sectors \<leftarrow> to_int (js_at geometry 3);
       cb \<leftarrow> to_int (js_at geometry 4);
       removable \<leftarrow> to_bool (js_at geometry 5);
       head \<leftarrow> to_int (js_at data 2);
       cylinder \<leftarrow> to_num (js_at data 4);
       sector \<leftarrow> to_num (js_at data 5);
       sectorEnd \<leftarrow> to_num (js_at data 6);
       bytes \<leftarrow> to_num (js_at data 7);
       ib \<leftarrow> to_num (js_at data 8);
       let drive1 = drive0\<lparr>errorCode_fd := e, name_fd := name, nCylinders_fd := cylinders,
                             nHeads_fd := heads, nSectors_fd := sectors, cbSector_fd := cb,
                             fRemovable_fd := removable, bHead_fd := head, bCylinder := cylinder,
                             bSector_fd := sector, bSectorEnd_fd := sectorEnd, nBytes_fd := bytes,
                             ibSector_fd := ib, sector_fd := None\<rparr>;
       let drive2 = (if disk_fd drive1 = None then drive1\<lparr>sDiskettePath := Some []\<rparr> else drive1);
       (drive3, input3, ok) \<leftarrow> initDrive_disk_FDC disk_restore drive2 input data;
       Some (case disk_fd drive3 of
               Some dk \<Rightarrow>
                 (if ok \<and> ibSector_fd drive3 \<noteq> None
                  then drive3\<lparr>sector_fd := disk_seek dk (bCylinder drive3) (Some (bHead_fd drive3))
                                                (bSector_fd drive3)\<rparr>
                  else drive3)
             | None \<Rightarrow> drive3,
             input3, ok)
     }"

text \<open>The loop of \<open>FDC.prototype.initController\<close> over the drives, from drive \<open>i\<close> on.\<close>

fun initDrives_FDC ::
  "(disk \<Rightarrow> jsval \<Rightarrow> disk \<times> int) \<Rightarrow> jsval list \<Rightarrow> nat \<Rightarrow> fdrive list \<Rightarrow> int
     \<Rightarrow> (fdrive list \<times> int \<times> bool) option" where
  "initDrives_FDC disk_restore dataDrives i [] input = Some ([], input, True)"
| "initDrives_FDC disk_restore dataDrives i (drive0 # rest) input =
     do {
       (drive, input1, ok) \<leftarrow> initDrive_FDC disk_restore drive0 input (js_at dataDrives i);
       (drives, input2, ok2) \<leftarrow> initDrives_FDC disk_restore dataDrives (Suc i) rest input1;
       Some (drive # drives, input2, ok \<and> ok2)
     }"

text \<open>\<open>data[i] || 0\<close>, for the values that give a number.\<close>

definition or_zero :: "jsval \<Rightarrow> int option" where
  "or_zero v =
     (case v of
        JNum n \<Rightarrow> Some n
      | JUndefined \<Rightarrow> Some 0
      | JNull \<Rightarrow> Some 0
      | JBool b \<Rightarrow> (if b then None else Some 0)
      | JStr s \<Rightarrow> (if s = [] then Some 0 else None)
      | _ \<Rightarrow> None)"

text \<open>
  \<open>FDC.prototype.initController\<close>, on a controller whose \<open>aDrives\<close> exists (the function
  makes an array of four empty drive objects if it does not).  \<open>FDC.REG_CONTROL.RATE500K\<close>,
  the default of \<open>regControl\<close>, is 0.
\<close>

definition initController_FDC ::
  "(disk \<Rightarrow> jsval \<Rightarrow> disk \<times> int) \<Rightarrow> fdc \<Rightarrow> jsval \<Rightarrow> (fdc \<times> bool) option" where
  "initController_FDC disk_restore c data0 =
     do {
       data \<leftarrow> data_or False [JNum 0, JNum 0, JNum FDC_STATUS_RQM, JArr (replicate 9 JUndefined),
                                JNum 0, JNum 0, JNum 0, JArr []] data0;
       drv \<leftarrow> to_int (js_at data 0);
       unit \<leftarrow> to_int (js_at data 1);
       status \<leftarrow> to_int (js_at data 2);
       dataArray \<leftarrow> to_nums (js_at data 3);
       dataIndex \<leftarrow> to_int (js_at data 4);
       dataTotal \<leftarrow> to_int (js_at data 5);
       output \<leftarrow> to_int (js_at data 6);
       dataDrives \<leftarrow> (case js_at data 7 of JArr xs \<Rightarrow> Some xs | _ \<Rightarrow> None);
       (drives, input1, ok) \<leftarrow> initDrives_FDC disk_restore dataDrives 0 (aDrives_fdc c) (regInput c);
       input \<leftarrow> or_zero (js_at data 9);
       control \<leftarrow> or_zero (js_at data 10);
       Some (c\<lparr>iDrive := drv, iUnit := unit, regStatus_fdc := status, regDataArray_fdc := dataArray,
                regDataIndex_fdc := dataIndex, regDataTotal_fdc := dataTotal, regOutput := output,
                regInput := input, regControl := control, aDrives_fdc := drives\<rparr>, ok)
     }"

section \<open>Definitions for the properties\<close>

definition chs :: "hdrive \<Rightarrow> (int \<times> int \<times> int) option" where
  "chs d = (case (wCylinder d, bHead d, bSector d) of
              (Some c, Some h, Some s) \<Rightarrow> Some (c, h, s) | _ \<Rightarrow> None)"

text \<open>
  The sector advance as the specification words it, on cylinder, head and sector: the
  sector register is incremented; beyond \<open>sectorsPerTrack + bias - 1\<close> it is reset to
  \<open>bias\<close> and the head is incremented; beyond \<open>heads - 1\<close> the head is reset to 0 and the
  cylinder is incremented.
\<close>

definition spec_advance :: "int \<Rightarrow> int \<Rightarrow> int \<Rightarrow> int \<times> int \<times> int \<Rightarrow> int \<times> int \<times> int" where
  "spec_advance bias sectorsPerTrack heads = (\<lambda>(c, h, s).
     if s + 1 > sectorsPerTrack + bias - 1
     then (if h + 1 > heads - 1 then (c + 1, 0, bias) else (c, h + 1, bias))
     else (c, h, s + 1))"

text \<open>
  Two drives as \<open>initDrive\<close> and a command leave them: a type 2 drive of the AT controller
  (615 cylinders, 4 heads, 17 sectors, \<open>bSectorBias\<close> 0) at the 16th sector of its first
  track, and a type 3 drive of the XT controller (306 cylinders, 4 heads, \<open>bSectorBias\<close> 1).
\<close>

definition atc_drive_example :: hdrive where
  "atc_drive_example =
     \<lparr>errorCode = 0, senseCode = 0, fRemovable = False, abDriveParms = replicate 8 None,
      abSector = None, bHead = Some 0, nHeads = Some 4, wCylinder = Some 0, bSector = Some 16,
      bSectorEnd = None, nBytes = Some 512, bSectorBias = 0, dtype = 2, nSectors = 17,
      cbSector = 512, nCylinders = Some 615, hdisk = None, ibSector = Some 0, hsector = None,
      bControl = None\<rparr>"

definition xtc_drive_example :: hdrive where
  "xtc_drive_example =
     \<lparr>errorCode = 0, senseCode = 0, fRemovable = False, abDriveParms = replicate 8 None,
      abSector = None, bHead = Some 2, nHeads = Some 4, wCylinder = Some 10, bSector = Some 5,
      bSectorEnd = None, nBytes = Some 512, bSectorBias = 1, dtype = 3, nSectors = 17,
      cbSector = 512, nCylinders = Some 306, hdisk = None, ibSector = Some 0, hsector = None,
      bControl = None\<rparr>"

text \<open>
  The position of a drive as one number: sectors passed since cylinder 0, head 0, first
  sector.  One call of \<open>advanceSector\<close> adds one to it.
\<close>

definition in_geometry :: "hdrive \<Rightarrow> bool" where
  "in_geometry d =
     (case (wCylinder d, bHead d, bSector d, nHeads d) of
        (Some c, Some h, Some s, Some nh) \<Rightarrow>
           0 \<le> h \<and> h < nh \<and> 1 - bSectorBias d \<le> s \<and> s < nSectors d + (1 - bSectorBias d)
      | _ \<Rightarrow> False)"

definition linear :: "hdrive \<Rightarrow> int" where
  "linear d = (js_int (wCylinder d) * js_int (nHeads d) + js_int (bHead d)) * nSectors d
              + (js_int (bSector d) - (1 - bSectorBias d))"


text \<open>The drive the Drive/Head register of the AT controller selects.\<close>

definition atc_selected :: "hdc \<Rightarrow> nat" where
  "atc_selected c = (if regDrvHd c AND 0x10 \<noteq> 0 then 1 else 0)"


text \<open>The host writes the bytes of a command to port 0x320, one after the other.\<close>

fun outXTCData_all :: "hdc \<Rightarrow> int list \<Rightarrow> hdc option" where
  "outXTCData_all c [] = Some c"
| "outXTCData_all c (b # bs) =
     (case outXTCData c b of None \<Rightarrow> None | Some c' \<Rightarrow> outXTCData_all c' bs)"

text \<open>
  Two controllers with one drive each, as \<open>initController\<close> leaves them: the AT controller
  with drive 0 selected and a Sector Count register of 0, the XT controller idle.
\<close>

definition atc_hdc_example :: hdc where
  "atc_hdc_example =
     \<lparr>fATC = True, aDriveConfigs = [Some 2], regError = 0, regWPreC = 0, regSecCnt = 0,
      regSecNum = 16, regCylLo = 0, regCylHi = 0, regDrvHd = 0xA0, regStatus = 0x40,
      regCommand = 0, regFDR = 0, regConfig = None, regDataArray = [], regDataIndex = 0,
      regDataTotal = 0, regReset = None, regPulse = None, regPattern = None,
      iDriveAllowFail = None, aDrives = [atc_drive_example], this_drive = None,
      chipset = Some \<lparr>irr = False\<rparr>, dmaSession = None\<rparr>"

definition xtc_hdc_example :: hdc where
  "xtc_hdc_example =
     \<lparr>fATC = False, aDriveConfigs = [Some 3], regError = 0, regWPreC = 0, regSecCnt = 0,
      regSecNum = 0, regCylLo = 0, regCylHi = 0, regDrvHd = 0, regStatus = 0,
      regCommand = 0, regFDR = 0, regConfig = Some 0x0C, regDataArray = replicate 14 None,
      regDataIndex = 0, regDataTotal = 0, regReset = None, regPulse = None, regPattern = None,
      iDriveAllowFail = Some (- 1), aDrives = [xtc_drive_example], this_drive = None,
      chipset = Some \<lparr>irr = False\<rparr>, dmaSession = None\<rparr>"


subsection \<open>The diskette controller\<close>

text \<open>
  The host writes the bytes of a command to port 0x3F5, one after the other, reads
  \<open>n\<close> result bytes from it, and polls port 0x3F4 \<open>n\<close> times.
\<close>

fun outFDCData_all :: "(fdc_dma \<Rightarrow> fdrive \<Rightarrow> fdrive) \<Rightarrow> fdc \<Rightarrow> int list \<Rightarrow> fdc option" where
  "outFDCData_all dma c [] = Some c"
| "outFDCData_all dma c (b # bs) =
     (case outFDCData dma c b of None \<Rightarrow> None | Some c' \<Rightarrow> outFDCData_all dma c' bs)"

fun inFDCData_n :: "fdc \<Rightarrow> nat \<Rightarrow> fdc \<times> jsnum list" where
  "inFDCData_n c 0 = (c, [])"
| "inFDCData_n c (Suc n) =
     (let (c1, b) = inFDCData c; (c2, bs) = inFDCData_n c1 n in (c2, b # bs))"


definition xfer_command :: "int \<Rightarrow> bool" where
  "xfer_command bCmd = (bCmd AND FDC_CMD_MASK = FDC_CMD_READ_DATA
                        \<or> bCmd AND FDC_CMD_MASK = FDC_CMD_WRITE_DATA)"


text \<open>
  The drive a \<open>READ_DATA\<close> or \<open>WRITE_DATA\<close> command leaves behind, from the drive it found
  and the bytes of the command, and the seven bytes of its Result Phase.
\<close>

definition xfer_drive ::
  "(fdc_dma \<Rightarrow> fdrive \<Rightarrow> fdrive) \<Rightarrow> bool \<Rightarrow> int \<Rightarrow> fdrive \<Rightarrow> int \<Rightarrow> int \<Rightarrow> int \<Rightarrow> int \<Rightarrow> int \<Rightarrow> fdrive" where
  "xfer_drive dma hasChipset bCmd drive0 us bC bR bN bEOT =
     (let drive1 = drive0\<lparr>bHead_fd := drop_bit 2 us AND 0x1, bCylinder := Some bC,
                             bSector_fd := Some bR, nBytes_fd := Some (js_shl 128 bN),
                             bSectorEnd_fd := Some bEOT\<rparr>
      in if bCmd AND FDC_CMD_MASK = FDC_CMD_READ_DATA then doRead dma hasChipset drive1
         else doWrite dma hasChipset drive1)"

definition xfer_results :: "int \<Rightarrow> fdrive \<Rightarrow> int \<Rightarrow> jsnum list" where
  "xfer_results unit drive bN =
     [Some (unit OR bHead_fd drive OR (errorCode_fd drive AND FDC_ERR_ST0)),
      Some (drop_bit 8 (errorCode_fd drive AND FDC_ERR_ST1)),
      Some (drop_bit 16 (errorCode_fd drive AND FDC_ERR_ST2)),
      bCylinder drive, Some (bHead_fd drive), bSector_fd drive, Some bN]"



text \<open>The commands whose case of \<open>doCmd\<close> sets \<open>fIRQ\<close>.\<close>

definition signals_irq :: "int \<Rightarrow> bool" where
  "signals_irq bCmdMasked =
     (bCmdMasked = FDC_CMD_WRITE_DATA \<or> bCmdMasked = FDC_CMD_READ_DATA
      \<or> bCmdMasked = FDC_CMD_RECALIBRATE \<or> bCmdMasked = FDC_CMD_FORMAT_TRACK
      \<or> bCmdMasked = FDC_CMD_SEEK)"

text \<open>What the parts of \<open>doCmd\<close> leave alone: the chip set and the Output register.\<close>

definition same_lines :: "fdc \<Rightarrow> fdc \<Rightarrow> bool" where
  "same_lines c c' = (chipset_fdc c' = chipset_fdc c \<and> regOutput c' = regOutput c)"


text \<open>
  A chip set whose transfer moves one byte before \<open>requestDMA\<close> returns: it calls the
  connected \<open>dmaRead\<close> or \<open>dmaWrite\<close> once (which call \<open>readByte\<close> and \<open>writeByte\<close>).
\<close>

definition dma_one_byte :: "fdc_dma \<Rightarrow> fdrive \<Rightarrow> fdrive" where
  "dma_one_byte kind drive =
     (case kind of
        FDC_dmaRead \<Rightarrow> fst (readByte_FDC drive)
      | FDC_dmaWrite \<Rightarrow> fst (writeByte_FDC drive 0xE5)
      | FDC_dmaFormat \<Rightarrow> drive)"

text \<open>
  An FDC with four drives as \<open>initController\<close> leaves them, interrupts enabled; drive 0
  holds a diskette (of which two short sectors are kept), the others are empty.
\<close>

definition disk_example :: disk where
  "disk_example = \<lparr>sectors = [((0, 0, 1), [0xEB, 0x3C]), ((0, 0, 2), [0x90, 0x00])],
                     fWriteProtected = False\<rparr>"

definition fdrive_empty :: fdrive where
  "fdrive_empty =
     \<lparr>errorCode_fd = FDC_ERR_RESET, name_fd = ''Floppy Drive'', nCylinders_fd = 40, nHeads_fd = 2,
      nSectors_fd = 9, cbSector_fd = 512, fRemovable_fd = True, bHead_fd = 0, bCylinder = Some 0,
      bSector_fd = None, bSectorEnd_fd = None, nBytes_fd = None, ibSector_fd = None,
      sector_fd = None, disk_fd = None, sDisketteName = None, sDiskettePath = Some [],
      bFiller = None, cbFormat = 0, abFormat = [], bFormatting = False, cSectorsFormatted = 0\<rparr>"

definition fdc_example :: fdc where
  "fdc_example =
     \<lparr>iDrive = 0, iUnit = 0, regStatus_fdc = FDC_STATUS_RQM, regDataArray_fdc = replicate 9 None,
      regDataIndex_fdc = 0, regDataTotal_fdc = 0, regOutput = 0x1C, regInput = 0, regControl = 0,
      aDrives_fdc = [fdrive_empty\<lparr>disk_fd := Some disk_example\<rparr>, fdrive_empty, fdrive_empty,
                     fdrive_empty],
      chipset_fdc = Some \<lparr>irr = False\<rparr>\<rparr>"

text \<open>The example with a \<open>SEEK\<close> to cylinder 5 of drive 0 in its data registers.\<close>

definition fdc_seek_example :: fdc where
  "fdc_seek_example =
     fdc_example\<lparr>regDataArray_fdc := map Some [0x0F, 0, 5] @ replicate 6 None,
                  regDataTotal_fdc := 3\<rparr>"

text \<open>
  The sector \<open>seek\<close> finds \<open>j\<close> sector numbers after the one in the sector register of
  \<open>fd\<close>, on its cylinder and head (\<open>None\<close> if there is none).  \<open>stepped fd dk k d\<close>: the
  sector register of \<open>d\<close> is \<open>k\<close> increments past that of \<open>fd\<close>, the \<open>k\<close> sectors from the
  register of \<open>fd\<close> on were all found, and \<open>d\<close> holds the last of them (the current
  sector of \<open>fd\<close> if \<open>k = 0\<close>), or holds none because the sector at its register is not
  found.
\<close>

definition sector_at :: "fdrive \<Rightarrow> disk \<Rightarrow> nat \<Rightarrow> sector option" where
  "sector_at fd dk j =
     disk_seek dk (bCylinder fd) (Some (bHead_fd fd)) ((js_inc ^^ j) (bSector_fd fd))"

definition stepped :: "fdrive \<Rightarrow> disk \<Rightarrow> nat \<Rightarrow> fdrive \<Rightarrow> bool" where
  "stepped fd dk k d =
     (bSector_fd d = (js_inc ^^ k) (bSector_fd fd)
      \<and> list_all (\<lambda>j. sector_at fd dk j \<noteq> None) [0 ..< k]
      \<and> (if sector_fd d = None then sector_at fd dk k = None
          else sector_fd d = (if k = 0 then sector_fd fd else sector_at fd dk (k - 1))))"

text \<open>Drive 0 of the example as a \<open>READ_DATA\<close> for sector 1 hands it to the transfer.\<close>

definition fdrive_ready :: fdrive where
  "fdrive_ready = fdrive_empty\<lparr>errorCode_fd := 0, bSector_fd := Some 1,
                               disk_fd := Some disk_example\<rparr>"

subsection \<open>Saved state\<close>

text \<open>
  What the round trip compares.  The position of a drive is its cylinder, head, sector and
  byte cursor; the registers of a controller are those its variant saves; \<open>saved_drive\<close>
  and \<open>saved_drive_fd\<close> are the other saved properties of a drive that come back as
  saved.
\<close>

definition position :: "hdrive \<Rightarrow> jsnum \<times> jsnum \<times> jsnum \<times> jsnum" where
  "position d = (wCylinder d, bHead d, bSector d, ibSector d)"

definition saved_drive :: "hdrive \<Rightarrow> int \<times> int \<times> bool \<times> jsnum list \<times> jsnum list option \<times> jsnum \<times> jsnum" where
  "saved_drive d = (errorCode d, senseCode d, fRemovable d, abDriveParms d, abSector d,
                    bSectorEnd d, nBytes d)"

definition atc_registers :: "hdc \<Rightarrow> int list" where
  "atc_registers c = [regError c, regWPreC c, regSecCnt c, regSecNum c, regCylLo c, regCylHi c,
                      regDrvHd c, regStatus c, regCommand c, regFDR c]"

definition xtc_registers :: "hdc \<Rightarrow> jsnum list \<times> int list \<times> jsnum list" where
  "xtc_registers c = ([regConfig c, regReset c, regPulse c, regPattern c, iDriveAllowFail c],
                      [regStatus c, regDataIndex c, regDataTotal c], regDataArray c)"

definition position_fd :: "fdrive \<Rightarrow> jsnum \<times> int \<times> jsnum \<times> jsnum" where
  "position_fd d = (bCylinder d, bHead_fd d, bSector_fd d, ibSector_fd d)"

definition saved_drive_fd :: "fdrive \<Rightarrow> int \<times> string \<times> int list \<times> bool \<times> jsnum \<times> jsnum" where
  "saved_drive_fd d = (errorCode_fd d, name_fd d,
                       [nCylinders_fd d, nHeads_fd d, nSectors_fd d, cbSector_fd d],
                       fRemovable_fd d, bSectorEnd_fd d, nBytes_fd d)"

definition fdc_registers :: "fdc \<Rightarrow> int list \<times> jsnum list" where
  "fdc_registers c = ([iDrive c, iUnit c, regStatus_fdc c, regDataIndex_fdc c, regDataTotal_fdc c,
                       regOutput c, regInput c, regControl c], regDataArray_fdc c)"

text \<open>
  The state \<open>initController\<close> leaves an XT controller in: \<open>iDriveAllowFail\<close> is defined, and
  \<open>regConfig\<close> holds the switch settings of drives 0 and 1, which the function sets again
  after every restore (\<open>regConfig |= (drive.type & 0x3) << ((1 - iDrive) << 1)\<close>).  Every
  drive has a configuration.
\<close>

definition switches :: "bool \<Rightarrow> int option \<Rightarrow> nat \<Rightarrow> int" where
  "switches atc config i = js_shl (driveType atc config AND 0x3) (js_shl (1 - int i) 1)"

definition config_set :: "bool \<Rightarrow> int option list \<Rightarrow> nat \<Rightarrow> jsnum \<Rightarrow> bool" where
  "config_set atc configs n config =
     (case config of
        None \<Rightarrow> True
      | Some v \<Rightarrow> list_all (\<lambda>i. v OR switches atc (configs ! i) i = v) [0 ..< min 2 n])"

definition restorable :: "hdc \<Rightarrow> bool" where
  "restorable c =
     (length (aDrives c) \<le> length (aDriveConfigs c)
      \<and> (fATC c \<or> iDriveAllowFail c \<noteq> None
                    \<and> config_set False (aDriveConfigs c) (length (aDrives c)) (regConfig c)))"

text \<open>An XT controller in another state, to restore the example into.\<close>

definition xtc_hdc_target :: hdc where
  "xtc_hdc_target =
     xtc_hdc_example\<lparr>regStatus := 0x0D, regConfig := Some 0, regDataIndex := 2,
                     iDriveAllowFail := None,
                     aDrives := [xtc_drive_example\<lparr>bHead := None, wCylinder := None,
                                                    bSector := None, ibSector := None\<rparr>]\<rparr>"

section \<open>Sector advance\<close>

lemma advanceSector_geometry:
  "nHeads (advanceSector d) = nHeads d \<and> nSectors (advanceSector d) = nSectors d
   \<and> bSectorBias (advanceSector d) = bSectorBias d"
  by (simp add: advanceSector_def Let_def)

lemma advanceSector_in_geometry:
  assumes "in_geometry d"
  shows "in_geometry (advanceSector d)"
  using assms
  by (auto simp: in_geometry_def advanceSector_def Let_def js_inc_def js_ge_def
           split: option.splits)

lemma advanceSector_linear:
  assumes "in_geometry d"
  shows "linear (advanceSector d) = linear d + 1"
proof -
  from assms obtain c h s nh where
    pos: "wCylinder d = Some c" "bHead d = Some h" "bSector d = Some s" "nHeads d = Some nh"
    and bnd: "0 \<le> h" "h < nh" "1 - bSectorBias d \<le> s" "s < nSectors d + (1 - bSectorBias d)"
    by (auto simp: in_geometry_def split: option.splits)
  show ?thesis
  proof (cases "s + 1 \<ge> nSectors d + (1 - bSectorBias d)")
    case False
    then show ?thesis
      using pos by (simp add: advanceSector_def Let_def js_inc_def js_ge_def linear_def js_int_def)
  next
    case True
    with bnd have s: "s = nSectors d - bSectorBias d" by simp
    show ?thesis
    proof (cases "h + 1 \<ge> nh")
      case False
      then show ?thesis
        using pos True s
        by (simp add: advanceSector_def Let_def js_inc_def js_ge_def linear_def js_int_def
                      algebra_simps)
    next
      case h1: True
      with bnd have h: "nh = h + 1" by simp
      show ?thesis
        using pos True h1
        by (simp add: advanceSector_def Let_def js_inc_def js_ge_def linear_def js_int_def s h
                      algebra_simps)
    qed
  qed
qed

lemma advance_funpow:
  assumes "in_geometry d"
  shows "in_geometry ((advanceSector ^^ n) d)
         \<and> linear ((advanceSector ^^ n) d) = linear d + int n
         \<and> nHeads ((advanceSector ^^ n) d) = nHeads d
         \<and> nSectors ((advanceSector ^^ n) d) = nSectors d
         \<and> bSectorBias ((advanceSector ^^ n) d) = bSectorBias d"
proof (induction n)
  case 0
  show ?case using assms by simp
next
  case (Suc n)
  then show ?case
    by (simp add: advanceSector_in_geometry advanceSector_linear advanceSector_geometry)
qed


lemma radix_unique:
  fixes a a' r r' n :: int
  assumes "a * n + r = a' * n + r'" "0 \<le> r" "r < n" "0 \<le> r'" "r' < n"
  shows "a = a' \<and> r = r'"
proof -
  have "(a * n + r) div n = a" using assms(2,3) by simp
  moreover have "(a' * n + r') div n = a'" using assms(4,5) by simp
  ultimately have "a = a'" using assms(1) by simp
  with assms(1) show ?thesis by simp
qed

lemma readLoop_FDC_frame:
  "readLoop_FDC drive dk b = (d', b') \<Longrightarrow>
     bHead_fd d' = bHead_fd drive \<and> nBytes_fd d' = nBytes_fd drive \<and> bCylinder d' = bCylinder drive
     \<and> (\<exists>k. bSector_fd d' = (js_inc ^^ k) (bSector_fd drive))"
proof (induction drive dk b arbitrary: d' b' rule: readLoop_FDC.induct)
  case (1 drive dk b)
  define drive1 where "drive1 = (case sector_fd drive of
               Some sec \<Rightarrow> drive\<lparr>ibSector_fd := js_inc (ibSector_fd drive)\<rparr> | None \<Rightarrow> drive)"
  define b1 where "b1 = (case sector_fd drive of
               Some sec \<Rightarrow> disk_read dk sec (ibSector_fd drive) | None \<Rightarrow> b)"
  have pair: "(case sector_fd drive of
               Some sec \<Rightarrow> (drive\<lparr>ibSector_fd := js_inc (ibSector_fd drive)\<rparr>,
                             disk_read dk sec (ibSector_fd drive))
             | None \<Rightarrow> (drive, b)) = (drive1, b1)"
    by (simp add: drive1_def b1_def split: option.splits)
  have same: "bHead_fd drive1 = bHead_fd drive" "nBytes_fd drive1 = nBytes_fd drive"
     "bCylinder drive1 = bCylinder drive"
     "bSector_fd drive1 = bSector_fd drive"
    by (simp_all add: drive1_def split: option.splits)
  define stop where "stop = (sector_fd drive \<noteq> None \<and> 0 \<le> b1)"
  have unfold: "readLoop_FDC drive dk b =
     (if stop then (drive1, b1)
      else (case disk_seek dk (bCylinder drive1) (Some (bHead_fd drive1)) (bSector_fd drive1) of
                 None \<Rightarrow> (drive1\<lparr>sector_fd := None,
                                   errorCode_fd := FDC_ERR_NO_DATA OR FDC_ERR_INCOMPLETE\<rparr>, b1)
               | Some sec \<Rightarrow>
                   readLoop_FDC (drive1\<lparr>ibSector_fd := Some 0, sector_fd := Some sec,
                                         bSector_fd := js_inc (bSector_fd drive1)\<rparr>) dk b1))"
    by (subst readLoop_FDC.simps) (simp only: pair stop_def Let_def prod.case)
  show ?case
  proof (cases stop)
    case True
    then have "d' = drive1"
      using "1.prems" by (simp add: unfold)
    then show ?thesis using same by (auto intro: exI [of _ 0])
  next
    case False
    show ?thesis
    proof (cases "disk_seek dk (bCylinder drive1) (Some (bHead_fd drive1)) (bSector_fd drive1)")
      case None
      then have "d' = drive1\<lparr>sector_fd := None,
                                   errorCode_fd := FDC_ERR_NO_DATA OR FDC_ERR_INCOMPLETE\<rparr>"
        using "1.prems" False by (simp add: unfold)
      then show ?thesis using same by (auto intro: exI [of _ 0])
    next
      case (Some sec)
      let ?d2 = "drive1\<lparr>ibSector_fd := Some 0, sector_fd := Some sec,
                                         bSector_fd := js_inc (bSector_fd drive1)\<rparr>"
      have run: "readLoop_FDC ?d2 dk b1 = (d', b')"
        using "1.prems" False Some by (simp add: unfold)
      have "bHead_fd d' = bHead_fd ?d2 \<and> nBytes_fd d' = nBytes_fd ?d2 \<and> bCylinder d' = bCylinder ?d2
            \<and> (\<exists>k. bSector_fd d' = (js_inc ^^ k) (bSector_fd ?d2))"
        using False Some run unfolding stop_def
        by (intro "1.IH" [OF pair [symmetric] refl]) 
      then obtain k where "bHead_fd d' = bHead_fd drive" "nBytes_fd d' = nBytes_fd drive"
        "bCylinder d' = bCylinder drive"
        "bSector_fd d' = (js_inc ^^ Suc k) (bSector_fd drive)"
        using same by (auto simp: funpow_swap1)
      then show ?thesis by blast
    qed
  qed
qed

lemma writeLoop_FDC_frame:
  "writeLoop_FDC drive dk b = (d', b') \<Longrightarrow>
     bHead_fd d' = bHead_fd drive \<and> nBytes_fd d' = nBytes_fd drive \<and> bCylinder d' = bCylinder drive
     \<and> (\<exists>k. bSector_fd d' = (js_inc ^^ k) (bSector_fd drive))"
proof (induction drive dk b arbitrary: d' b' rule: writeLoop_FDC.induct)
  case (1 drive dk b)
  define drive1 where "drive1 = (case sector_fd drive of
               Some sec \<Rightarrow> drive\<lparr>ibSector_fd := js_inc (ibSector_fd drive)\<rparr> | None \<Rightarrow> drive)"
  define dk1 where "dk1 = (case sector_fd drive of
               Some sec \<Rightarrow> fst (disk_write dk sec (ibSector_fd drive) b) | None \<Rightarrow> dk)"
  define written where "written = (case sector_fd drive of
               Some sec \<Rightarrow> snd (disk_write dk sec (ibSector_fd drive) b) | None \<Rightarrow> False)"
  have triple: "(case sector_fd drive of
               Some sec \<Rightarrow> (drive\<lparr>ibSector_fd := js_inc (ibSector_fd drive)\<rparr>,
                             disk_write dk sec (ibSector_fd drive) b)
             | None \<Rightarrow> (drive, dk, False)) = (drive1, dk1, written)"
    by (simp add: drive1_def dk1_def written_def split: option.splits)
  have same: "bHead_fd drive1 = bHead_fd drive" "nBytes_fd drive1 = nBytes_fd drive"
     "bCylinder drive1 = bCylinder drive"
     "bSector_fd drive1 = bSector_fd drive"
    by (simp_all add: drive1_def split: option.splits)
  have unfold: "writeLoop_FDC drive dk b =
     (if written then (drive1\<lparr>disk_fd := Some dk1\<rparr>, b)
      else (case disk_seek dk (bCylinder drive1) (Some (bHead_fd drive1)) (bSector_fd drive1) of
                 None \<Rightarrow> (drive1\<lparr>sector_fd := None,
                                   errorCode_fd := FDC_ERR_CRC_ERROR OR FDC_ERR_INCOMPLETE\<rparr>, - 1)
               | Some sec \<Rightarrow>
                   writeLoop_FDC (drive1\<lparr>ibSector_fd := Some 0, sector_fd := Some sec,
                                          bSector_fd := js_inc (bSector_fd drive1)\<rparr>) dk b))"
    by (subst writeLoop_FDC.simps) (simp only: triple Let_def prod.case)
  show ?case
  proof (cases written)
    case True
    then have "d' = drive1\<lparr>disk_fd := Some dk1\<rparr>"
      using "1.prems" by (simp add: unfold)
    then show ?thesis using same by (auto intro: exI [of _ 0])
  next
    case False
    show ?thesis
    proof (cases "disk_seek dk (bCylinder drive1) (Some (bHead_fd drive1)) (bSector_fd drive1)")
      case None
      then have "d' = drive1\<lparr>sector_fd := None,
                                   errorCode_fd := FDC_ERR_CRC_ERROR OR FDC_ERR_INCOMPLETE\<rparr>"
        using "1.prems" False by (simp add: unfold)
      then show ?thesis using same by (auto intro: exI [of _ 0])
    next
      case (Some sec)
      let ?d2 = "drive1\<lparr>ibSector_fd := Some 0, sector_fd := Some sec,
                                         bSector_fd := js_inc (bSector_fd drive1)\<rparr>"
      have run: "writeLoop_FDC ?d2 dk b = (d', b')"
        using "1.prems" False Some by (simp add: unfold)
      have "bHead_fd d' = bHead_fd ?d2 \<and> nBytes_fd d' = nBytes_fd ?d2 \<and> bCylinder d' = bCylinder ?d2
            \<and> (\<exists>k. bSector_fd d' = (js_inc ^^ k) (bSector_fd ?d2))"
        using False Some run
        by (intro "1.IH" [OF triple [symmetric] refl refl])
      then obtain k where "bHead_fd d' = bHead_fd drive" "nBytes_fd d' = nBytes_fd drive"
        "bCylinder d' = bCylinder drive"
        "bSector_fd d' = (js_inc ^^ Suc k) (bSector_fd drive)"
        using same by (auto simp: funpow_swap1)
      then show ?thesis by blast
    qed
  qed
qed

lemma readByte_FDC_frame:
  "bHead_fd (fst (readByte_FDC drive)) = bHead_fd drive
   \<and> nBytes_fd (fst (readByte_FDC drive)) = nBytes_fd drive
   \<and> bCylinder (fst (readByte_FDC drive)) = bCylinder drive
   \<and> (\<exists>k. bSector_fd (fst (readByte_FDC drive)) = (js_inc ^^ k) (bSector_fd drive))"
proof (cases "disk_fd drive \<noteq> None \<and> errorCode_fd drive = 0")
  case True
  then obtain dk where dk: "disk_fd drive = Some dk" by auto
  obtain d' b' where r: "readLoop_FDC drive dk (- 1) = (d', b')" by (cases "readLoop_FDC drive dk (- 1)")
  then have "readByte_FDC drive = (d', b')" using True dk by (simp add: readByte_FDC_def)
  then show ?thesis using readLoop_FDC_frame [OF r] by simp
next
  case False
  then have "fst (readByte_FDC drive) = drive"
    by (auto simp: readByte_FDC_def split: option.splits)
  then show ?thesis by (auto intro: exI [of _ 0])
qed

lemma writeByte_FDC_frame:
  "bHead_fd (fst (writeByte_FDC drive b)) = bHead_fd drive
   \<and> nBytes_fd (fst (writeByte_FDC drive b)) = nBytes_fd drive
   \<and> bCylinder (fst (writeByte_FDC drive b)) = bCylinder drive
   \<and> (\<exists>k. bSector_fd (fst (writeByte_FDC drive b)) = (js_inc ^^ k) (bSector_fd drive))"
proof (cases "disk_fd drive \<noteq> None \<and> errorCode_fd drive = 0")
  case True
  then obtain dk where dk: "disk_fd drive = Some dk" by auto
  obtain d' b' where r: "writeLoop_FDC drive dk b = (d', b')" by (cases "writeLoop_FDC drive dk b")
  then have "writeByte_FDC drive b = (d', b')" using True dk by (simp add: writeByte_FDC_def)
  then show ?thesis using writeLoop_FDC_frame [OF r] by simp
next
  case False
  then have "fst (writeByte_FDC drive b) = drive"
    by (auto simp: writeByte_FDC_def split: option.splits)
  then show ?thesis by (auto intro: exI [of _ 0])
qed

lemma advanceSector_chs:
  assumes "nHeads d = Some nh"
  shows "chs (advanceSector d)
         = map_option (spec_advance (1 - bSectorBias d) (nSectors d) nh) (chs d)"
  using assms
  by (auto simp: chs_def advanceSector_def Let_def js_inc_def js_ge_def
                 spec_advance_def split: option.splits)

lemma stepped_stop:
  assumes "bSector_fd d = bSector_fd fd" "sector_fd d = sector_fd fd" "sector_fd fd \<noteq> None"
  shows "stepped fd dk 0 d"
  using assms by (auto simp: stepped_def)

lemma stepped_not_found:
  assumes "bSector_fd d = bSector_fd fd" "sector_fd d = None"
    and "disk_seek dk (bCylinder fd) (Some (bHead_fd fd)) (bSector_fd fd) = None"
  shows "stepped fd dk 0 d"
  using assms by (simp add: stepped_def sector_at_def)

lemma stepped_located:
  assumes "disk_seek dk (bCylinder fd) (Some (bHead_fd fd)) (bSector_fd fd) = Some sec"
    and "bCylinder d2 = bCylinder fd" "bHead_fd d2 = bHead_fd fd"
    and "bSector_fd d2 = js_inc (bSector_fd fd)" "sector_fd d2 = Some sec"
    and "stepped d2 dk k d"
  shows "stepped fd dk (Suc k) d"
proof -
  have at: "sector_at d2 dk j = sector_at fd dk (Suc j)" for j
    by (simp add: sector_at_def assms(2-4) funpow_swap1)
  have at0: "sector_at fd dk 0 = Some sec"
    by (simp add: sector_at_def assms(1))
  have b: "bSector_fd d = (js_inc ^^ Suc k) (bSector_fd fd)"
    using assms(6) by (simp add: stepped_def assms(4) funpow_swap1)
  have l: "list_all (\<lambda>j. sector_at fd dk j \<noteq> None) [0 ..< Suc k]"
  proof -
    have "sector_at fd dk j \<noteq> None" if "j < Suc k" for j
    proof (cases j)
      case 0
      then show ?thesis using at0 by simp
    next
      case (Suc i)
      then have "i < k" using that by simp
      then have "sector_at d2 dk i \<noteq> None"
        using assms(6) by (simp add: stepped_def list_all_iff)
      then show ?thesis using at Suc by simp
    qed
    then show ?thesis by (simp add: list_all_iff)
  qed
  have e: "(if sector_fd d = None then sector_at fd dk (Suc k) = None
            else sector_fd d = (if Suc k = 0 then sector_fd fd else sector_at fd dk (Suc k - 1)))"
  proof (cases k)
    case 0
    then show ?thesis
      using assms(6) at [of 0] at0 by (auto simp: stepped_def assms(5) split: if_splits)
  next
    case (Suc i)
    then show ?thesis
      using assms(6) at [of k] at [of i] by (auto simp: stepped_def split: if_splits)
  qed
  show ?thesis
    unfolding stepped_def using b l e by blast
qed

lemma readLoop_FDC_stepped:
  "readLoop_FDC drive dk b = (d', b') \<Longrightarrow> \<exists>k. stepped drive dk k d'"
proof (induction drive dk b arbitrary: d' b' rule: readLoop_FDC.induct)
  case (1 drive dk b)
  define drive1 where "drive1 = (case sector_fd drive of
               Some sec \<Rightarrow> drive\<lparr>ibSector_fd := js_inc (ibSector_fd drive)\<rparr> | None \<Rightarrow> drive)"
  define b1 where "b1 = (case sector_fd drive of
               Some sec \<Rightarrow> disk_read dk sec (ibSector_fd drive) | None \<Rightarrow> b)"
  have pair: "(case sector_fd drive of
               Some sec \<Rightarrow> (drive\<lparr>ibSector_fd := js_inc (ibSector_fd drive)\<rparr>,
                             disk_read dk sec (ibSector_fd drive))
             | None \<Rightarrow> (drive, b)) = (drive1, b1)"
    by (simp add: drive1_def b1_def split: option.splits)
  have same: "bHead_fd drive1 = bHead_fd drive" "bCylinder drive1 = bCylinder drive"
     "bSector_fd drive1 = bSector_fd drive" "sector_fd drive1 = sector_fd drive"
    by (simp_all add: drive1_def split: option.splits)
  define stop where "stop = (sector_fd drive \<noteq> None \<and> 0 \<le> b1)"
  have unfold: "readLoop_FDC drive dk b =
     (if stop then (drive1, b1)
      else (case disk_seek dk (bCylinder drive1) (Some (bHead_fd drive1)) (bSector_fd drive1) of
                 None \<Rightarrow> (drive1\<lparr>sector_fd := None,
                                   errorCode_fd := FDC_ERR_NO_DATA OR FDC_ERR_INCOMPLETE\<rparr>, b1)
               | Some sec \<Rightarrow>
                   readLoop_FDC (drive1\<lparr>ibSector_fd := Some 0, sector_fd := Some sec,
                                         bSector_fd := js_inc (bSector_fd drive1)\<rparr>) dk b1))"
    by (subst readLoop_FDC.simps) (simp only: pair stop_def Let_def prod.case)
  show ?case
  proof (cases stop)
    case True
    then have "d' = drive1"
      using "1.prems" by (simp add: unfold)
    then have "stepped drive dk 0 d'"
      using same True by (intro stepped_stop) (simp_all add: stop_def)
    then show ?thesis ..
  next
    case False
    show ?thesis
    proof (cases "disk_seek dk (bCylinder drive1) (Some (bHead_fd drive1)) (bSector_fd drive1)")
      case None
      then have "d' = drive1\<lparr>sector_fd := None,
                                   errorCode_fd := FDC_ERR_NO_DATA OR FDC_ERR_INCOMPLETE\<rparr>"
        using "1.prems" False by (simp add: unfold)
      then have "stepped drive dk 0 d'"
        using same None by (intro stepped_not_found) simp_all
      then show ?thesis ..
    next
      case (Some sec)
      let ?d2 = "drive1\<lparr>ibSector_fd := Some 0, sector_fd := Some sec,
                                         bSector_fd := js_inc (bSector_fd drive1)\<rparr>"
      have run: "readLoop_FDC ?d2 dk b1 = (d', b')"
        using "1.prems" False Some by (simp add: unfold)
      have "\<exists>k. stepped ?d2 dk k d'"
        using False Some run unfolding stop_def
        by (intro "1.IH" [OF pair [symmetric] refl])
      then obtain k where k: "stepped ?d2 dk k d'" ..
      have "stepped drive dk (Suc k) d'"
        using Some same by (intro stepped_located [OF _ _ _ _ _ k]) simp_all
      then show ?thesis ..
    qed
  qed
qed

lemma writeLoop_FDC_stepped:
  "writeLoop_FDC drive dk b = (d', b') \<Longrightarrow> \<exists>k. stepped drive dk k d'"
proof (induction drive dk b arbitrary: d' b' rule: writeLoop_FDC.induct)
  case (1 drive dk b)
  define drive1 where "drive1 = (case sector_fd drive of
               Some sec \<Rightarrow> drive\<lparr>ibSector_fd := js_inc (ibSector_fd drive)\<rparr> | None \<Rightarrow> drive)"
  define dk1 where "dk1 = (case sector_fd drive of
               Some sec \<Rightarrow> fst (disk_write dk sec (ibSector_fd drive) b) | None \<Rightarrow> dk)"
  define written where "written = (case sector_fd drive of
               Some sec \<Rightarrow> snd (disk_write dk sec (ibSector_fd drive) b) | None \<Rightarrow> False)"
  have triple: "(case sector_fd drive of
               Some sec \<Rightarrow> (drive\<lparr>ibSector_fd := js_inc (ibSector_fd drive)\<rparr>,
                             disk_write dk sec (ibSector_fd drive) b)
             | None \<Rightarrow> (drive, dk, False)) = (drive1, dk1, written)"
    by (simp add: drive1_def dk1_def written_def split: option.splits)
  have same: "bHead_fd drive1 = bHead_fd drive" "bCylinder drive1 = bCylinder drive"
     "bSector_fd drive1 = bSector_fd drive" "sector_fd drive1 = sector_fd drive"
    by (simp_all add: drive1_def split: option.splits)
  have cur: "sector_fd drive \<noteq> None" if written
    using that by (auto simp: written_def split: option.splits)
  have unfold: "writeLoop_FDC drive dk b =
     (if written then (drive1\<lparr>disk_fd := Some dk1\<rparr>, b)
      else (case disk_seek dk (bCylinder drive1) (Some (bHead_fd drive1)) (bSector_fd drive1) of
                 None \<Rightarrow> (drive1\<lparr>sector_fd := None,
                                   errorCode_fd := FDC_ERR_CRC_ERROR OR FDC_ERR_INCOMPLETE\<rparr>, - 1)
               | Some sec \<Rightarrow>
                   writeLoop_FDC (drive1\<lparr>ibSector_fd := Some 0, sector_fd := Some sec,
                                          bSector_fd := js_inc (bSector_fd drive1)\<rparr>) dk b))"
    by (subst writeLoop_FDC.simps) (simp only: triple Let_def prod.case)
  show ?case
  proof (cases written)
    case True
    then have "d' = drive1\<lparr>disk_fd := Some dk1\<rparr>"
      using "1.prems" by (simp add: unfold)
    then have "stepped drive dk 0 d'"
      using same cur [OF True] by (intro stepped_stop) simp_all
    then show ?thesis ..
  next
    case False
    show ?thesis
    proof (cases "disk_seek dk (bCylinder drive1) (Some (bHead_fd drive1)) (bSector_fd drive1)")
      case None
      then have "d' = drive1\<lparr>sector_fd := None,
                                   errorCode_fd := FDC_ERR_CRC_ERROR OR FDC_ERR_INCOMPLETE\<rparr>"
        using "1.prems" False by (simp add: unfold)
      then have "stepped drive dk 0 d'"
        using same None by (intro stepped_not_found) simp_all
      then show ?thesis ..
    next
      case (Some sec)
      let ?d2 = "drive1\<lparr>ibSector_fd := Some 0, sector_fd := Some sec,
                                         bSector_fd := js_inc (bSector_fd drive1)\<rparr>"
      have run: "writeLoop_FDC ?d2 dk b = (d', b')"
        using "1.prems" False Some by (simp add: unfold)
      have "\<exists>k. stepped ?d2 dk k d'"
        using False Some run
        by (intro "1.IH" [OF triple [symmetric] refl refl])
      then obtain k where k: "stepped ?d2 dk k d'" ..
      have "stepped drive dk (Suc k) d'"
        using Some same by (intro stepped_located [OF _ _ _ _ _ k]) simp_all
      then show ?thesis ..
    qed
  qed
qed

lemma readByte_FDC_stepped:
  assumes "disk_fd fd = Some dk" "errorCode_fd fd = 0"
  shows "\<exists>k. stepped fd dk k (fst (readByte_FDC fd))"
proof -
  obtain d' b' where r: "readLoop_FDC fd dk (- 1) = (d', b')"
    by (cases "readLoop_FDC fd dk (- 1)")
  then have "fst (readByte_FDC fd) = d'"
    using assms by (simp add: readByte_FDC_def)
  then show ?thesis using readLoop_FDC_stepped [OF r] by simp
qed

lemma writeByte_FDC_stepped:
  assumes "disk_fd fd = Some dk" "errorCode_fd fd = 0"
  shows "\<exists>k. stepped fd dk k (fst (writeByte_FDC fd b))"
proof -
  obtain d' b' where r: "writeLoop_FDC fd dk b = (d', b')"
    by (cases "writeLoop_FDC fd dk b")
  then have "fst (writeByte_FDC fd b) = d'"
    using assms by (simp add: writeByte_FDC_def)
  then show ?thesis using writeLoop_FDC_stepped [OF r] by simp
qed

lemma readByte_FDC_idle:
  assumes "disk_fd fd = None \<or> errorCode_fd fd \<noteq> 0"
  shows "fst (readByte_FDC fd) = fd"
  using assms by (auto simp: readByte_FDC_def split: option.splits)

lemma writeByte_FDC_idle:
  assumes "disk_fd fd = None \<or> errorCode_fd fd \<noteq> 0"
  shows "fst (writeByte_FDC fd b) = fd"
  using assms by (auto simp: writeByte_FDC_def split: option.splits)

lemma fdrive_ready_read:
  "stepped fdrive_ready disk_example 1 (fst (readByte_FDC fdrive_ready))
   \<and> bSector_fd (fst (readByte_FDC fdrive_ready)) = Some 2
   \<and> sector_fd (fst (readByte_FDC fdrive_ready)) = Some (0, 0, 1)
   \<and> snd (readByte_FDC fdrive_ready) = 0xEB"
  by code_simp

text \<open>
  C1 (as amended).  In the HDC, for a drive with \<open>nHeads\<close> heads, \<open>advanceSector\<close>
  increments the sector register; if it would exceed \<open>nSectors + first - 1\<close>, where
  \<open>first = 1 - bSectorBias\<close> is the variant's first sector number (1 for the ATC, whose
  \<open>bSectorBias\<close> is 0, and 0 for the XTC, whose \<open>bSectorBias\<close> is 1), it is reset to \<open>first\<close>
  and the head is incremented; if the head would exceed \<open>nHeads - 1\<close> it is reset to 0 and
  the cylinder is incremented.  The FDC does not share the algorithm: its \<open>readByte\<close> and
  \<open>writeByte\<close> never change head or cylinder, and they increment the sector register once
  for every sector they locate.  A call on a drive with a disk and no error leaves the
  register \<open>k\<close> increments past its start, where the \<open>k\<close> sectors numbered from the start
  on, on the same cylinder and head, were all found by \<open>seek\<close>; the drive then holds the
  last of them (its current sector if \<open>k = 0\<close>), or holds no sector because the one at the
  register's final value is not found.  A call on a drive with no disk or with an error
  code set leaves the drive as it was.
\<close>

theorem sector_advance_per_controller:
  "(nHeads d = Some nh \<and> bSectorBias d = (if atc then 0 else 1) \<longrightarrow>
      chs (advanceSector d)
      = map_option (spec_advance (if atc then 1 else 0) (nSectors d) nh) (chs d))
   \<and> bHead_fd (fst (readByte_FDC fd)) = bHead_fd fd
   \<and> bCylinder (fst (readByte_FDC fd)) = bCylinder fd
   \<and> bHead_fd (fst (writeByte_FDC fd b)) = bHead_fd fd
   \<and> bCylinder (fst (writeByte_FDC fd b)) = bCylinder fd
   \<and> (disk_fd fd = Some dk \<and> errorCode_fd fd = 0 \<longrightarrow>
        (\<exists>k. stepped fd dk k (fst (readByte_FDC fd)))
        \<and> (\<exists>k. stepped fd dk k (fst (writeByte_FDC fd b))))
   \<and> (disk_fd fd = None \<or> errorCode_fd fd \<noteq> 0 \<longrightarrow>
        fst (readByte_FDC fd) = fd \<and> fst (writeByte_FDC fd b) = fd)"
proof -
  have hdc: "chs (advanceSector d)
        = map_option (spec_advance (if atc then 1 else 0) (nSectors d) nh) (chs d)"
    if "nHeads d = Some nh" "bSectorBias d = (if atc then 0 else 1)"
  proof -
    have "1 - bSectorBias d = (if atc then 1 else 0)" using that(2) by simp
    then show ?thesis using advanceSector_chs [OF that(1)] by simp
  qed
  have frame: "bHead_fd (fst (readByte_FDC fd)) = bHead_fd fd"
    "bCylinder (fst (readByte_FDC fd)) = bCylinder fd"
    "bHead_fd (fst (writeByte_FDC fd b)) = bHead_fd fd"
    "bCylinder (fst (writeByte_FDC fd b)) = bCylinder fd"
    using readByte_FDC_frame [of fd] writeByte_FDC_frame [of fd b] by simp_all
  have run: "(\<exists>k. stepped fd dk k (fst (readByte_FDC fd)))
             \<and> (\<exists>k. stepped fd dk k (fst (writeByte_FDC fd b)))"
    if "disk_fd fd = Some dk" "errorCode_fd fd = 0"
    using readByte_FDC_stepped [OF that] writeByte_FDC_stepped [OF that] by simp
  have idle: "fst (readByte_FDC fd) = fd \<and> fst (writeByte_FDC fd b) = fd"
    if "disk_fd fd = None \<or> errorCode_fd fd \<noteq> 0"
    using readByte_FDC_idle [OF that] writeByte_FDC_idle [OF that] by simp
  show ?thesis
    using hdc frame run idle by blast
qed

theorem sector_advance_per_controller_witness:
  "nHeads atc_drive_example = Some 4 \<and> bSectorBias atc_drive_example = 0
   \<and> disk_fd fdrive_ready = Some disk_example \<and> errorCode_fd fdrive_ready = 0
   \<and> chs (advanceSector atc_drive_example) = Some (0, 0, 17)
   \<and> bHead_fd (fst (readByte_FDC fdrive_ready)) = 0
   \<and> bCylinder (fst (readByte_FDC fdrive_ready)) = Some 0
   \<and> (\<exists>k. stepped fdrive_ready disk_example k (fst (readByte_FDC fdrive_ready)))
   \<and> bSector_fd (fst (readByte_FDC fdrive_ready)) = Some 2
   \<and> sector_fd (fst (readByte_FDC fdrive_ready)) = Some (0, 0, 1)"
proof -
  have g: "nHeads atc_drive_example = Some 4"
    "bSectorBias atc_drive_example = (if True then 0 else 1)"
    by (simp_all add: atc_drive_example_def)
  have f: "disk_fd fdrive_ready = Some disk_example" "errorCode_fd fdrive_ready = 0"
    "bHead_fd fdrive_ready = 0" "bCylinder fdrive_ready = Some 0"
    by (simp_all add: fdrive_ready_def fdrive_empty_def)
  note t = sector_advance_per_controller
             [where d = atc_drive_example and nh = 4 and atc = True and fd = fdrive_ready
                and b = "0xE5" and dk = disk_example]
  have "chs (advanceSector atc_drive_example)
        = map_option (spec_advance (if True then 1 else 0) (nSectors atc_drive_example) 4)
            (chs atc_drive_example)"
    using t g by blast
  also have "\<dots> = Some (0, 0, 17)"
    by (simp add: atc_drive_example_def chs_def spec_advance_def)
  finally have h: "chs (advanceSector atc_drive_example) = Some (0, 0, 17)" .
  have r: "bHead_fd (fst (readByte_FDC fdrive_ready)) = 0"
    "bCylinder (fst (readByte_FDC fdrive_ready)) = Some 0"
    "\<exists>k. stepped fdrive_ready disk_example k (fst (readByte_FDC fdrive_ready))"
    using t f by simp_all
  show ?thesis
    using g f h r fdrive_ready_read by simp
qed

text \<open>
  C1 as the specification states it, with the reset value and the limit taken from the
  bias (0 for the ATC), fails on the AT drive at sector 16 of 17: the specification's
  rule wraps to sector 0 of the next head, \<open>advanceSector\<close> moves on to sector 17.
\<close>

theorem sector_advance_bias_counterexample:
  "chs (advanceSector atc_drive_example)
   \<noteq> map_option (spec_advance (bSectorBias atc_drive_example) (nSectors atc_drive_example) 4)
        (chs atc_drive_example)"
  by (simp add: atc_drive_example_def chs_def spec_advance_def advanceSector_def Let_def
                js_inc_def js_ge_def)

text \<open>
  C2.  For a drive whose position is within its geometry (cylinder below \<open>nCylinders\<close>, head
  below \<open>nHeads\<close>, sector within the variant's range: 1 to \<open>nSectors\<close> on the ATC, 0 to
  \<open>nSectors - 1\<close> on the XTC), \<open>nSectors * nHeads\<close> calls of \<open>advanceSector\<close> lead to the same
  head and sector on the next cylinder.
\<close>

theorem advanceSector_full_cylinder:
  assumes "wCylinder d = Some c" "bHead d = Some h" "bSector d = Some s"
    and "nHeads d = Some nh" "nCylinders d = Some nc"
    and "bSectorBias d = (if atc then 0 else 1)"
    and "0 \<le> c" "c < nc" "0 \<le> h" "h < nh"
    and "(if atc then 1 else 0) \<le> s" "s < nSectors d + (if atc then 1 else 0)"
  shows "chs ((advanceSector ^^ nat (nSectors d * nh)) d) = Some (c + 1, h, s)"
proof -
  let ?n = "nat (nSectors d * nh)"
  let ?d' = "(advanceSector ^^ ?n) d"
  let ?first = "1 - bSectorBias d"
  have first: "?first = (if atc then 1 else 0)" using assms(6) by simp
  have geo: "in_geometry d"
    using assms by (auto simp: in_geometry_def split: if_splits)
  have ns: "0 < nSectors d" using assms(11,12) by (simp split: if_splits)
  have nh: "0 < nh" using assms(9,10) by simp
  have n: "int ?n = nSectors d * nh" using ns nh by simp
  from advance_funpow [OF geo, of ?n]
  have geo': "in_geometry ?d'" and lin: "linear ?d' = linear d + nSectors d * nh"
    and same: "nHeads ?d' = Some nh" "nSectors ?d' = nSectors d" "bSectorBias ?d' = bSectorBias d"
    using n assms(4) by simp_all
  from geo' same obtain c' h' s' where
    pos': "wCylinder ?d' = Some c'" "bHead ?d' = Some h'" "bSector ?d' = Some s'"
    and bnd': "0 \<le> h'" "h' < nh" "?first \<le> s'" "s' < nSectors d + ?first"
    by (auto simp: in_geometry_def split: option.splits)
  have "(c' * nh + h') * nSectors d + (s' - ?first)
        = ((c + 1) * nh + h) * nSectors d + (s - ?first)"
    using lin pos' same assms(1-4) by (simp add: linear_def js_int_def algebra_simps)
  then have 1: "c' * nh + h' = (c + 1) * nh + h" and 2: "s' - ?first = s - ?first"
    using radix_unique [of "c' * nh + h'" "nSectors d" "s' - ?first" "(c + 1) * nh + h" "s - ?first"]
      bnd' assms(11,12) first by auto
  from 1 have "c' = c + 1 \<and> h' = h"
    using radix_unique [of c' nh h' "c + 1" h] bnd' assms(9,10) by simp
  with 2 show ?thesis using pos' by (simp add: chs_def)
qed

theorem advanceSector_full_cylinder_witness:
  "chs xtc_drive_example = Some (10, 2, 5)
   \<and> chs ((advanceSector ^^ nat (17 * 4)) xtc_drive_example) = Some (11, 2, 5)"
proof -
  have "chs ((advanceSector ^^ nat (nSectors xtc_drive_example * 4)) xtc_drive_example)
        = Some (10 + 1, 2, 5)"
    by (rule advanceSector_full_cylinder [where atc = False and nc = 306])
       (simp_all add: xtc_drive_example_def)
  then show ?thesis by (simp add: xtc_drive_example_def chs_def)
qed

section \<open>The fixed disk controller\<close>

lemma js_index_store_same: "0 \<le> i \<Longrightarrow> js_index (js_store xs i v) i = v"
  by (auto simp: js_index_def js_store_def nth_append)

lemma length_js_store_inside:
  "0 \<le> i \<Longrightarrow> i < int (length xs) \<Longrightarrow> length (js_store xs i v) = length xs"
  by (simp add: js_store_def)


lemma nth_opt_update_None:
  "nth_opt xs i = None \<Longrightarrow> nth_opt (xs[j := y]) i = None"
  by (auto simp: nth_opt_def split: if_splits)

lemma advanceSector_nBytes: "nBytes (advanceSector d) = nBytes d"
  by (simp add: advanceSector_def Let_def)

lemma readByte_HDC_fresh:
  assumes "hsector d = None"
  shows "\<exists>d1 b. readByte_HDC d hasDone fAutoInc = Some (d1, b) \<and> nBytes d1 = nBytes d
                 \<and> cbSector d1 = cbSector d"
  using assms
  by (auto simp: readByte_HDC_def readByte_seek_def Let_def advanceSector_def
           split: option.splits)


text \<open>
  C10.  For every command byte written to the Command register of the AT controller, with
  the selected drive present: a Sector Count register of 0 gives a transfer of 256 sectors
  (\<open>nBytes = 256 * cbSector\<close>), any other value \<open>v\<close> one of \<open>v\<close> sectors.
\<close>

theorem doATC_sector_count:
  assumes "nth_opt (aDrives c) (int (atc_selected c)) = Some drive0"
  shows "\<exists>c' drive. outATCCommand c bOut = Some c'
           \<and> nth_opt (aDrives c') (int (atc_selected c)) = Some drive
           \<and> nBytes drive = Some ((if regSecCnt c = 0 then 256 else regSecCnt c) * cbSector drive0)"
proof -
  let ?i = "atc_selected c"
  let ?n = "(if regSecCnt c = 0 then 256 else regSecCnt c) * cbSector drive0"
  let ?d = "drive0\<lparr>wCylinder := Some (regCylLo c OR push_bit 8 (regCylHi c AND 0x03)),
                    bHead := Some (regDrvHd c AND 0x0F), bSector := Some (regSecNum c),
                    nBytes := Some ?n, hsector := None, ibSector := Some 0, errorCode := 0\<rparr>"
  obtain d1 b where rb: "readByte_HDC ?d True False = Some (d1, b)" and nb: "nBytes d1 = Some ?n"
    using readByte_HDC_fresh [of ?d True False] by auto
  have len: "?i < length (aDrives c)"
    using assms by (auto simp: nth_opt_def split: if_splits)
  show ?thesis
    using assms rb nb len
    by (auto simp: outATCCommand_def doATC_def Let_def atc_selected_def setATCIRR_def nth_opt_def
             split: if_splits)
qed

theorem doATC_sector_count_witness:
  "nth_opt (aDrives atc_hdc_example) (int (atc_selected atc_hdc_example)) = Some atc_drive_example
   \<and> regSecCnt atc_hdc_example = 0
   \<and> (\<exists>c' drive. outATCCommand atc_hdc_example 0x30 = Some c'
         \<and> nth_opt (aDrives c') (int (atc_selected atc_hdc_example)) = Some drive
         \<and> nBytes drive = Some (256 * 512))"
proof -
  have sel: "nth_opt (aDrives atc_hdc_example) (int (atc_selected atc_hdc_example))
             = Some atc_drive_example"
    by (simp add: atc_hdc_example_def atc_selected_def nth_opt_def)
  have "regSecCnt atc_hdc_example = 0" "cbSector atc_drive_example = 512"
    by (simp_all add: atc_hdc_example_def atc_drive_example_def)
  then show ?thesis
    using doATC_sector_count [OF sel, of "0x30"] sel by simp
qed

lemma beginResult_HDC_first:
  "js_index (regDataArray (beginResult_HDC c b)) 0 = Some b
   \<and> regDataTotal (beginResult_HDC c b) = 1 \<and> regDataIndex (beginResult_HDC c b) = 0
   \<and> aDrives (beginResult_HDC c b) = aDrives c
   \<and> iDriveAllowFail (beginResult_HDC c b) = iDriveAllowFail c"
  by (simp add: beginResult_HDC_def pushResult_HDC_def Let_def js_index_store_same)

lemma beginResult_HDC_length:
  "0 < length (regDataArray c) \<Longrightarrow>
     length (regDataArray (beginResult_HDC c b)) = length (regDataArray c)"
  by (simp add: beginResult_HDC_def pushResult_HDC_def Let_def js_store_def)







lemma initParms_no_drive:
  "parms = None \<Longrightarrow> \<exists>k. initParms c parms i = (c\<lparr>regDataIndex := k\<rparr>, None)"
proof (induction c parms i rule: initParms.induct)
  case (1 c parms i)
  show ?case
  proof (cases "regDataIndex c < regDataTotal c \<and> js_ge (js_index (regDataArray c) (regDataIndex c)) (Some 0)")
    case True
    let ?c1 = "c\<lparr>regDataIndex := regDataIndex c + 1\<rparr>"
    have pop: "popCmd_HDC c = (?c1, js_index (regDataArray c) (regDataIndex c))"
      using True by (simp add: popCmd_HDC_def)
    have "initParms c parms i = initParms ?c1 parms i"
      using True "1.prems" by (subst initParms.simps) (simp add: pop)
    moreover have "\<exists>k. initParms ?c1 parms i = (?c1\<lparr>regDataIndex := k\<rparr>, None)"
    proof (rule "1.IH"(1) [OF pop [symmetric]])
      show "js_ge (js_index (regDataArray c) (regDataIndex c)) (Some 0)" using True by blast
    qed (simp_all add: "1.prems")
    ultimately show ?thesis by simp
  next
    case False
    then have "initParms c parms i = (fst (popCmd_HDC c), None)"
      using "1.prems"
      by (subst initParms.simps) (auto simp: popCmd_HDC_def js_ge_def split: if_splits)
    moreover have "\<exists>k. fst (popCmd_HDC c) = c\<lparr>regDataIndex := k\<rparr>"
      by (auto simp: popCmd_HDC_def intro: exI [of _ "regDataIndex c"])
    ultimately show ?thesis by auto
  qed
qed

lemma popCmd_HDC_at:
  "regDataIndex c < regDataTotal c \<Longrightarrow>
     popCmd_HDC c = (c\<lparr>regDataIndex := regDataIndex c + 1\<rparr>, js_index (regDataArray c) (regDataIndex c))"
  by (simp add: popCmd_HDC_def)

lemma doXTC_init_no_drive:
  assumes "regDataTotal s = 14"
    and "js_index (regDataArray s) 0 = Some 0x0C" "js_index (regDataArray s) 1 = Some b1"
    and "unit = nat (drop_bit 5 (b1 AND 0x20))"
    and "nth_opt (aDrives s) (int unit) = None"
  shows "\<exists>s'. doXTC s = Some (beginResult_HDC s'
                   ((if iDriveAllowFail s = Some (int unit)
                     then XTC_STATUS_ERROR else XTC_STATUS_OK) OR (b1 AND 0x20)))
           \<and> aDrives s' = aDrives s \<and> regDataArray s' = regDataArray s
           \<and> iDriveAllowFail s' = (if iDriveAllowFail s = Some (int unit)
                                    then Some (- 1) else iDriveAllowFail s)"
proof -
  let ?c6 = "s\<lparr>regDataIndex := 6\<rparr>"
  obtain k where ip: "initParms ?c6 None 0 = (?c6\<lparr>regDataIndex := k\<rparr>, None)"
    using initParms_no_drive [of None ?c6 0] by auto
  show ?thesis
    using assms(1,2,3,5) ip unfolding assms(4)
    by (auto simp: doXTC_def popCmd_HDC_at Let_def js_int_def)
qed

lemma writes14:
  assumes "regDataTotal c = 0" "length (regDataArray c) = 14"
  shows "outXTCData_all c [0x0C, b1, b2, b3, b4, b5, p0, p1, p2, p3, p4, p5, p6, p7]
         = doXTC (c\<lparr>regDataArray := (regDataArray c)
                            [0 := Some 12, Suc 0 := Some b1, 2 := Some b2,
                             3 := Some b3, 4 := Some b4, 5 := Some b5,
                             6 := Some p0, 7 := Some p1, 8 := Some p2,
                             9 := Some p3, 10 := Some p4, 11 := Some p5,
                             12 := Some p6, 13 := Some p7],
                   regDataTotal := 14,
                   regStatus := (regStatus c AND - 2 OR 2) AND - 2\<rparr>)"
proof -
  have "regDataArray c \<noteq> []" using assms(2) by auto
  then show ?thesis
    using assms
    by (simp add: outXTCData_def Let_def js_store_def js_index_def split: option.split)
qed


text \<open>
  C8.  An \<open>INITIALIZE_DRIVE_CHARACTERISTICS\<close> command written to the idle XT controller
  for a drive index with no drive object, while \<open>iDriveAllowFail\<close> is armed for that
  index: the data status byte read back is \<open>STATUS_ERROR\<close> (with the command's drive bit),
  the command clears the flag, and the same command written again reads back \<open>STATUS_OK\<close>.
\<close>

theorem init_drive_fake_failure:
  assumes "regDataTotal c = 0" "length (regDataArray c) = 14"
    and "unit = nat (drop_bit 5 (b1 AND 0x20))"
    and "nth_opt (aDrives c) (int unit) = None"
    and "iDriveAllowFail c = Some (int unit)"
    and "cmd = [0x0C, b1, b2, b3, b4, b5, p0, p1, p2, p3, p4, p5, p6, p7]"
  shows "\<exists>c1 c2 c3 c4 r1 r2.
           outXTCData_all c cmd = Some c1
           \<and> inXTCData c1 = (c2, Some r1)
           \<and> r1 = XTC_STATUS_ERROR OR (b1 AND XTC_STATUS_UNIT)
           \<and> r1 AND XTC_STATUS_ERROR = XTC_STATUS_ERROR
           \<and> iDriveAllowFail c1 = Some (- 1)
           \<and> outXTCData_all c2 cmd = Some c3
           \<and> inXTCData c3 = (c4, Some r2)
           \<and> r2 = XTC_STATUS_OK OR (b1 AND XTC_STATUS_UNIT)
           \<and> r2 AND XTC_STATUS_ERROR = 0"
proof -
  let ?arr = "\<lambda>c. (regDataArray c)
                            [0 := Some 12, Suc 0 := Some b1, 2 := Some b2,
                             3 := Some b3, 4 := Some b4, 5 := Some b5,
                             6 := Some p0, 7 := Some p1, 8 := Some p2,
                             9 := Some p3, 10 := Some p4, 11 := Some p5,
                             12 := Some p6, 13 := Some p7]"
  let ?s = "\<lambda>c. c\<lparr>regDataArray := ?arr c, regDataTotal := 14,
                   regStatus := (regStatus c AND - 2 OR 2) AND - 2\<rparr>"
  have first: "\<And>c. length (regDataArray c) = 14 \<Longrightarrow>
     regDataTotal (?s c) = 14 \<and> js_index (regDataArray (?s c)) 0 = Some 0x0C
     \<and> js_index (regDataArray (?s c)) 1 = Some b1"
    by (simp add: js_index_def)
  \<comment> \<open>the first command\<close>
  obtain s' where s': "doXTC (?s c) = Some (beginResult_HDC s' (XTC_STATUS_ERROR OR (b1 AND 0x20)))"
    "aDrives s' = aDrives c" "regDataArray s' = ?arr c" "iDriveAllowFail s' = Some (- 1)"
    using doXTC_init_no_drive [of "?s c" b1 unit, OF _ _ _ assms(3)] first [OF assms(2)] assms(4,5)
    by auto
  define c1 where "c1 = beginResult_HDC s' (XTC_STATUS_ERROR OR (b1 AND 0x20))"
  have w1: "outXTCData_all c cmd = Some c1"
    using writes14 [OF assms(1,2)] s'(1) by (simp add: assms(6) c1_def)
  have c1: "js_index (regDataArray c1) 0 = Some (XTC_STATUS_ERROR OR (b1 AND 0x20))"
    "regDataTotal c1 = 1" "regDataIndex c1 = 0" "aDrives c1 = aDrives c"
    "iDriveAllowFail c1 = Some (- 1)" "length (regDataArray c1) = 14"
    using beginResult_HDC_first [of s' "XTC_STATUS_ERROR OR (b1 AND 0x20)"]
      beginResult_HDC_length [of s' "XTC_STATUS_ERROR OR (b1 AND 0x20)"] s'(2,3,4) assms(2)
    by (simp_all add: c1_def)
  define c2 where "c2 = fst (inXTCData c1)"
  have r1: "inXTCData c1 = (c2, Some (XTC_STATUS_ERROR OR (b1 AND 0x20)))"
    using c1 by (simp add: c2_def inXTCData_def Let_def)
  have c2: "regDataTotal c2 = 0" "length (regDataArray c2) = 14" "aDrives c2 = aDrives c"
    "iDriveAllowFail c2 = Some (- 1)"
    using c1 by (simp_all add: c2_def inXTCData_def Let_def)
  \<comment> \<open>the same command again\<close>
  have unarmed: "iDriveAllowFail (?s c2) \<noteq> Some (int unit)"
    using c2(4) by simp
  obtain t' where t': "doXTC (?s c2) = Some (beginResult_HDC t' (XTC_STATUS_OK OR (b1 AND 0x20)))"
    using doXTC_init_no_drive [of "?s c2" b1 unit, OF _ _ _ assms(3)] first [OF c2(2)]
      assms(4) c2(3) unarmed
    by auto
  define c3 where "c3 = beginResult_HDC t' (XTC_STATUS_OK OR (b1 AND 0x20))"
  have w2: "outXTCData_all c2 cmd = Some c3"
    using writes14 [OF c2(1,2)] t' by (simp add: assms(6) c3_def)
  have r2: "inXTCData c3 = (fst (inXTCData c3), Some (XTC_STATUS_OK OR (b1 AND 0x20)))"
    using beginResult_HDC_first [of t' "XTC_STATUS_OK OR (b1 AND 0x20)"]
    by (simp add: c3_def inXTCData_def Let_def)
  have bits: "(XTC_STATUS_ERROR OR (b1 AND 0x20)) AND XTC_STATUS_ERROR = XTC_STATUS_ERROR"
    "(XTC_STATUS_OK OR (b1 AND 0x20)) AND XTC_STATUS_ERROR = 0"
    by (simp_all add: bit.conj_disj_distrib2 and.assoc)
  show ?thesis
    using w1 r1 c1(5) w2 r2 bits
    by (intro exI [of _ c1] exI [of _ c2] exI [of _ c3] exI [of _ "fst (inXTCData c3)"]
              exI [of _ "XTC_STATUS_ERROR OR (b1 AND 0x20)"]
              exI [of _ "XTC_STATUS_OK OR (b1 AND 0x20)"]) simp
qed

theorem init_drive_fake_failure_witness:
  "iDriveAllowFail (intBIOSDisk xtc_hdc_example 0x0000 0x0081) = Some 1
   \<and> nth_opt (aDrives (intBIOSDisk xtc_hdc_example 0x0000 0x0081)) 1 = None
   \<and> (\<exists>c1 c2 c3 c4.
         outXTCData_all (intBIOSDisk xtc_hdc_example 0x0000 0x0081)
           [0x0C, 0x20, 0, 0, 0, 0, 1, 0x32, 4, 1, 0x32, 0, 0, 0x0B] = Some c1
         \<and> inXTCData c1 = (c2, Some 0x22)
         \<and> iDriveAllowFail c1 = Some (- 1)
         \<and> outXTCData_all c2 [0x0C, 0x20, 0, 0, 0, 0, 1, 0x32, 4, 1, 0x32, 0, 0, 0x0B] = Some c3
         \<and> inXTCData c3 = (c4, Some 0x20))"
proof -
  let ?c = "intBIOSDisk xtc_hdc_example 0x0000 0x0081"
  have armed: "iDriveAllowFail ?c = Some (int 1)"
    by (simp add: intBIOSDisk_def Let_def)
  have none: "nth_opt (aDrives ?c) (int 1) = None"
    by (simp add: intBIOSDisk_def Let_def xtc_hdc_example_def nth_opt_def)
  have idle: "regDataTotal ?c = 0" "length (regDataArray ?c) = 14"
    by (simp_all add: intBIOSDisk_def Let_def xtc_hdc_example_def)
  have i: "(1::nat) = nat (drop_bit 5 (0x20 AND 0x20 :: int))" by simp
  from init_drive_fake_failure [OF idle i none armed refl, of 0 0 0 0 1 "0x32" 4 1 "0x32" 0 0 "0x0B"]
  obtain c1 c2 c3 c4 where
    "outXTCData_all ?c [0x0C, 0x20, 0, 0, 0, 0, 1, 0x32, 4, 1, 0x32, 0, 0, 0x0B] = Some c1"
    "inXTCData c1 = (c2, Some 0x22)" "iDriveAllowFail c1 = Some (- 1)"
    "outXTCData_all c2 [0x0C, 0x20, 0, 0, 0, 0, 1, 0x32, 4, 1, 0x32, 0, 0, 0x0B] = Some c3"
    "inXTCData c3 = (c4, Some 0x20)"
    by auto
  then show ?thesis using armed none by auto
qed

section \<open>The diskette controller\<close>

lemma writes9:
  assumes "regDataTotal_fdc c = 0" "length (regDataArray_fdc c) = 9" "xfer_command bCmd"
  shows "outFDCData_all dma c [bCmd, us, bC, bH, bR, bN, bEOT, bGPL, bDTL]
         = doCmd dma (c\<lparr>regDataArray_fdc := (regDataArray_fdc c)
                            [0 := Some bCmd, Suc 0 := Some us, 2 := Some bC, 3 := Some bH,
                             4 := Some bR, 5 := Some bN, 6 := Some bEOT, 7 := Some bGPL,
                             8 := Some bDTL],
                         regDataTotal_fdc := 9\<rparr>)"
proof -
  have ne: "regDataArray_fdc c \<noteq> []" using assms(2) by auto
  have seq: "aCmdSeqs (bCmd AND 0x1F) = Some (9, 7)"
    using assms(3) by (auto simp: xfer_command_def aCmdSeqs_def)
  show ?thesis
    using assms(1,2) ne seq
    by (simp add: outFDCData_def Let_def js_store_def js_index_def js_int_def split: option.split)
qed

lemma writes8:
  assumes "regDataTotal_fdc c = 0" "length (regDataArray_fdc c) = 9" "xfer_command bCmd"
  shows "outFDCData_all dma c [bCmd, us, bC, bH, bR, bN, bEOT, bGPL]
         = Some (c\<lparr>regDataArray_fdc := (regDataArray_fdc c)
                            [0 := Some bCmd, Suc 0 := Some us, 2 := Some bC, 3 := Some bH,
                             4 := Some bR, 5 := Some bN, 6 := Some bEOT, 7 := Some bGPL],
                         regDataTotal_fdc := 8\<rparr>)"
proof -
  have ne: "regDataArray_fdc c \<noteq> []" using assms(2) by auto
  have seq: "aCmdSeqs (bCmd AND 0x1F) = Some (9, 7)"
    using assms(3) by (auto simp: xfer_command_def aCmdSeqs_def)
  show ?thesis
    using assms(1,2) ne seq
    by (simp add: outFDCData_def Let_def js_store_def js_index_def js_int_def split: option.split)
qed

lemma popCmd_FDC_Some:
  "0 \<le> regDataIndex_fdc c \<Longrightarrow> nat (regDataIndex_fdc c) < length xs \<Longrightarrow>
   regDataArray_fdc c = map Some xs \<Longrightarrow>
   popCmd_FDC c = (c\<lparr>regDataIndex_fdc := regDataIndex_fdc c + 1\<rparr>, Some (xs ! nat (regDataIndex_fdc c)))"
  by (simp add: popCmd_FDC_def js_index_def)

lemma pushResultsCHRN_result:
  assumes "length (regDataArray_fdc c) = 9" "nth_opt (aDrives_fdc c) (iUnit c) = Some d"
  shows "pushResultsCHRN c drive n
         = Some (c\<lparr>regDataIndex_fdc := 0,
                    regDataArray_fdc :=
                      [Some (iUnit c OR bHead_fd d OR (errorCode_fd drive AND FDC_ERR_ST0)),
                       Some (drop_bit 8 (errorCode_fd drive AND FDC_ERR_ST1)),
                       Some (drop_bit 16 (errorCode_fd drive AND FDC_ERR_ST2)),
                       bCylinder drive, Some (bHead_fd drive), bSector_fd drive, n]
                      @ drop 7 (regDataArray_fdc c),
                    regDataTotal_fdc := 7\<rparr>)"
proof -
  obtain a0 a1 a2 a3 a4 a5 a6 a7 a8 where arr: "regDataArray_fdc c = [a0, a1, a2, a3, a4, a5, a6, a7, a8]"
    using assms(1) by (auto simp: length_Suc_conv numeral_eq_Suc)
  show ?thesis
    using assms(2)
    by (simp add: pushResultsCHRN_def pushST0_def pushST1_def pushST2_def pushResult_FDC_def
                  beginResult_FDC_def js_store_def arr)
qed

lemma xfer_pops:
  assumes "regDataIndex_fdc s = 1"
    and "regDataArray_fdc s = map Some [bCmd, us, bC, bH, bR, bN, bEOT, bGPL, bDTL]"
    and "nth_opt (aDrives_fdc s) (us AND 0x3) = Some drive0"
  shows "doCmd_xfer dma s m
         = (let drive1 = drive0\<lparr>bHead_fd := drop_bit 2 us AND 0x1, bCylinder := Some bC,
                                 bSector_fd := Some bR, nBytes_fd := Some (js_shl 128 bN),
                                 bSectorEnd_fd := Some bEOT\<rparr>;
                drive = (if m = FDC_CMD_READ_DATA
                         then doRead dma (chipset_fdc s \<noteq> None) drive1
                         else doWrite dma (chipset_fdc s \<noteq> None) drive1)
            in map_option (\<lambda>r. (r, Some (us AND 0x3), True))
                 (pushResultsCHRN (s\<lparr>iUnit := us AND 0x3, regDataIndex_fdc := 9,
                                       aDrives_fdc := (aDrives_fdc s)[nat (us AND 0x3) := drive]\<rparr>)
                    drive (Some bN)))"
  using assms
  by (simp add: doCmd_xfer_def popUnit_def popCmd_FDC_def js_index_def js_int_def Let_def)

lemma same_lines_refl [simp]: "same_lines c c"
  by (simp add: same_lines_def)

lemma popCmd_FDC_frame:
  "popCmd_FDC c = (c', b) \<Longrightarrow> same_lines c c' \<and> aDrives_fdc c' = aDrives_fdc c \<and> iUnit c' = iUnit c
     \<and> iDrive c' = iDrive c"
  by (auto simp: popCmd_FDC_def same_lines_def)

lemma popUnit_frame:
  "popUnit c = (c', i, h) \<Longrightarrow> same_lines c c' \<and> aDrives_fdc c' = aDrives_fdc c \<and> iUnit c' = i"
  by (auto simp: popUnit_def popCmd_FDC_def same_lines_def Let_def)

lemma pushResult_FDC_frame:
  "same_lines c (pushResult_FDC c v) \<and> aDrives_fdc (pushResult_FDC c v) = aDrives_fdc c
   \<and> iUnit (pushResult_FDC c v) = iUnit c"
  by (simp add: pushResult_FDC_def same_lines_def)

lemma beginResult_FDC_frame:
  "same_lines c (beginResult_FDC c) \<and> aDrives_fdc (beginResult_FDC c) = aDrives_fdc c
   \<and> iUnit (beginResult_FDC c) = iUnit c"
  by (simp add: beginResult_FDC_def same_lines_def)

lemma pushST0_frame:
  "pushST0 c e = Some c' \<Longrightarrow> same_lines c c' \<and> aDrives_fdc c' = aDrives_fdc c \<and> iUnit c' = iUnit c"
  by (auto simp: pushST0_def pushResult_FDC_def same_lines_def split: option.splits)

lemma pushResultsCHRN_frame:
  "pushResultsCHRN c d n = Some c' \<Longrightarrow>
     same_lines c c' \<and> aDrives_fdc c' = aDrives_fdc c \<and> iUnit c' = iUnit c"
  by (auto simp: pushResultsCHRN_def pushST0_def pushST1_def pushST2_def pushResult_FDC_def
                 beginResult_FDC_def same_lines_def split: option.splits)

lemma nth_opt_update_hit:
  "nth_opt xs i = Some x \<Longrightarrow> nth_opt (xs[nat i := y]) i = Some y"
  by (auto simp: nth_opt_def split: if_splits)

lemma doCmd_xfer_frame:
  assumes "doCmd_xfer dma c m = Some (c', drive, fIRQ)"
  shows "same_lines c c' \<and> fIRQ \<and> drive = Some (iUnit c') \<and> nth_opt (aDrives_fdc c') (iUnit c') \<noteq> None"
proof -
  obtain c2 i h where pu: "popUnit c = (c2, i, h)" by (cases "popUnit c") auto
  note f2 = popUnit_frame [OF pu]
  from assms pu obtain drive0 where d0: "nth_opt (aDrives_fdc c2) i = Some drive0"
    by (auto simp: doCmd_xfer_def split: option.splits)
  obtain c3 bC where p3: "popCmd_FDC c2 = (c3, bC)" by (cases "popCmd_FDC c2") auto
  obtain c4 bH where p4: "popCmd_FDC c3 = (c4, bH)" by (cases "popCmd_FDC c3") auto
  obtain c5 bR where p5: "popCmd_FDC c4 = (c5, bR)" by (cases "popCmd_FDC c4") auto
  obtain c6 n where p6: "popCmd_FDC c5 = (c6, n)" by (cases "popCmd_FDC c5") auto
  obtain c7 bE where p7: "popCmd_FDC c6 = (c7, bE)" by (cases "popCmd_FDC c6") auto
  obtain c8 bG where p8: "popCmd_FDC c7 = (c8, bG)" by (cases "popCmd_FDC c7") auto
  obtain c9 bD where p9: "popCmd_FDC c8 = (c9, bD)" by (cases "popCmd_FDC c8") auto
  note f = popCmd_FDC_frame [OF p3] popCmd_FDC_frame [OF p4] popCmd_FDC_frame [OF p5]
    popCmd_FDC_frame [OF p6] popCmd_FDC_frame [OF p7] popCmd_FDC_frame [OF p8]
    popCmd_FDC_frame [OF p9]
  have c9: "same_lines c c9" "aDrives_fdc c9 = aDrives_fdc c2" "iUnit c9 = i"
    using f f2 by (auto simp: same_lines_def)
  from assms obtain d where
    push: "pushResultsCHRN (c9\<lparr>aDrives_fdc := (aDrives_fdc c9)[nat i := d]\<rparr>) d n = Some c'"
    and res: "drive = Some i" "fIRQ"
    by (auto simp: doCmd_xfer_def pu d0 p3 p4 p5 p6 p7 p8 p9 Let_def)
  from pushResultsCHRN_frame [OF push] c9 res d0
  show ?thesis
    by (auto simp: same_lines_def nth_opt_update_hit)
qed

lemma doCmd_format_frame:
  assumes "doCmd_format dma c = Some (c', drive, fIRQ)"
  shows "same_lines c c' \<and> fIRQ \<and> drive = Some (iUnit c') \<and> nth_opt (aDrives_fdc c') (iUnit c') \<noteq> None"
proof -
  obtain c2 i h where pu: "popUnit c = (c2, i, h)" by (cases "popUnit c") auto
  note f2 = popUnit_frame [OF pu]
  from assms pu obtain drive0 where d0: "nth_opt (aDrives_fdc c2) i = Some drive0"
    by (auto simp: doCmd_format_def split: option.splits)
  obtain c3 n where p3: "popCmd_FDC c2 = (c3, n)" by (cases "popCmd_FDC c2") auto
  obtain c4 bH where p4: "popCmd_FDC c3 = (c4, bH)" by (cases "popCmd_FDC c3") auto
  obtain c5 bR where p5: "popCmd_FDC c4 = (c5, bR)" by (cases "popCmd_FDC c4") auto
  obtain c6 bD where p6: "popCmd_FDC c5 = (c6, bD)" by (cases "popCmd_FDC c5") auto
  note f = popCmd_FDC_frame [OF p3] popCmd_FDC_frame [OF p4] popCmd_FDC_frame [OF p5]
    popCmd_FDC_frame [OF p6]
  have c6: "same_lines c c6" "aDrives_fdc c6 = aDrives_fdc c2" "iUnit c6 = i"
    using f f2 by (auto simp: same_lines_def)
  from assms obtain d where
    push: "pushResultsCHRN (c6\<lparr>aDrives_fdc := (aDrives_fdc c6)[nat i := d]\<rparr>) d n = Some c'"
    and res: "drive = Some i" "fIRQ"
    by (auto simp: doCmd_format_def pu d0 p3 p4 p5 p6 Let_def)
  from pushResultsCHRN_frame [OF push] c6 res d0
  show ?thesis
    by (auto simp: same_lines_def nth_opt_update_hit)
qed

lemma doCmd_switch_frame:
  assumes "doCmd_switch dma c m = Some (c', drive, fIRQ)"
  shows "same_lines c c' \<and> fIRQ = signals_irq m
         \<and> (fIRQ \<longrightarrow> drive = Some (iUnit c') \<and> nth_opt (aDrives_fdc c') (iUnit c') \<noteq> None)"
proof -
  consider (specify) "m = FDC_CMD_SPECIFY" | (status) "m = FDC_CMD_DRIVE_STATUS"
    | (xfer) "m = FDC_CMD_WRITE_DATA \<or> m = FDC_CMD_READ_DATA" | (recal) "m = FDC_CMD_RECALIBRATE"
    | (int_status) "m = FDC_CMD_INT_STATUS" | (format) "m = FDC_CMD_FORMAT_TRACK"
    | (seek) "m = FDC_CMD_SEEK"
    | (other) "m \<noteq> FDC_CMD_SPECIFY" "m \<noteq> FDC_CMD_DRIVE_STATUS" "m \<noteq> FDC_CMD_WRITE_DATA"
        "m \<noteq> FDC_CMD_READ_DATA" "m \<noteq> FDC_CMD_RECALIBRATE" "m \<noteq> FDC_CMD_INT_STATUS"
        "m \<noteq> FDC_CMD_FORMAT_TRACK" "m \<noteq> FDC_CMD_SEEK"
    by blast
  then show ?thesis
  proof cases
    case specify
    then show ?thesis
      using assms
      by (auto simp: doCmd_switch_def popCmd_FDC_def beginResult_FDC_def same_lines_def
                     signals_irq_def Let_def)
  next
    case status
    then show ?thesis
      using assms
      by (auto simp: doCmd_switch_def popCmd_FDC_def beginResult_FDC_def pushST3_def
                     pushResult_FDC_def same_lines_def signals_irq_def Let_def)
  next
    case xfer
    then have "doCmd_xfer dma c m = Some (c', drive, fIRQ)"
      using assms by (auto simp: doCmd_switch_def)
    from doCmd_xfer_frame [OF this] xfer show ?thesis
      by (auto simp: signals_irq_def)
  next
    case recal
    then show ?thesis
      using assms
      by (auto simp: doCmd_switch_def popCmd_FDC_def beginResult_FDC_def same_lines_def
                     signals_irq_def Let_def nth_opt_update_hit split: option.splits)
  next
    case int_status
    then show ?thesis
      using assms
      by (auto simp: doCmd_switch_def pushST0_def pushResult_FDC_def beginResult_FDC_def
                     same_lines_def signals_irq_def Let_def split: option.splits)
  next
    case format
    then have "doCmd_format dma c = Some (c', drive, fIRQ)"
      using assms by (auto simp: doCmd_switch_def)
    from doCmd_format_frame [OF this] format show ?thesis
      by (auto simp: signals_irq_def)
  next
    case seek
    obtain c2 i h where pu: "popUnit c = (c2, i, h)" by (cases "popUnit c") auto
    note f2 = popUnit_frame [OF pu]
    obtain c3 b where p3: "popCmd_FDC c2 = (c3, b)" by (cases "popCmd_FDC c2") auto
    note f3 = popCmd_FDC_frame [OF p3]
    show ?thesis
      using assms seek f2 f3
      by (auto simp: doCmd_switch_def pu p3 beginResult_FDC_def same_lines_def
                     signals_irq_def Let_def nth_opt_update_hit split: option.splits)
  next
    case other
    then show ?thesis
      using assms by (auto simp: doCmd_switch_def signals_irq_def)
  qed
qed


lemma doCmd_lines:
  assumes "doCmd dma c = Some c'"
  shows "regOutput c' = regOutput c
         \<and> chipset_fdc c'
             = (if regOutput c AND FDC_OUTPUT_INT_ENABLE \<noteq> 0
                   \<and> signals_irq (js_int (js_index (regDataArray_fdc c) 0) AND FDC_CMD_MASK)
                   \<and> (\<exists>d. nth_opt (aDrives_fdc c') (iUnit c') = Some d
                            \<and> errorCode_fd d AND FDC_ERR_NOT_READY = 0)
                then setIRR (chipset_fdc c) else chipset_fdc c)"
proof -
  let ?m = "js_int (js_index (regDataArray_fdc c) 0) AND FDC_CMD_MASK"
  let ?c1 = "c\<lparr>regDataIndex_fdc := 1\<rparr>"
  from assms(1) obtain c2 drive fIRQ where
    sw: "doCmd_switch dma ?c1 ?m = Some (c2, drive, fIRQ)"
    by (auto simp: doCmd_def popCmd_FDC_def Let_def split: option.splits)
  note fr = doCmd_switch_frame [OF sw]
  have run: "doCmd dma c = 
     (let c3 = (if 0 < regDataTotal_fdc c2
                       then c2\<lparr>regStatus_fdc := regStatus_fdc c2
                                                   OR (FDC_STATUS_READ_DATA OR FDC_STATUS_BUSY)\<rparr>
                       else c2)
             in if regOutput c3 AND FDC_OUTPUT_INT_ENABLE \<noteq> 0 then
                  (case drive of
                     Some i \<Rightarrow>
                       (case nth_opt (aDrives_fdc c3) i of
                          Some d \<Rightarrow>
                            (if errorCode_fd d AND FDC_ERR_NOT_READY = 0 \<and> fIRQ
                             then Some (c3\<lparr>chipset_fdc := setIRR (chipset_fdc c3)\<rparr>)
                             else Some c3)
                        | None \<Rightarrow> Some c3)
                   | None \<Rightarrow> Some c3)
                else Some c3)"
    using sw by (simp add: doCmd_def popCmd_FDC_def Let_def)
  show ?thesis
  proof (cases "0 < regDataTotal_fdc c2")
    case True
    show ?thesis
      using assms fr True unfolding run
      by (auto simp: same_lines_def Let_def split: option.splits if_splits)
  next
    case False
    show ?thesis
      using assms fr False unfolding run
      by (auto simp: same_lines_def Let_def split: option.splits if_splits)
  qed
qed




lemma doCmd_xfer_run:
  assumes "regDataArray_fdc s = map Some [bCmd, us, bC, bH, bR, bN, bEOT, bGPL, bDTL]"
    and "xfer_command bCmd"
    and "nth_opt (aDrives_fdc s) (us AND 0x3) = Some drive0"
    and "drive = xfer_drive dma (chipset_fdc s \<noteq> None) bCmd drive0 us bC bR bN bEOT"
  shows "\<exists>c'. doCmd dma s = Some c' \<and> regDataIndex_fdc c' = 0 \<and> regDataTotal_fdc c' = 7
          \<and> regDataArray_fdc c' = xfer_results (us AND 0x3) drive bN @ [Some bGPL, Some bDTL]
          \<and> nth_opt (aDrives_fdc c') (us AND 0x3) = Some drive
          \<and> iUnit c' = us AND 0x3 \<and> regOutput c' = regOutput s"
proof -
  let ?s1 = "s\<lparr>regDataIndex_fdc := 1\<rparr>"
  let ?m = "bCmd AND FDC_CMD_MASK"
  let ?c9 = "s\<lparr>iUnit := us AND 0x3, regDataIndex_fdc := 9,
               aDrives_fdc := (aDrives_fdc s)[nat (us AND 0x3) := drive]\<rparr>"
  have m: "?m = FDC_CMD_WRITE_DATA \<or> ?m = FDC_CMD_READ_DATA"
    using assms(2) by (auto simp: xfer_command_def)
  have hit: "nth_opt (aDrives_fdc ?c9) (iUnit ?c9) = Some drive"
    using assms(3) by (simp add: nth_opt_update_hit)
  have "doCmd_xfer dma ?s1 ?m
        = map_option (\<lambda>r. (r, Some (us AND 0x3), True)) (pushResultsCHRN ?c9 drive (Some bN))"
    using xfer_pops [of ?s1 bCmd us bC bH bR bN bEOT bGPL bDTL drive0 dma ?m] assms(1,3,4)
    by (simp add: xfer_drive_def Let_def)
  also have "pushResultsCHRN ?c9 drive (Some bN)
        = Some (?c9\<lparr>regDataIndex_fdc := 0,
                      regDataArray_fdc := xfer_results (us AND 0x3) drive bN @ [Some bGPL, Some bDTL],
                      regDataTotal_fdc := 7\<rparr>)"
    using pushResultsCHRN_result [of ?c9 drive drive "Some bN"] hit assms(1)
    by (simp add: xfer_results_def)
  finally have sw: "doCmd_switch dma ?s1 ?m
        = Some (?c9\<lparr>regDataIndex_fdc := 0,
                      regDataArray_fdc := xfer_results (us AND 0x3) drive bN @ [Some bGPL, Some bDTL],
                      regDataTotal_fdc := 7\<rparr>, Some (us AND 0x3), True)"
    using m by (auto simp: doCmd_switch_def)
  show ?thesis
    using sw hit assms(1)
    by (simp add: doCmd_def popCmd_FDC_def Let_def js_index_def js_int_def)
qed

lemma inFDCData_step:
  assumes "0 \<le> regDataIndex_fdc c" "regDataIndex_fdc c < regDataTotal_fdc c"
    and "nat (regDataTotal_fdc c) \<le> length (regDataArray_fdc c)"
  shows "snd (inFDCData c) = regDataArray_fdc c ! nat (regDataIndex_fdc c)
     \<and> regDataArray_fdc (fst (inFDCData c)) = regDataArray_fdc c
     \<and> (if regDataIndex_fdc c + 1 = regDataTotal_fdc c
         then regDataIndex_fdc (fst (inFDCData c)) = 0 \<and> regDataTotal_fdc (fst (inFDCData c)) = 0
         else regDataIndex_fdc (fst (inFDCData c)) = regDataIndex_fdc c + 1
              \<and> regDataTotal_fdc (fst (inFDCData c)) = regDataTotal_fdc c)"
  using assms by (auto simp: inFDCData_def Let_def js_index_def)

lemma inFDCData_n_drain:
  assumes "0 \<le> regDataIndex_fdc c" "regDataTotal_fdc c = regDataIndex_fdc c + int n" "0 < n"
    and "nat (regDataTotal_fdc c) \<le> length (regDataArray_fdc c)"
  shows "snd (inFDCData_n c n) = take n (drop (nat (regDataIndex_fdc c)) (regDataArray_fdc c))
         \<and> regDataTotal_fdc (fst (inFDCData_n c n)) = 0"
  using assms
proof (induction n arbitrary: c)
  case 0
  then show ?case by simp
next
  case (Suc n)
  let ?c1 = "fst (inFDCData c)"
  have step: "snd (inFDCData c) = regDataArray_fdc c ! nat (regDataIndex_fdc c)"
    "regDataArray_fdc ?c1 = regDataArray_fdc c"
    "(if regDataIndex_fdc c + 1 = regDataTotal_fdc c
         then regDataIndex_fdc ?c1 = 0 \<and> regDataTotal_fdc ?c1 = 0
         else regDataIndex_fdc ?c1 = regDataIndex_fdc c + 1
              \<and> regDataTotal_fdc ?c1 = regDataTotal_fdc c)"
    using inFDCData_step [of c] Suc.prems by auto
  have idx: "nat (regDataIndex_fdc c) < length (regDataArray_fdc c)"
    using Suc.prems by auto
  have unfold: "inFDCData_n c (Suc n)
       = (fst (inFDCData_n ?c1 n), snd (inFDCData c) # snd (inFDCData_n ?c1 n))"
    by (simp add: Let_def split: prod.splits)
  show ?case
  proof (cases n)
    case 0
    then show ?thesis
      using step Suc.prems idx unfold
      by (simp add: take_Suc_conv_app_nth)
  next
    case (Suc k)
    then have more: "regDataIndex_fdc ?c1 = regDataIndex_fdc c + 1"
      "regDataTotal_fdc ?c1 = regDataTotal_fdc c"
      using step(3) Suc.prems(2) by (auto split: if_splits)
    have ih: "snd (inFDCData_n ?c1 n) = take n (drop (nat (regDataIndex_fdc ?c1)) (regDataArray_fdc ?c1))
         \<and> regDataTotal_fdc (fst (inFDCData_n ?c1 n)) = 0"
      using Suc Suc.prems more step(2) by (intro Suc.IH) auto
    have "nat (regDataIndex_fdc c + 1) = Suc (nat (regDataIndex_fdc c))"
      using Suc.prems(1) by simp
    then show ?thesis
      using ih more step(1,2) unfold idx
      by (simp add: Cons_nth_drop_Suc [symmetric])
  qed
qed

lemma xfer_protocol:
  assumes "regDataTotal_fdc c = 0" "length (regDataArray_fdc c) = 9"
    and "xfer_command bCmd"
    and "nth_opt (aDrives_fdc c) (us AND 0x3) = Some drive0"
    and "\<forall>d. nBytes_fd (dma FDC_dmaRead d) = nBytes_fd d \<and> nBytes_fd (dma FDC_dmaWrite d) = nBytes_fd d"
    and "drive = xfer_drive dma (chipset_fdc c \<noteq> None) bCmd drive0 us bC bR bN bEOT"
  shows "\<exists>c8 c9 c16.
           outFDCData_all dma c [bCmd, us, bC, bH, bR, bN, bEOT, bGPL] = Some c8
           \<and> regDataTotal_fdc c8 = 8 \<and> aDrives_fdc c8 = aDrives_fdc c
           \<and> outFDCData dma c8 bDTL = Some c9
           \<and> nth_opt (aDrives_fdc c9) (us AND 0x3) = Some drive
           \<and> nBytes_fd drive = Some (js_shl 128 bN)
           \<and> regDataIndex_fdc c9 = 0 \<and> regDataTotal_fdc c9 = 7
           \<and> inFDCData_n c9 7
               = (c16, [Some ((us AND 0x3) OR bHead_fd drive OR (errorCode_fd drive AND FDC_ERR_ST0)),
                        Some (drop_bit 8 (errorCode_fd drive AND FDC_ERR_ST1)),
                        Some (drop_bit 16 (errorCode_fd drive AND FDC_ERR_ST2)),
                        bCylinder drive, Some (bHead_fd drive), bSector_fd drive, Some bN])
           \<and> regDataTotal_fdc c16 = 0"
proof -
  let ?arr = "(regDataArray_fdc c)
                [0 := Some bCmd, Suc 0 := Some us, 2 := Some bC, 3 := Some bH,
                 4 := Some bR, 5 := Some bN, 6 := Some bEOT, 7 := Some bGPL]"
  let ?c8 = "c\<lparr>regDataArray_fdc := ?arr, regDataTotal_fdc := 8\<rparr>"
  let ?s = "c\<lparr>regDataArray_fdc := ?arr[8 := Some bDTL], regDataTotal_fdc := 9\<rparr>"
  have w8: "outFDCData_all dma c [bCmd, us, bC, bH, bR, bN, bEOT, bGPL] = Some ?c8"
    by (rule writes8 [OF assms(1,2,3)])
  have w9: "outFDCData_all dma c [bCmd, us, bC, bH, bR, bN, bEOT, bGPL, bDTL] = doCmd dma ?s"
    using writes9 [OF assms(1,2,3)] by simp
  have last: "outFDCData dma ?c8 bDTL = doCmd dma ?s"
    using w8 w9 by (simp split: option.splits)
  obtain a0 a1 a2 a3 a4 a5 a6 a7 a8 where
    arr: "regDataArray_fdc c = [a0, a1, a2, a3, a4, a5, a6, a7, a8]"
    using assms(2) by (auto simp: length_Suc_conv numeral_eq_Suc)
  have full: "regDataArray_fdc ?s = map Some [bCmd, us, bC, bH, bR, bN, bEOT, bGPL, bDTL]"
    by (simp add: arr)
  obtain c9 where c9: "doCmd dma ?s = Some c9" "regDataIndex_fdc c9 = 0" "regDataTotal_fdc c9 = 7"
    "regDataArray_fdc c9 = xfer_results (us AND 0x3) drive bN @ [Some bGPL, Some bDTL]"
    "nth_opt (aDrives_fdc c9) (us AND 0x3) = Some drive"
    using doCmd_xfer_run [OF full assms(3), of drive0 drive dma] assms(4,6) by auto
  have nb: "nBytes_fd drive = Some (js_shl 128 bN)"
    using assms(5) by (simp add: assms(6) xfer_drive_def doRead_def doWrite_def Let_def
                            split: option.splits)
  have drain: "snd (inFDCData_n c9 7) = take 7 (drop (nat (regDataIndex_fdc c9)) (regDataArray_fdc c9))
         \<and> regDataTotal_fdc (fst (inFDCData_n c9 7)) = 0"
    by (rule inFDCData_n_drain) (simp_all add: c9 xfer_results_def)
  then have "inFDCData_n c9 7 = (fst (inFDCData_n c9 7), xfer_results (us AND 0x3) drive bN)"
    by (simp add: c9 xfer_results_def prod_eq_iff)
  then show ?thesis
    using w8 last c9 nb drain by (auto simp: xfer_results_def)
qed

lemma xfer_drive_example:
  "errorCode_fd (xfer_drive dma_one_byte True 0xE6 (fdrive_empty\<lparr>disk_fd := Some disk_example\<rparr>) 0 0 1 2 9) = 0
   \<and> bHead_fd (xfer_drive dma_one_byte True 0xE6 (fdrive_empty\<lparr>disk_fd := Some disk_example\<rparr>) 0 0 1 2 9) = 0
   \<and> bCylinder (xfer_drive dma_one_byte True 0xE6 (fdrive_empty\<lparr>disk_fd := Some disk_example\<rparr>) 0 0 1 2 9)
       = Some 0
   \<and> bSector_fd (xfer_drive dma_one_byte True 0xE6 (fdrive_empty\<lparr>disk_fd := Some disk_example\<rparr>) 0 0 1 2 9)
       = Some 2"
  by code_simp

lemma dma_one_byte_nBytes:
  "\<forall>d. nBytes_fd (dma_one_byte FDC_dmaRead d) = nBytes_fd d
       \<and> nBytes_fd (dma_one_byte FDC_dmaWrite d) = nBytes_fd d"
  using readByte_FDC_frame writeByte_FDC_frame by (simp add: dma_one_byte_def)

lemma fdc_seek_example_run:
  "case doCmd dma_one_byte fdc_seek_example of
     None \<Rightarrow> False
   | Some c' \<Rightarrow> (case nth_opt (aDrives_fdc c') (iUnit c') of
                   None \<Rightarrow> False
                 | Some d \<Rightarrow> errorCode_fd d = FDC_ERR_SEEK_END \<and> bCylinder d = Some 5)"
  by code_simp


text \<open>
  C4.  For an FDC command that completes its Execution Phase (\<open>doCmd\<close> runs through), with
  no interrupt request pending at the chip set before: the request is raised if and only
  if the interrupt enable bit of the Output register is set, the command is one that sets
  \<open>fIRQ\<close>, and the error code of the drive it addressed does not include \<open>NOT_READY\<close>.
\<close>

theorem doCmd_interrupt:
  assumes "doCmd dma c = Some c'" "chipset_fdc c = Some \<lparr>irr = False\<rparr>"
  shows "(\<exists>cs. chipset_fdc c' = Some cs \<and> irr cs)
         \<longleftrightarrow> (regOutput c AND FDC_OUTPUT_INT_ENABLE \<noteq> 0
              \<and> signals_irq (js_int (js_index (regDataArray_fdc c) 0) AND FDC_CMD_MASK)
              \<and> (\<exists>d. nth_opt (aDrives_fdc c') (iUnit c') = Some d
                       \<and> errorCode_fd d AND FDC_ERR_NOT_READY = 0))"
  using doCmd_lines [OF assms(1)] assms(2) by (auto simp: setIRR_def)

theorem doCmd_interrupt_witness:
  "\<exists>c'. doCmd dma_one_byte fdc_seek_example = Some c'
        \<and> chipset_fdc fdc_seek_example = Some \<lparr>irr = False\<rparr>
        \<and> regOutput fdc_seek_example AND FDC_OUTPUT_INT_ENABLE \<noteq> 0
        \<and> signals_irq (js_int (js_index (regDataArray_fdc fdc_seek_example) 0) AND FDC_CMD_MASK)
        \<and> chipset_fdc c' = Some \<lparr>irr = True\<rparr>"
proof -
  obtain c' d where run: "doCmd dma_one_byte fdc_seek_example = Some c'"
    and d: "nth_opt (aDrives_fdc c') (iUnit c') = Some d" "errorCode_fd d = FDC_ERR_SEEK_END"
    using fdc_seek_example_run by (auto split: option.splits)
  have cs: "chipset_fdc fdc_seek_example = Some \<lparr>irr = False\<rparr>"
    by (simp add: fdc_seek_example_def fdc_example_def)
  have en: "regOutput fdc_seek_example AND FDC_OUTPUT_INT_ENABLE \<noteq> 0"
    by (simp add: fdc_seek_example_def fdc_example_def)
  have sg: "signals_irq (js_int (js_index (regDataArray_fdc fdc_seek_example) 0) AND FDC_CMD_MASK)"
    by (simp add: fdc_seek_example_def fdc_example_def js_index_def js_int_def signals_irq_def)
  have "\<exists>cs. chipset_fdc c' = Some cs \<and> irr cs"
    using doCmd_interrupt [OF run cs] en sg d by simp
  then have "chipset_fdc c' = Some \<lparr>irr = True\<rparr>" by auto
  then show ?thesis using run cs en sg by simp
qed

text \<open>
  C6.  A \<open>READ_DATA\<close> or \<open>WRITE_DATA\<close> command written to the idle FDC: after the opcode
  and seven more bytes the Command Phase is still open; the eighth byte after the opcode
  runs the command, which takes unit and head select, C, R, N and EOT from the bytes in
  that order, computes the byte count as \<open>128 << N\<close>, and leaves exactly seven bytes to
  read: ST0, ST1, ST2, and C, H, R of the drive as the transfer left it, and N.
\<close>

theorem read_write_data_protocol:
  assumes "regDataTotal_fdc c = 0" "length (regDataArray_fdc c) = 9"
    and "xfer_command bCmd"
    and "nth_opt (aDrives_fdc c) (us AND 0x3) = Some drive0"
    and "\<forall>d. nBytes_fd (dma FDC_dmaRead d) = nBytes_fd d \<and> nBytes_fd (dma FDC_dmaWrite d) = nBytes_fd d"
    and "drive = xfer_drive dma (chipset_fdc c \<noteq> None) bCmd drive0 us bC bR bN bEOT"
  shows "\<exists>c8 c9 c16.
           outFDCData_all dma c [bCmd, us, bC, bH, bR, bN, bEOT, bGPL] = Some c8
           \<and> regDataTotal_fdc c8 = 8 \<and> aDrives_fdc c8 = aDrives_fdc c
           \<and> outFDCData dma c8 bDTL = Some c9
           \<and> nth_opt (aDrives_fdc c9) (us AND 0x3) = Some drive
           \<and> nBytes_fd drive = Some (js_shl 128 bN)
           \<and> regDataIndex_fdc c9 = 0 \<and> regDataTotal_fdc c9 = 7
           \<and> inFDCData_n c9 7
               = (c16, [Some ((us AND 0x3) OR bHead_fd drive OR (errorCode_fd drive AND FDC_ERR_ST0)),
                        Some (drop_bit 8 (errorCode_fd drive AND FDC_ERR_ST1)),
                        Some (drop_bit 16 (errorCode_fd drive AND FDC_ERR_ST2)),
                        bCylinder drive, Some (bHead_fd drive), bSector_fd drive, Some bN])
           \<and> regDataTotal_fdc c16 = 0"
  using assms by (rule xfer_protocol)

theorem read_write_data_protocol_witness:
  "regDataTotal_fdc fdc_example = 0 \<and> length (regDataArray_fdc fdc_example) = 9
   \<and> xfer_command 0xE6
   \<and> (\<exists>c8 c9 c16.
         outFDCData_all dma_one_byte fdc_example [0xE6, 0, 0, 0, 1, 2, 9, 0x2A] = Some c8
         \<and> regDataTotal_fdc c8 = 8
         \<and> outFDCData dma_one_byte c8 0xFF = Some c9
         \<and> map_option nBytes_fd (nth_opt (aDrives_fdc c9) 0) = Some (Some 512)
         \<and> regDataTotal_fdc c9 = 7
         \<and> inFDCData_n c9 7 = (c16, [Some 0, Some 0, Some 0, Some 0, Some 0, Some 2, Some 2])
         \<and> regDataTotal_fdc c16 = 0)"
proof -
  let ?d0 = "fdrive_empty\<lparr>disk_fd := Some disk_example\<rparr>"
  have a1: "regDataTotal_fdc fdc_example = 0" by (simp add: fdc_example_def)
  have a2: "length (regDataArray_fdc fdc_example) = 9" by (simp add: fdc_example_def)
  have a3: "xfer_command 0xE6" by (simp add: xfer_command_def)
  have a4: "nth_opt (aDrives_fdc fdc_example) (0 AND 0x3) = Some ?d0"
    by (simp add: fdc_example_def nth_opt_def)
  have a6: "xfer_drive dma_one_byte True 0xE6 ?d0 0 0 1 2 9
            = xfer_drive dma_one_byte (chipset_fdc fdc_example \<noteq> None) 0xE6 ?d0 0 0 1 2 9"
    by (simp add: fdc_example_def)
  have sh: "js_shl 128 2 = 512" by (simp add: js_shl_def)
  show ?thesis
    using read_write_data_protocol [OF a1 a2 a3 a4 dma_one_byte_nBytes a6, of 0 "0x2A" "0xFF"]
          xfer_drive_example a1 a2 a3 sh
    by (auto simp: FDC_ERR_ST0_def)
qed

text \<open>
  C7.  A \<open>READ_DATA\<close> command written to the idle FDC for a drive with no diskette, whatever
  the chip set does: the error code of the drive becomes \<open>NOT_READY | INCOMPLETE\<close>, no
  interrupt is requested, and the Result Phase holds the seven bytes of the command's entry
  in \<open>aCmdSeqs\<close>: ST0 with the two error bits, ST1 and ST2 zero, and C, H, R, N of the command.
\<close>

theorem read_data_no_disk:
  assumes "regDataTotal_fdc c = 0" "length (regDataArray_fdc c) = 9"
    and "bCmd AND FDC_CMD_MASK = FDC_CMD_READ_DATA"
    and "nth_opt (aDrives_fdc c) (us AND 0x3) = Some drive0" "disk_fd drive0 = None"
  shows "\<exists>c9 drive c16.
           outFDCData_all dma c [bCmd, us, bC, bH, bR, bN, bEOT, bGPL, bDTL] = Some c9
           \<and> nth_opt (aDrives_fdc c9) (us AND 0x3) = Some drive
           \<and> errorCode_fd drive = FDC_ERR_NOT_READY OR FDC_ERR_INCOMPLETE
           \<and> errorCode_fd drive AND FDC_ERR_NOT_READY = FDC_ERR_NOT_READY
           \<and> aCmdSeqs FDC_CMD_READ_DATA = Some (9, 7)
           \<and> regDataIndex_fdc c9 = 0 \<and> regDataTotal_fdc c9 = 7
           \<and> inFDCData_n c9 7
               = (c16, [Some ((us AND 0x3) OR (drop_bit 2 us AND 0x1) OR 0x48), Some 0, Some 0,
                        Some bC, Some (drop_bit 2 us AND 0x1), Some bR, Some bN])
           \<and> regDataTotal_fdc c16 = 0
           \<and> chipset_fdc c9 = chipset_fdc c"
proof -
  have x: "xfer_command bCmd" using assms(3) by (simp add: xfer_command_def)
  define drive where "drive = xfer_drive dma (chipset_fdc c \<noteq> None) bCmd drive0 us bC bR bN bEOT"
  have dr: "drive = drive0\<lparr>errorCode_fd := 0x48, bHead_fd := drop_bit 2 us AND 0x1,
                           bCylinder := Some bC, bSector_fd := Some bR,
                           bSectorEnd_fd := Some bEOT, nBytes_fd := Some (js_shl 128 bN)\<rparr>"
    using assms(3,5) by (simp add: drive_def xfer_drive_def doRead_def Let_def)
  have e: "errorCode_fd drive = 0x48" "bHead_fd drive = drop_bit 2 us AND 0x1"
    "bCylinder drive = Some bC" "bSector_fd drive = Some bR"
    by (simp_all add: dr)
  let ?s = "c\<lparr>regDataArray_fdc := (regDataArray_fdc c)
                            [0 := Some bCmd, Suc 0 := Some us, 2 := Some bC, 3 := Some bH,
                             4 := Some bR, 5 := Some bN, 6 := Some bEOT, 7 := Some bGPL,
                             8 := Some bDTL],
                         regDataTotal_fdc := 9\<rparr>"
  have w9: "outFDCData_all dma c [bCmd, us, bC, bH, bR, bN, bEOT, bGPL, bDTL] = doCmd dma ?s"
    by (rule writes9 [OF assms(1,2) x])
  obtain a0 a1 a2 a3 a4 a5 a6 a7 a8 where
    arr: "regDataArray_fdc c = [a0, a1, a2, a3, a4, a5, a6, a7, a8]"
    using assms(2) by (auto simp: length_Suc_conv numeral_eq_Suc)
  have full: "regDataArray_fdc ?s = map Some [bCmd, us, bC, bH, bR, bN, bEOT, bGPL, bDTL]"
    by (simp add: arr)
  obtain c9 where c9: "doCmd dma ?s = Some c9" "regDataIndex_fdc c9 = 0" "regDataTotal_fdc c9 = 7"
    "regDataArray_fdc c9 = xfer_results (us AND 0x3) drive bN @ [Some bGPL, Some bDTL]"
    "nth_opt (aDrives_fdc c9) (us AND 0x3) = Some drive" "iUnit c9 = us AND 0x3"
    using doCmd_xfer_run [OF full x, of drive0 drive dma] assms(4) by (auto simp: drive_def)
  have cs: "chipset_fdc c9 = chipset_fdc c"
    using doCmd_lines [OF c9(1)] c9(5,6) e(1) by simp
  have drain: "snd (inFDCData_n c9 7) = take 7 (drop (nat (regDataIndex_fdc c9)) (regDataArray_fdc c9))
         \<and> regDataTotal_fdc (fst (inFDCData_n c9 7)) = 0"
    by (rule inFDCData_n_drain) (simp_all add: c9 xfer_results_def)
  then have "inFDCData_n c9 7 = (fst (inFDCData_n c9 7), xfer_results (us AND 0x3) drive bN)"
    by (simp add: c9 xfer_results_def prod_eq_iff)
  moreover have "aCmdSeqs FDC_CMD_READ_DATA = Some (9, 7)" by (simp add: aCmdSeqs_def)
  ultimately show ?thesis
    using w9 c9 e drain cs by (auto simp: xfer_results_def)
qed

theorem read_data_no_disk_witness:
  "regDataTotal_fdc fdc_example = 0 \<and> length (regDataArray_fdc fdc_example) = 9
   \<and> 0x66 AND FDC_CMD_MASK = FDC_CMD_READ_DATA
   \<and> nth_opt (aDrives_fdc fdc_example) (1 AND 0x3) = Some fdrive_empty
   \<and> disk_fd fdrive_empty = None
   \<and> (\<exists>c9 c16.
         outFDCData_all dma_one_byte fdc_example [0x66, 1, 0, 0, 1, 2, 9, 0x2A, 0xFF] = Some c9
         \<and> map_option errorCode_fd (nth_opt (aDrives_fdc c9) 1) = Some 0x48
         \<and> regDataTotal_fdc c9 = 7
         \<and> inFDCData_n c9 7 = (c16, [Some 0x49, Some 0, Some 0, Some 0, Some 0, Some 1, Some 2])
         \<and> regDataTotal_fdc c16 = 0
         \<and> chipset_fdc c9 = Some \<lparr>irr = False\<rparr>)"
proof -
  have a1: "regDataTotal_fdc fdc_example = 0" by (simp add: fdc_example_def)
  have a2: "length (regDataArray_fdc fdc_example) = 9" by (simp add: fdc_example_def)
  have a3: "0x66 AND FDC_CMD_MASK = FDC_CMD_READ_DATA" by simp
  have a4: "nth_opt (aDrives_fdc fdc_example) (1 AND 0x3) = Some fdrive_empty"
    by (simp add: fdc_example_def nth_opt_def)
  have a5: "disk_fd fdrive_empty = None" by (simp add: fdrive_empty_def)
  have cs: "chipset_fdc fdc_example = Some \<lparr>irr = False\<rparr>" by (simp add: fdc_example_def)
  have b: "(1::int) AND 3 = 1" "drop_bit 2 (1::int) AND 1 = 0" "(1::int) OR 0 OR 72 = 73"
    by simp_all
  show ?thesis
    using read_data_no_disk [OF a1 a2 a3 a4 a5, of dma_one_byte 0 0 1 2 9 "0x2A" "0xFF"]
          a1 a2 a3 a4 a5 cs
    by (auto simp: b)
qed




section \<open>Saving and restoring\<close>

lemma to_num_of_num [simp]: "to_num (of_num v) = Some v"
  by (cases v) (simp_all add: to_num_def of_num_def)

lemma to_int_JNum [simp]: "to_int (JNum n) = Some n"
  by (simp add: to_int_def)

lemma to_bool_JBool [simp]: "to_bool (JBool b) = Some b"
  by (simp add: to_bool_def)

lemma those_to_num: "those (map (to_num \<circ> of_num) xs) = Some xs"
  by (induction xs) simp_all

lemma to_nums_of_nums [simp]: "to_nums (of_nums xs) = Some xs"
  by (simp add: to_nums_def of_nums_def those_to_num)

lemma to_buffer_of_buffer [simp]: "to_buffer (of_buffer b) = Some b"
  by (cases b) (simp_all add: to_buffer_def of_buffer_def of_nums_def to_nums_def those_to_num)

lemma to_str_of_str [simp]: "to_str (of_str s) = Some s"
  by (cases s) (simp_all add: to_str_def of_str_def)

lemma to_name_JStr [simp]: "to_name (JStr s) = Some s"
  by (simp add: to_name_def)

lemma or_zero_JNum [simp]: "or_zero (JNum n) = Some n"
  by (simp add: or_zero_def)

lemma data_or_JArr [simp]: "data_or b dflt (JArr xs) = Some xs"
  by (simp add: data_or_def)

lemma driveType_valid: "aDriveTypes atc (driveType atc config) \<noteq> None"
  by (cases atc) (auto simp: driveType_def iDriveTypeDefault_def aDriveTypes_def split: option.splits)

lemma verifyDrive_frame:
  assumes "aDriveTypes atc (dtype drive) \<noteq> None"
  shows "\<exists>d. verifyDrive atc drive None = Some d
           \<and> errorCode d = errorCode drive \<and> senseCode d = senseCode drive
           \<and> fRemovable d = fRemovable drive \<and> abDriveParms d = abDriveParms drive
           \<and> abSector d = abSector drive \<and> bHead d = bHead drive \<and> wCylinder d = wCylinder drive
           \<and> bSector d = bSector drive \<and> bSectorEnd d = bSectorEnd drive \<and> nBytes d = nBytes drive
           \<and> bSectorBias d = bSectorBias drive \<and> dtype d = dtype drive \<and> ibSector d = ibSector drive"
  using assms by (auto simp: verifyDrive_def Let_def split: option.splits)

lemma initDrive_disk_frame:
  "position (fst (initDrive_disk R d deltas)) = position d
   \<and> saved_drive (fst (initDrive_disk R d deltas)) = saved_drive d
   \<and> dtype (fst (initDrive_disk R d deltas)) = dtype d"
  by (simp add: initDrive_disk_def position_def saved_drive_def Let_def
           split: option.split prod.split)

lemma initDrive_saveDrive:
  "\<exists>d ok. initDrive R atc t config (saveDrive S s) = Some (d, ok)
          \<and> position d = position s \<and> saved_drive d = saved_drive s
          \<and> dtype d = driveType atc config"
proof -
  let ?d1 = "t\<lparr>errorCode := errorCode s, senseCode := senseCode s, fRemovable := fRemovable s,
                 abDriveParms := abDriveParms s, abSector := abSector s, bHead := bHead s,
                 nHeads := nHeads s, wCylinder := wCylinder s, bSector := bSector s,
                 bSectorEnd := bSectorEnd s, nBytes := nBytes s,
                 bSectorBias := (if atc then 0 else 1),
                 dtype := driveType atc config, nSectors := 17, cbSector := 512\<rparr>"
  have "aDriveTypes atc (dtype ?d1) \<noteq> None"
    using driveType_valid [of atc config] by simp
  from verifyDrive_frame [OF this] obtain d2 where
    v: "verifyDrive atc ?d1 None = Some d2"
    and f: "errorCode d2 = errorCode s" "senseCode d2 = senseCode s" "fRemovable d2 = fRemovable s"
      "abDriveParms d2 = abDriveParms s" "abSector d2 = abSector s" "bHead d2 = bHead s"
      "wCylinder d2 = wCylinder s" "bSector d2 = bSector s" "bSectorEnd d2 = bSectorEnd s"
      "nBytes d2 = nBytes s" "dtype d2 = driveType atc config"
    by auto
  let ?deltas = "(case hdisk s of Some dk \<Rightarrow> S dk | None \<Rightarrow> JNull)"
  let ?d3 = "d2\<lparr>ibSector := ibSector s, hsector := None\<rparr>"
  have run: "initDrive R atc t config (saveDrive S s) = Some (initDrive_disk R ?d3 ?deltas)"
    by (simp add: initDrive_def saveDrive_def js_at_def v)
  have "position ?d3 = position s" "saved_drive ?d3 = saved_drive s" "dtype ?d3 = driveType atc config"
    by (simp_all add: position_def saved_drive_def f)
  then show ?thesis
    using initDrive_disk_frame [of R ?d3 ?deltas] run
    by (cases "initDrive_disk R ?d3 ?deltas") auto
qed

lemma config_setD:
  assumes "config_set atc configs n (Some v)" "i < n" "i \<le> 1"
  shows "v OR js_shl (driveType atc (configs ! i) AND 0x3) (js_shl (1 - int i) 1) = v"
  using assms by (auto simp: config_set_def switches_def list_all_iff)

lemma initDrives_saved:
  assumes "i + length ts = length ss" "length ss \<le> length configs"
  shows "\<exists>ds config2 ok.
           initDrives R atc configs (map (saveDrive S) ss) i ts config = Some (ds, config2, ok)
           \<and> (config_set atc configs (length ss) config \<longrightarrow> config2 = config)
           \<and> map position ds = map position (drop i ss)
           \<and> map saved_drive ds = map saved_drive (drop i ss)"
  using assms(1)
proof (induction ts arbitrary: i config)
  case Nil
  then show ?case by auto
next
  case (Cons t rest)
  then have i: "i < length ss" and n: "Suc i + length rest = length ss" by simp_all
  have c: "nth_opt configs (int i) = Some (configs ! i)"
    using i assms(2) by (simp add: nth_opt_def)
  have a: "js_at (map (saveDrive S) ss) i = saveDrive S (ss ! i)"
    using i by (simp add: js_at_def)
  obtain d ok where d: "initDrive R atc t (configs ! i) (saveDrive S (ss ! i)) = Some (d, ok)"
    "position d = position (ss ! i)" "saved_drive d = saved_drive (ss ! i)"
    "dtype d = driveType atc (configs ! i)"
    using initDrive_saveDrive [of R atc t "configs ! i" S "ss ! i"] by auto
  define k where "k = (case config of
              Some v \<Rightarrow> (if i \<le> 1
                          then Some (v OR js_shl (dtype d AND 0x3) (js_shl (1 - int i) 1))
                          else config)
            | None \<Rightarrow> None)"
  have k: "k = config" if "config_set atc configs (length ss) config"
    using config_setD [OF _ i, of atc configs] that d(4)
    by (auto simp: k_def split: option.splits)
  from Cons.IH [OF n, of k] obtain ds config2 ok2 where
    r: "initDrives R atc configs (map (saveDrive S) ss) (Suc i) rest k = Some (ds, config2, ok2)"
    "config_set atc configs (length ss) k \<longrightarrow> config2 = k"
    "map position ds = map position (drop (Suc i) ss)"
    "map saved_drive ds = map saved_drive (drop (Suc i) ss)"
    by auto
  have "initDrives R atc configs (map (saveDrive S) ss) i (t # rest) config
        = Some (d # ds, config2, ok \<and> ok2)"
    using r(1) by (simp add: c a d(1) k_def)
  moreover have "config2 = config" if "config_set atc configs (length ss) config"
    using k [OF that] r(2) that by simp
  ultimately show ?case
    using d(2,3) r(3,4) i by (simp add: Cons_nth_drop_Suc [symmetric])
qed

lemma initController_ATC_saved:
  assumes "fATC c"
  shows "initController_ATC t (saveController S c)
         = Some (t\<lparr>regError := regError c, regWPreC := regWPreC c, regSecCnt := regSecCnt c,
                    regSecNum := regSecNum c, regCylLo := regCylLo c, regCylHi := regCylHi c,
                    regDrvHd := regDrvHd c, regStatus := regStatus c, regCommand := regCommand c,
                    regFDR := regFDR c\<rparr>, saveDrives S c)"
  using assms by (simp add: initController_ATC_def saveController_def js_at_def)

lemma initController_XTC_saved:
  assumes "\<not> fATC c" "iDriveAllowFail c \<noteq> None"
  shows "initController_XTC t (saveController S c)
         = Some (t\<lparr>regStatus := regStatus c, regConfig := regConfig c,
                    regDataArray := regDataArray c, regDataIndex := regDataIndex c,
                    regDataTotal := regDataTotal c, regReset := regReset c,
                    regPulse := regPulse c, regPattern := regPattern c,
                    iDriveAllowFail := iDriveAllowFail c\<rparr>, saveDrives S c)"
  using assms by (simp add: initController_XTC_def saveController_def js_at_def)

lemma initController_saved:
  assumes "fATC t = fATC c" "aDriveConfigs t = aDriveConfigs c"
    and "length (aDrives t) = length (aDrives c)" "restorable c"
  shows "\<exists>c2 ok. initController R t (saveController S c) = Some (c2, ok)
           \<and> (if fATC c then atc_registers c2 = atc_registers c
               else xtc_registers c2 = xtc_registers c)
           \<and> map position (aDrives c2) = map position (aDrives c)
           \<and> map saved_drive (aDrives c2) = map saved_drive (aDrives c)"
proof (cases "fATC c")
  case True
  let ?c1 = "t\<lparr>regError := regError c, regWPreC := regWPreC c, regSecCnt := regSecCnt c,
                    regSecNum := regSecNum c, regCylLo := regCylLo c, regCylHi := regCylHi c,
                    regDrvHd := regDrvHd c, regStatus := regStatus c, regCommand := regCommand c,
                    regFDR := regFDR c\<rparr>"
  have len: "0 + length (aDrives t) = length (aDrives c)"
    "length (aDrives c) \<le> length (aDriveConfigs c)"
    using assms(3,4) by (simp_all add: restorable_def)
  from initDrives_saved [OF len, of R True S "regConfig t"] obtain ds config2 ok where
    r: "initDrives R True (aDriveConfigs c) (map (saveDrive S) (aDrives c)) 0 (aDrives t) (regConfig t)
        = Some (ds, config2, ok)"
    "map position ds = map position (aDrives c)" "map saved_drive ds = map saved_drive (aDrives c)"
    by auto
  have "initController R t (saveController S c) = Some (?c1\<lparr>regConfig := config2, aDrives := ds\<rparr>, ok)"
    using True assms(1,2) r(1)
    by (simp add: initController_def initController_ATC_saved saveDrives_def)
  then show ?thesis
    using True r(2,3) by (simp add: atc_registers_def)
next
  case False
  then have af: "iDriveAllowFail c \<noteq> None"
    and cs: "config_set False (aDriveConfigs c) (length (aDrives c)) (regConfig c)"
    using assms(4) by (simp_all add: restorable_def)
  let ?c1 = "t\<lparr>regStatus := regStatus c, regConfig := regConfig c,
                    regDataArray := regDataArray c, regDataIndex := regDataIndex c,
                    regDataTotal := regDataTotal c, regReset := regReset c,
                    regPulse := regPulse c, regPattern := regPattern c,
                    iDriveAllowFail := iDriveAllowFail c\<rparr>"
  have len: "0 + length (aDrives t) = length (aDrives c)"
    "length (aDrives c) \<le> length (aDriveConfigs c)"
    using assms(3,4) by (simp_all add: restorable_def)
  from initDrives_saved [OF len, of R False S "regConfig c"] cs obtain ds ok where
    r: "initDrives R False (aDriveConfigs c) (map (saveDrive S) (aDrives c)) 0 (aDrives t) (regConfig c)
        = Some (ds, regConfig c, ok)"
    "map position ds = map position (aDrives c)" "map saved_drive ds = map saved_drive (aDrives c)"
    by auto
  have "initController R t (saveController S c) = Some (?c1\<lparr>regConfig := regConfig c, aDrives := ds\<rparr>, ok)"
    using False assms(1,2) r(1)
    by (simp add: initController_def initController_XTC_saved [OF False af] saveDrives_def)
  then show ?thesis
    using False r(2,3) by (simp add: xtc_registers_def)
qed

lemma loadDiskette_frame:
  "position_fd (fst (loadDiskette d input path)) = position_fd d
   \<and> saved_drive_fd (fst (loadDiskette d input path)) = saved_drive_fd d"
  by (simp add: loadDiskette_def unloadDrive_def position_fd_def saved_drive_fd_def
           split: option.split)

lemma initDrive_FDC_saved:
  "\<exists>d inp ok. initDrive_FDC R t input (saveDrive_FDC s) = Some (d, inp, ok)
      \<and> position_fd d = position_fd s \<and> saved_drive_fd d = saved_drive_fd s"
proof -
  let ?d1 = "t\<lparr>errorCode_fd := errorCode_fd s, name_fd := name_fd s,
                 nCylinders_fd := nCylinders_fd s, nHeads_fd := nHeads_fd s,
                 nSectors_fd := nSectors_fd s, cbSector_fd := cbSector_fd s,
                 fRemovable_fd := fRemovable_fd s, bHead_fd := bHead_fd s, bCylinder := bCylinder s,
                 bSector_fd := bSector_fd s, bSectorEnd_fd := bSectorEnd_fd s,
                 nBytes_fd := nBytes_fd s, ibSector_fd := ibSector_fd s, sector_fd := None\<rparr>"
  let ?d2 = "(if disk_fd t = None then ?d1\<lparr>sDiskettePath := Some []\<rparr> else ?d1)"
  have p2: "position_fd ?d2 = position_fd s" "saved_drive_fd ?d2 = saved_drive_fd s"
    by (simp_all add: position_fd_def saved_drive_fd_def)
  obtain d3 inp where l: "loadDiskette ?d2 input (sDiskettePath s) = (d3, inp)"
    by (cases "loadDiskette ?d2 input (sDiskettePath s)")
  have p3: "position_fd d3 = position_fd s" "saved_drive_fd d3 = saved_drive_fd s"
    using loadDiskette_frame [of ?d2 input "sDiskettePath s"] p2 l by simp_all
  have dk: "initDrive_disk_FDC R ?d2 input
              [JNum (errorCode_fd s),
               JArr [JStr (name_fd s), JNum (nCylinders_fd s), JNum (nHeads_fd s),
                     JNum (nSectors_fd s), JNum (cbSector_fd s), JBool (fRemovable_fd s)],
               JNum (bHead_fd s), JNum (- 1), of_num (bCylinder s), of_num (bSector_fd s),
               of_num (bSectorEnd_fd s), of_num (nBytes_fd s), of_num (ibSector_fd s),
               JVersion102, of_str (sDisketteName s), of_str (sDiskettePath s)]
            = Some (d3, inp, True)"
    using l by (simp add: initDrive_disk_FDC_def js_at_def)
  let ?d4 = "(case disk_fd d3 of
               Some dk \<Rightarrow>
                 (if True \<and> ibSector_fd d3 \<noteq> None
                  then d3\<lparr>sector_fd := disk_seek dk (bCylinder d3) (Some (bHead_fd d3))
                                                (bSector_fd d3)\<rparr>
                  else d3)
             | None \<Rightarrow> d3)"
  have "initDrive_FDC R t input (saveDrive_FDC s) = Some (?d4, inp, True)"
    unfolding initDrive_FDC_def saveDrive_FDC_def
    by (simp add: js_at_def dk Let_def split del: if_split)
  moreover have "position_fd ?d4 = position_fd s" "saved_drive_fd ?d4 = saved_drive_fd s"
    using p3 by (simp_all add: position_fd_def saved_drive_fd_def split: option.split)
  ultimately show ?thesis by blast
qed

lemma initDrives_FDC_saved:
  assumes "i + length ts = length ss"
  shows "\<exists>ds inp ok. initDrives_FDC R (map saveDrive_FDC ss) i ts input = Some (ds, inp, ok)
           \<and> map position_fd ds = map position_fd (drop i ss)
           \<and> map saved_drive_fd ds = map saved_drive_fd (drop i ss)"
  using assms
proof (induction ts arbitrary: i input)
  case Nil
  then show ?case by auto
next
  case (Cons t rest)
  then have i: "i < length ss" and n: "Suc i + length rest = length ss" by simp_all
  have a: "js_at (map saveDrive_FDC ss) i = saveDrive_FDC (ss ! i)"
    using i by (simp add: js_at_def)
  obtain d inp ok where d: "initDrive_FDC R t input (saveDrive_FDC (ss ! i)) = Some (d, inp, ok)"
    "position_fd d = position_fd (ss ! i)" "saved_drive_fd d = saved_drive_fd (ss ! i)"
    using initDrive_FDC_saved [of R t input "ss ! i"] by auto
  from Cons.IH [OF n, of inp] obtain ds inp2 ok2 where
    r: "initDrives_FDC R (map saveDrive_FDC ss) (Suc i) rest inp = Some (ds, inp2, ok2)"
    "map position_fd ds = map position_fd (drop (Suc i) ss)"
    "map saved_drive_fd ds = map saved_drive_fd (drop (Suc i) ss)"
    by auto
  have "initDrives_FDC R (map saveDrive_FDC ss) i (t # rest) input = Some (d # ds, inp2, ok \<and> ok2)"
    by (simp add: a d(1) r(1))
  then show ?case
    using d(2,3) r(2,3) i by (simp add: Cons_nth_drop_Suc [symmetric])
qed

lemma initController_FDC_saved:
  assumes "length (aDrives_fdc t) = length (aDrives_fdc c)"
  shows "\<exists>c2 ok. initController_FDC R t (saveController_FDC deltas c) = Some (c2, ok)
           \<and> fdc_registers c2 = fdc_registers c
           \<and> map position_fd (aDrives_fdc c2) = map position_fd (aDrives_fdc c)
           \<and> map saved_drive_fd (aDrives_fdc c2) = map saved_drive_fd (aDrives_fdc c)"
proof -
  have len: "0 + length (aDrives_fdc t) = length (aDrives_fdc c)"
    using assms by simp
  from initDrives_FDC_saved [OF len, of R "regInput t"] obtain ds inp ok where
    r: "initDrives_FDC R (map saveDrive_FDC (aDrives_fdc c)) 0 (aDrives_fdc t) (regInput t)
        = Some (ds, inp, ok)"
    "map position_fd ds = map position_fd (aDrives_fdc c)"
    "map saved_drive_fd ds = map saved_drive_fd (aDrives_fdc c)"
    by auto
  have "initController_FDC R t (saveController_FDC deltas c)
        = Some (t\<lparr>iDrive := iDrive c, iUnit := iUnit c, regStatus_fdc := regStatus_fdc c,
                    regDataArray_fdc := regDataArray_fdc c, regDataIndex_fdc := regDataIndex_fdc c,
                    regDataTotal_fdc := regDataTotal_fdc c, regOutput := regOutput c,
                    regInput := regInput c, regControl := regControl c, aDrives_fdc := ds\<rparr>, ok)"
    by (simp add: initController_FDC_def saveController_FDC_def saveDrives_FDC_def js_at_def r(1))
  then show ?thesis
    using r(2,3) by (simp add: fdc_registers_def)
qed

lemma verifyDrive_dtype:
  "verifyDrive atc drive type0 = Some d \<Longrightarrow> dtype d = dtype drive"
  by (auto simp: verifyDrive_def Let_def split: option.splits if_splits)

lemma initDrive_dtype:
  assumes "initDrive R atc t config data = Some (d, ok)"
  shows "dtype d = driveType atc config"
proof -
  from assms obtain d1 d2 ib deltas where
    v: "verifyDrive atc d1 None = Some d2" "dtype d1 = driveType atc config"
    and r: "initDrive_disk R (d2\<lparr>ibSector := ib, hsector := None\<rparr>) deltas = (d, ok)"
    by (auto simp: initDrive_def bind_eq_Some_conv)
  have "dtype d = dtype (d2\<lparr>ibSector := ib, hsector := None\<rparr>)"
    using initDrive_disk_frame [of R "d2\<lparr>ibSector := ib, hsector := None\<rparr>" deltas] r
    by (metis fst_conv)
  then show ?thesis
    using verifyDrive_dtype [OF v(1)] v(2) by simp
qed

lemma or_absorbed:
  fixes v :: int
  assumes "v2 OR (v OR b) = v2"
  shows "v2 OR v = v2" "v2 OR b = v2"
proof -
  have "v2 OR v = (v2 OR (v OR b)) OR v" using assms by simp
  also have "\<dots> = v2 OR (v OR b)" by (simp add: ac_simps)
  finally show "v2 OR v = v2" using assms by simp
  have "v2 OR b = (v2 OR (v OR b)) OR b" using assms by simp
  also have "\<dots> = v2 OR (v OR b)" by (simp add: ac_simps)
  finally show "v2 OR b = v2" using assms by simp
qed

lemma initDrives_config:
  assumes "initDrives R atc configs dataDrives i ts config = Some (ds, config2, ok)"
  shows "length ds = length ts
         \<and> (case config of
               None \<Rightarrow> config2 = None
             | Some v \<Rightarrow> (\<exists>v2. config2 = Some v2 \<and> v2 OR v = v2
                            \<and> (\<forall>j. i \<le> j \<and> j < i + length ts \<and> j \<le> 1
                                    \<longrightarrow> v2 OR switches atc (configs ! j) j = v2)))"
  using assms
proof (induction ts arbitrary: i config ds config2 ok)
  case Nil
  then show ?case by (auto split: option.splits)
next
  case (Cons t rest)
  from Cons.prems obtain driveConfig d ok1 ds1 ok2 where
    c: "nth_opt configs (int i) = Some driveConfig"
    and d: "initDrive R atc t driveConfig (js_at dataDrives i) = Some (d, ok1)"
    and r: "initDrives R atc configs dataDrives (Suc i) rest
              (case config of
                 Some v \<Rightarrow> (if i \<le> 1
                             then Some (v OR js_shl (dtype d AND 0x3) (js_shl (1 - int i) 1))
                             else config)
               | None \<Rightarrow> None) = Some (ds1, config2, ok2)"
    and e: "ds = d # ds1"
    by (simp add: bind_eq_Some_conv) blast
  have dc: "driveConfig = configs ! i"
    using c by (auto simp: nth_opt_def split: if_splits)
  have sw: "js_shl (dtype d AND 0x3) (js_shl (1 - int i) 1) = switches atc (configs ! i) i"
    using initDrive_dtype [OF d] dc by (simp add: switches_def)
  note ih = Cons.IH [OF r]
  show ?case
  proof (cases config)
    case None
    then show ?thesis using ih e by simp
  next
    case (Some v)
    show ?thesis
    proof (cases "i \<le> 1")
      case True
      from ih Some True sw obtain v2 where
        v2: "config2 = Some v2" "v2 OR (v OR switches atc (configs ! i) i) = v2"
        "\<forall>j. Suc i \<le> j \<and> j < Suc i + length rest \<and> j \<le> 1
              \<longrightarrow> v2 OR switches atc (configs ! j) j = v2"
        by auto
      have "v2 OR switches atc (configs ! j) j = v2" if "i \<le> j" "j < i + length (t # rest)" "j \<le> 1" for j
      proof (cases "j = i")
        case True
        then show ?thesis using or_absorbed(2) [OF v2(2)] by simp
      next
        case False
        then show ?thesis using that v2(3) by auto
      qed
      then show ?thesis
        using Some v2(1) or_absorbed(1) [OF v2(2)] ih e by auto
    next
      case False
      then show ?thesis using ih Some e by auto
    qed
  qed
qed

lemma initController_ATC_frame:
  assumes "initController_ATC t data = Some (c1, dd)"
  shows "fATC c1 = fATC t \<and> aDriveConfigs c1 = aDriveConfigs t \<and> aDrives c1 = aDrives t"
proof -
  from assms obtain e w sc sn lo hi dh st cm fd where
    "c1 = t\<lparr>regError := e, regWPreC := w, regSecCnt := sc, regSecNum := sn,
             regCylLo := lo, regCylHi := hi, regDrvHd := dh, regStatus := st,
             regCommand := cm, regFDR := fd\<rparr>"
    unfolding initController_ATC_def bind_eq_Some_conv by blast
  then show ?thesis by simp
qed

lemma initController_XTC_frame:
  assumes "initController_XTC t data = Some (c1, dd)"
  shows "fATC c1 = fATC t \<and> aDriveConfigs c1 = aDriveConfigs t \<and> aDrives c1 = aDrives t
         \<and> iDriveAllowFail c1 \<noteq> None"
proof -
  from assms obtain cf st da di dt rs pu pa af where
    "c1 = t\<lparr>regStatus := st, regConfig := cf, regDataArray := da,
             regDataIndex := di, regDataTotal := dt, regReset := rs,
             regPulse := pu, regPattern := pa,
             iDriveAllowFail := (if af \<noteq> None then af
                                 else if iDriveAllowFail t = None then Some (- 1)
                                 else iDriveAllowFail t)\<rparr>"
    unfolding initController_XTC_def bind_eq_Some_conv by blast
  then show ?thesis by simp
qed

lemma initController_restorable:
  assumes "initController R t data = Some (c, ok)"
    and "length (aDrives t) \<le> length (aDriveConfigs t)"
  shows "restorable c \<and> fATC c = fATC t \<and> aDriveConfigs c = aDriveConfigs t
         \<and> length (aDrives c) = length (aDrives t)"
proof -
  from assms(1) obtain c1 dd0 dd ds config2 where
    regs: "(if fATC t then initController_ATC t data else initController_XTC t data) = Some (c1, dd0)"
    and loop: "initDrives R (fATC c1) (aDriveConfigs c1) dd 0 (aDrives c1) (regConfig c1)
               = Some (ds, config2, ok)"
    and c: "c = c1\<lparr>regConfig := config2, aDrives := ds\<rparr>"
    by (auto simp: initController_def bind_eq_Some_conv)
  have same: "fATC c1 = fATC t" "aDriveConfigs c1 = aDriveConfigs t" "aDrives c1 = aDrives t"
    and af: "\<not> fATC t \<Longrightarrow> iDriveAllowFail c1 \<noteq> None"
    using regs initController_ATC_frame [of t data c1 dd0]
      initController_XTC_frame [of t data c1 dd0]
    by (cases "fATC t"; simp)+
  note k = initDrives_config [OF loop]
  have len: "length ds = length (aDrives t)"
    using k same(3) by simp
  have cs: "config_set (fATC t) (aDriveConfigs t) (length (aDrives t)) config2"
  proof (cases "regConfig c1")
    case None
    then show ?thesis using k by (simp add: config_set_def)
  next
    case (Some v)
    then obtain v2 where v2: "config2 = Some v2"
      "\<forall>j. 0 \<le> j \<and> j < 0 + length (aDrives c1) \<and> j \<le> 1
           \<longrightarrow> v2 OR switches (fATC c1) (aDriveConfigs c1 ! j) j = v2"
      using k by auto
    show ?thesis
      using v2(2) by (simp add: config_set_def list_all_iff v2(1) same)
  qed
  have "restorable c"
    using cs len assms(2) af
    by (cases "fATC t") (simp_all add: restorable_def c same)
  then show ?thesis
    using len by (simp add: c same)
qed

lemma restorable_example: "restorable xtc_hdc_example"
  by code_simp

text \<open>
  C9.  For a controller \<open>c\<close> in a state that \<open>initController\<close> can have left, and a
  controller \<open>t\<close> of the same variant with the same drive configurations and as many
  drives: \<open>initController\<close> on \<open>t\<close>, given the array \<open>saveController\<close> makes of \<open>c\<close>,
  runs through and leaves \<open>t\<close> with the registers of \<open>c\<close> and every drive at the cylinder,
  head, sector and byte cursor of the drive of \<open>c\<close>; for the AT and the XT variant of the
  HDC, and for the FDC, whatever \<open>disk.save\<close> and \<open>disk.restore\<close> do.
\<close>

theorem save_restore_round_trip:
  assumes "fATC t = fATC c" "aDriveConfigs t = aDriveConfigs c"
    and "length (aDrives t) = length (aDrives c)" "restorable c"
    and "length (aDrives_fdc tf) = length (aDrives_fdc cf)"
  shows "(\<exists>c2 ok. initController R t (saveController S c) = Some (c2, ok)
            \<and> (if fATC c then atc_registers c2 = atc_registers c
                else xtc_registers c2 = xtc_registers c)
            \<and> map position (aDrives c2) = map position (aDrives c))
       \<and> (\<exists>cf2 ok. initController_FDC R tf (saveController_FDC deltas cf) = Some (cf2, ok)
            \<and> fdc_registers cf2 = fdc_registers cf
            \<and> map position_fd (aDrives_fdc cf2) = map position_fd (aDrives_fdc cf))"
  using initController_saved [OF assms(1-4), of R S] initController_FDC_saved [OF assms(5), of R deltas]
  by blast

theorem save_restore_round_trip_witness:
  "fATC xtc_hdc_target = fATC xtc_hdc_example
   \<and> aDriveConfigs xtc_hdc_target = aDriveConfigs xtc_hdc_example
   \<and> length (aDrives xtc_hdc_target) = length (aDrives xtc_hdc_example)
   \<and> restorable xtc_hdc_example
   \<and> length (aDrives_fdc fdc_example) = length (aDrives_fdc fdc_seek_example)
   \<and> (\<exists>c2 ok. initController (\<lambda>dk deltas. (dk, 0)) xtc_hdc_target
                   (saveController (\<lambda>dk. JArr []) xtc_hdc_example) = Some (c2, ok)
          \<and> xtc_registers c2
              = ([Some 0x0C, None, None, None, Some (- 1)], [0, 0, 0], replicate 14 None)
          \<and> map position (aDrives c2) = [(Some 10, Some 2, Some 5, Some 0)])
   \<and> (\<exists>cf2 ok. initController_FDC (\<lambda>dk deltas. (dk, 0)) fdc_example
                    (saveController_FDC (JArr []) fdc_seek_example) = Some (cf2, ok)
          \<and> fdc_registers cf2
              = ([0, 0, 0x80, 0, 3, 0x1C, 0, 0], map Some [0x0F, 0, 5] @ replicate 6 None)
          \<and> map position_fd (aDrives_fdc cf2) = replicate 4 (Some 0, 0, None, None))"
proof -
  have h: "fATC xtc_hdc_target = fATC xtc_hdc_example"
    "aDriveConfigs xtc_hdc_target = aDriveConfigs xtc_hdc_example"
    "length (aDrives xtc_hdc_target) = length (aDrives xtc_hdc_example)"
    by (simp_all add: xtc_hdc_target_def xtc_hdc_example_def)
  have f: "length (aDrives_fdc fdc_example) = length (aDrives_fdc fdc_seek_example)"
    by (simp add: fdc_seek_example_def)
  have x: "fATC xtc_hdc_example = False"
    "xtc_registers xtc_hdc_example
       = ([Some 0x0C, None, None, None, Some (- 1)], [0, 0, 0], replicate 14 None)"
    "map position (aDrives xtc_hdc_example) = [(Some 10, Some 2, Some 5, Some 0)]"
    by (simp_all add: xtc_hdc_example_def xtc_registers_def position_def xtc_drive_example_def)
  have y: "fdc_registers fdc_seek_example
             = ([0, 0, 0x80, 0, 3, 0x1C, 0, 0], map Some [0x0F, 0, 5] @ replicate 6 None)"
    "map position_fd (aDrives_fdc fdc_seek_example) = replicate 4 (Some 0, 0, None, None)"
    by (simp_all add: fdc_seek_example_def fdc_example_def fdc_registers_def position_fd_def
                      fdrive_empty_def numeral_eq_Suc)
  show ?thesis
    using save_restore_round_trip [OF h restorable_example f,
            of "\<lambda>dk deltas. (dk, 0)" "\<lambda>dk. JArr []" "JArr []"]
          h restorable_example f
    unfolding x y by simp
qed

end
